theory Spec2Isabelle
  imports Complex_Main "HOL-Library.Monad_Syntax"
begin

section \<open>Conventions of the embedding\<close>

text \<open>
  The sources are the C files of the 16-state navigation filter: \<^verbatim>\<open>matrix.c\<close>,
  \<^verbatim>\<open>quaternion.c\<close>, \<^verbatim>\<open>vector3f.c\<close>, \<^verbatim>\<open>ekf_init.c\<close>, \<^verbatim>\<open>ekf_predict.c\<close>,
  \<^verbatim>\<open>ekf_update.c\<close> and \<^verbatim>\<open>ekf_mag_calibration.c\<close>.

  \<^item> A C \<^verbatim>\<open>float\<close> is modelled by a \<^typ>\<open>real\<close>: arithmetic is exact, rounding and
    overflow are not modelled. \<^verbatim>\<open>sqrtf\<close> is \<^const>\<open>sqrt\<close>, \<^verbatim>\<open>fabsf\<close> is \<^const>\<open>abs\<close>, the
    literal \<^verbatim>\<open>1e-6f\<close> is \<open>1 / 1000000\<close>. In particular the sum of squares in
    \<^verbatim>\<open>quaternion_magnitude\<close> is finite here for every input, while in \<^verbatim>\<open>float\<close> it is
    infinite for components beyond about \<open>10\<^sup>1\<^sup>9\<close>, where \<^verbatim>\<open>quaternion_normalize\<close> returns
    \<open>(0, 0, 0, 0)\<close>. No result below about the norm of a normalised quaternion covers
    such inputs.
  \<^item> A \<^verbatim>\<open>uint8_t\<close> dimension or loop counter is a \<^typ>\<open>nat\<close>. Every matrix the library
    builds has dimensions at most 16 (\<^verbatim>\<open>matrix_create\<close> clamps), far from the wrap-around
    at 256.
  \<^item> A pointer to a filter is an \<open>EKF ptr\<close>: \<open>NULL\<close>, or \<open>Ptr\<close> with the content of the
    object pointed to. A function that mutates the object returns its new content.
  \<^item> The matrix routines take pointers that may alias. They are modelled over a store
    that maps addresses to matrix objects, so that a call site states which of its
    arguments are the same object.
  \<^item> A result of type \<open>'a option\<close> is \<open>None\<close> where C leaves the behaviour undefined: an
    array access outside the \<open>16 \<times> 16\<close> storage, or the use of a local variable that a
    failed call (whose return value the caller ignores) never wrote.
\<close>

section \<open>Vectors and quaternions\<close>

record Vector3f =
  v_x :: real
  v_y :: real
  v_z :: real

record Quaternion =
  q_w :: real
  q_x :: real
  q_y :: real
  q_z :: real

definition quaternion_identity :: Quaternion where
  "quaternion_identity = \<lparr>q_w = 1, q_x = 0, q_y = 0, q_z = 0\<rparr>"

definition quaternion_create :: "real \<Rightarrow> real \<Rightarrow> real \<Rightarrow> real \<Rightarrow> Quaternion" where
  "quaternion_create w x y z = \<lparr>q_w = w, q_x = x, q_y = y, q_z = z\<rparr>"

definition quaternion_magnitude :: "Quaternion \<Rightarrow> real" where
  "quaternion_magnitude q = sqrt (q_w q * q_w q + q_x q * q_x q + q_y q * q_y q + q_z q * q_z q)"

definition quaternion_normalize :: "Quaternion \<Rightarrow> Quaternion" where
  "quaternion_normalize q =
     (let magnitude = quaternion_magnitude q in
      if magnitude < 1 / 1000000 then quaternion_identity
      else
        let inv_magnitude = 1 / magnitude in
        \<lparr>q_w = q_w q * inv_magnitude, q_x = q_x q * inv_magnitude,
         q_y = q_y q * inv_magnitude, q_z = q_z q * inv_magnitude\<rparr>)"

definition quaternion_multiply :: "Quaternion \<Rightarrow> Quaternion \<Rightarrow> Quaternion" where
  "quaternion_multiply q1 q2 =
     \<lparr>q_w = q_w q1 * q_w q2 - q_x q1 * q_x q2 - q_y q1 * q_y q2 - q_z q1 * q_z q2,
      q_x = q_w q1 * q_x q2 + q_x q1 * q_w q2 + q_y q1 * q_z q2 - q_z q1 * q_y q2,
      q_y = q_w q1 * q_y q2 - q_x q1 * q_z q2 + q_y q1 * q_w q2 + q_z q1 * q_x q2,
      q_z = q_w q1 * q_z q2 + q_x q1 * q_y q2 - q_y q1 * q_x q2 + q_z q1 * q_w q2\<rparr>"

definition quaternion_conjugate :: "Quaternion \<Rightarrow> Quaternion" where
  "quaternion_conjugate q = \<lparr>q_w = q_w q, q_x = - q_x q, q_y = - q_y q, q_z = - q_z q\<rparr>"

definition quaternion_rotate_vector :: "Quaternion \<Rightarrow> Vector3f \<Rightarrow> Vector3f" where
  "quaternion_rotate_vector q v =
     (let qw2 = q_w q * q_w q; qx2 = q_x q * q_x q; qy2 = q_y q * q_y q; qz2 = q_z q * q_z q;
          qwx = q_w q * q_x q; qwy = q_w q * q_y q; qwz = q_w q * q_z q;
          qxy = q_x q * q_y q; qxz = q_x q * q_z q; qyz = q_y q * q_z q;
          m11 = qw2 + qx2 - qy2 - qz2; m12 = 2 * (qxy - qwz); m13 = 2 * (qxz + qwy);
          m21 = 2 * (qxy + qwz); m22 = qw2 - qx2 + qy2 - qz2; m23 = 2 * (qyz - qwx);
          m31 = 2 * (qxz - qwy); m32 = 2 * (qyz + qwx); m33 = qw2 - qx2 - qy2 + qz2
      in \<lparr>v_x = m11 * v_x v + m12 * v_y v + m13 * v_z v,
          v_y = m21 * v_x v + m22 * v_y v + m23 * v_z v,
          v_z = m31 * v_x v + m32 * v_y v + m33 * v_z v\<rparr>)"

definition quaternion_derivative :: "Quaternion \<Rightarrow> Vector3f \<Rightarrow> Quaternion" where
  "quaternion_derivative q omega =
     (let omega_quat = \<lparr>q_w = 0, q_x = v_x omega, q_y = v_y omega, q_z = v_z omega\<rparr>;
          q_dot = quaternion_multiply q omega_quat
      in \<lparr>q_w = q_w q_dot * (1 / 2), q_x = q_x q_dot * (1 / 2),
          q_y = q_y q_dot * (1 / 2), q_z = q_z q_dot * (1 / 2)\<rparr>)"

text \<open>
  The C library functions used by \<^verbatim>\<open>quaternion_to_euler\<close>, as the mathematical functions
  they approximate.
\<close>

definition atan2f :: "real \<Rightarrow> real \<Rightarrow> real" where
  "atan2f y x =
     (if 0 < x then arctan (y / x)
      else if x < 0 then (if 0 \<le> y then arctan (y / x) + pi else arctan (y / x) - pi)
      else if 0 < y then pi / 2 else if y < 0 then - (pi / 2) else 0)"

definition copysignf :: "real \<Rightarrow> real \<Rightarrow> real" where
  "copysignf a s = (if s < 0 then - \<bar>a\<bar> else \<bar>a\<bar>)"

definition quaternion_to_euler :: "Quaternion \<Rightarrow> real \<times> real \<times> real" where
  \<comment> \<open>The three results are what the function stores through \<^verbatim>\<open>roll\<close>, \<^verbatim>\<open>pitch\<close>, \<^verbatim>\<open>yaw\<close>.\<close>
  "quaternion_to_euler q =
     (let qn = quaternion_normalize q;
          roll = atan2f (2 * (q_w qn * q_x qn + q_y qn * q_z qn))
                        (1 - 2 * (q_x qn * q_x qn + q_y qn * q_y qn));
          sinp = 2 * (q_w qn * q_y qn - q_z qn * q_x qn);
          pitch = (if \<bar>sinp\<bar> \<ge> 1 then copysignf (pi / 2) sinp else arcsin sinp);
          yaw = atan2f (2 * (q_w qn * q_z qn + q_x qn * q_y qn))
                       (1 - 2 * (q_y qn * q_y qn + q_z qn * q_z qn))
      in (roll, pitch, yaw))"

definition vector3f_zero :: Vector3f where
  "vector3f_zero = \<lparr>v_x = 0, v_y = 0, v_z = 0\<rparr>"

definition vector3f_create :: "real \<Rightarrow> real \<Rightarrow> real \<Rightarrow> Vector3f" where
  "vector3f_create x y z = \<lparr>v_x = x, v_y = y, v_z = z\<rparr>"

definition vector3f_add :: "Vector3f \<Rightarrow> Vector3f \<Rightarrow> Vector3f" where
  "vector3f_add v1 v2 = \<lparr>v_x = v_x v1 + v_x v2, v_y = v_y v1 + v_y v2, v_z = v_z v1 + v_z v2\<rparr>"

definition vector3f_subtract :: "Vector3f \<Rightarrow> Vector3f \<Rightarrow> Vector3f" where
  "vector3f_subtract v1 v2 =
     \<lparr>v_x = v_x v1 - v_x v2, v_y = v_y v1 - v_y v2, v_z = v_z v1 - v_z v2\<rparr>"

definition vector3f_scale :: "Vector3f \<Rightarrow> real \<Rightarrow> Vector3f" where
  "vector3f_scale v scalar = \<lparr>v_x = v_x v * scalar, v_y = v_y v * scalar, v_z = v_z v * scalar\<rparr>"

definition vector3f_cross :: "Vector3f \<Rightarrow> Vector3f \<Rightarrow> Vector3f" where
  "vector3f_cross v1 v2 =
     \<lparr>v_x = v_y v1 * v_z v2 - v_z v1 * v_y v2,
      v_y = v_z v1 * v_x v2 - v_x v1 * v_z v2,
      v_z = v_x v1 * v_y v2 - v_y v1 * v_x v2\<rparr>"

definition vector3f_magnitude :: "Vector3f \<Rightarrow> real" where
  "vector3f_magnitude v = sqrt (v_x v * v_x v + v_y v * v_y v + v_z v * v_z v)"

text \<open>
  The source defines \<^verbatim>\<open>vector3f_normalize\<close> twice. The definition of \<^verbatim>\<open>quaternion.c\<close>
  (lines 300-315):
\<close>

definition vector3f_normalize_quaternion_c :: "Vector3f \<Rightarrow> Vector3f" where
  "vector3f_normalize_quaternion_c v =
     (let magnitude = vector3f_magnitude v in
      if magnitude < 1 / 1000000 then vector3f_zero
      else
        let inv_magnitude = 1 / magnitude in
        \<lparr>v_x = v_x v * inv_magnitude, v_y = v_y v * inv_magnitude, v_z = v_z v * inv_magnitude\<rparr>)"

text \<open>The definition of \<^verbatim>\<open>vector3f.c\<close> (lines 99-111):\<close>

definition vector3f_normalize_vector3f_c :: "Vector3f \<Rightarrow> Vector3f" where
  "vector3f_normalize_vector3f_c v =
     (let mag = vector3f_magnitude v; result = v in
      if mag > 1 / 1000000 then
        let inv_mag = 1 / mag in
        result\<lparr>v_x := v_x result * inv_mag, v_y := v_y result * inv_mag,
               v_z := v_z result * inv_mag\<rparr>
      else result)"

section \<open>Properties of the vector routines\<close>

lemma vector3f_magnitude_x_axis:
  "vector3f_magnitude \<lparr>v_x = a, v_y = 0, v_z = 0\<rparr> = \<bar>a\<bar>"
  by (simp add: vector3f_magnitude_def)

text \<open>
  Claim C9, as stated: the two definitions of \<^verbatim>\<open>vector3f_normalize\<close> return the same result
  for every input vector. This fails for the vector \<open>(10\<^sup>-\<^sup>7, 0, 0)\<close>, of magnitude
  \<open>10\<^sup>-\<^sup>7\<close>: \<^verbatim>\<open>quaternion.c\<close> returns the zero vector, \<^verbatim>\<open>vector3f.c\<close> returns the input.
\<close>

theorem vector3f_normalize_differ:
  "vector3f_normalize_quaternion_c \<lparr>v_x = 1 / 10000000, v_y = 0, v_z = 0\<rparr> = vector3f_zero \<and>
   vector3f_normalize_vector3f_c \<lparr>v_x = 1 / 10000000, v_y = 0, v_z = 0\<rparr>
     = \<lparr>v_x = 1 / 10000000, v_y = 0, v_z = 0\<rparr> \<and>
   vector3f_normalize_quaternion_c \<lparr>v_x = 1 / 10000000, v_y = 0, v_z = 0\<rparr>
     \<noteq> vector3f_normalize_vector3f_c \<lparr>v_x = 1 / 10000000, v_y = 0, v_z = 0\<rparr>"
  by (simp add: vector3f_normalize_quaternion_c_def vector3f_normalize_vector3f_c_def
      vector3f_magnitude_x_axis vector3f_zero_def Let_def)

text \<open>
  Claim C9, amended: the two definitions of \<^verbatim>\<open>vector3f_normalize\<close> return the same result
  for every vector of magnitude above \<open>10\<^sup>-\<^sup>6\<close>; for a vector of magnitude below \<open>10\<^sup>-\<^sup>6\<close> the
  definition of \<^verbatim>\<open>quaternion.c\<close> returns the zero vector and the definition of
  \<^verbatim>\<open>vector3f.c\<close> returns the input unchanged (so they agree there only on the zero
  vector); at magnitude exactly \<open>10\<^sup>-\<^sup>6\<close> the former scales the input to unit length and the
  latter returns it unchanged.
\<close>

theorem vector3f_normalize_agreement:
  "(1 / 1000000 < vector3f_magnitude v \<longrightarrow>
      vector3f_normalize_quaternion_c v = vector3f_normalize_vector3f_c v) \<and>
   (vector3f_magnitude v < 1 / 1000000 \<longrightarrow>
      vector3f_normalize_quaternion_c v = vector3f_zero \<and>
      vector3f_normalize_vector3f_c v = v) \<and>
   (vector3f_magnitude v = 1 / 1000000 \<longrightarrow>
      vector3f_normalize_quaternion_c v = vector3f_scale v 1000000 \<and>
      vector3f_normalize_vector3f_c v = v)"
proof (intro conjI impI)
  assume "1 / 1000000 < vector3f_magnitude v"
  then show "vector3f_normalize_quaternion_c v = vector3f_normalize_vector3f_c v"
    by (simp add: vector3f_normalize_quaternion_c_def vector3f_normalize_vector3f_c_def Let_def)
next
  assume "vector3f_magnitude v < 1 / 1000000"
  then show "vector3f_normalize_quaternion_c v = vector3f_zero"
    and "vector3f_normalize_vector3f_c v = v"
    by (simp_all add: vector3f_normalize_quaternion_c_def vector3f_normalize_vector3f_c_def
        Let_def)
next
  assume h: "vector3f_magnitude v = 1 / 1000000"
  show "vector3f_normalize_quaternion_c v = vector3f_scale v 1000000"
    by (simp add: vector3f_normalize_quaternion_c_def vector3f_scale_def Let_def h)
  show "vector3f_normalize_vector3f_c v = v"
    by (simp add: vector3f_normalize_vector3f_c_def Let_def h)
qed

theorem vector3f_normalize_agreement_witness:
  "vector3f_normalize_quaternion_c \<lparr>v_x = 2, v_y = 0, v_z = 0\<rparr>
     = vector3f_normalize_vector3f_c \<lparr>v_x = 2, v_y = 0, v_z = 0\<rparr> \<and>
   vector3f_normalize_quaternion_c \<lparr>v_x = 1 / 10000000, v_y = 0, v_z = 0\<rparr> = vector3f_zero \<and>
   vector3f_normalize_vector3f_c \<lparr>v_x = 1 / 10000000, v_y = 0, v_z = 0\<rparr>
     = \<lparr>v_x = 1 / 10000000, v_y = 0, v_z = 0\<rparr> \<and>
   vector3f_normalize_quaternion_c \<lparr>v_x = 1 / 1000000, v_y = 0, v_z = 0\<rparr>
     = vector3f_scale \<lparr>v_x = 1 / 1000000, v_y = 0, v_z = 0\<rparr> 1000000 \<and>
   vector3f_normalize_vector3f_c \<lparr>v_x = 1 / 1000000, v_y = 0, v_z = 0\<rparr>
     = \<lparr>v_x = 1 / 1000000, v_y = 0, v_z = 0\<rparr>"
  using vector3f_normalize_agreement [of "\<lparr>v_x = 2, v_y = 0, v_z = 0\<rparr>"]
    vector3f_normalize_agreement [of "\<lparr>v_x = 1 / 10000000, v_y = 0, v_z = 0\<rparr>"]
    vector3f_normalize_agreement [of "\<lparr>v_x = 1 / 1000000, v_y = 0, v_z = 0\<rparr>"]
  by (simp add: vector3f_magnitude_x_axis)

section \<open>The dense matrix core\<close>

record Matrix =
  data :: "nat \<Rightarrow> nat \<Rightarrow> real"
  rows :: nat
  cols :: nat

definition MATRIX_MAX_SIZE :: nat where
  "MATRIX_MAX_SIZE = 16"

definition indeterminate :: Matrix where
  \<comment> \<open>The content of a matrix object that is declared and not yet written: nothing is known of it.\<close>
  "indeterminate = undefined"

definition poke :: "Matrix \<Rightarrow> nat \<Rightarrow> nat \<Rightarrow> real \<Rightarrow> Matrix" where
  \<comment> \<open>The assignment \<^verbatim>\<open>m.data[i][j] = v\<close>.\<close>
  "poke m i j v = m\<lparr>data := (data m)(i := (data m i)(j := v))\<rparr>"

definition matrix_create :: "nat \<Rightarrow> nat \<Rightarrow> Matrix" where
  "matrix_create rows0 cols0 =
     (let r = (if rows0 > MATRIX_MAX_SIZE then MATRIX_MAX_SIZE else rows0);
          c = (if cols0 > MATRIX_MAX_SIZE then MATRIX_MAX_SIZE else cols0);
          m = indeterminate\<lparr>rows := r, cols := c\<rparr>
      in fold (\<lambda>i m. fold (\<lambda>j m. poke m i j 0) [0..<c] m) [0..<r] m)"

definition matrix_identity :: "nat \<Rightarrow> Matrix" where
  "matrix_identity size0 =
     (let m = matrix_create size0 size0
      in fold (\<lambda>i m. poke m i i 1) [0..<size0] m)"

definition matrix_set :: "Matrix \<Rightarrow> nat \<Rightarrow> nat \<Rightarrow> real \<Rightarrow> bool \<times> Matrix" where
  "matrix_set m row col v =
     (if row \<ge> rows m \<or> col \<ge> cols m then (False, m) else (True, poke m row col v))"

definition matrix_get :: "Matrix \<Rightarrow> nat \<Rightarrow> nat \<Rightarrow> real option" where
  "matrix_get m row col =
     (if row \<ge> rows m \<or> col \<ge> cols m then None else Some (data m row col))"

type_synonym addr = nat
type_synonym store = "addr \<Rightarrow> Matrix"

definition matrix_add :: "addr \<Rightarrow> addr \<Rightarrow> addr \<Rightarrow> store \<Rightarrow> bool \<times> store" where
  "matrix_add a b result s =
     (if rows (s a) \<noteq> rows (s b) \<or> cols (s a) \<noteq> cols (s b) then (False, s)
      else
        let s1 = s(result := matrix_create (rows (s a)) (cols (s a)))
        in (True,
            fold (\<lambda>i s. fold (\<lambda>j s. s(result := poke (s result) i j (data (s a) i j + data (s b) i j)))
                            [0..<cols (s a)] s)
                 [0..<rows (s1 a)] s1))"

definition matrix_subtract :: "addr \<Rightarrow> addr \<Rightarrow> addr \<Rightarrow> store \<Rightarrow> bool \<times> store" where
  "matrix_subtract a b result s =
     (if rows (s a) \<noteq> rows (s b) \<or> cols (s a) \<noteq> cols (s b) then (False, s)
      else
        let s1 = s(result := matrix_create (rows (s a)) (cols (s a)))
        in (True,
            fold (\<lambda>i s. fold (\<lambda>j s. s(result := poke (s result) i j (data (s a) i j - data (s b) i j)))
                            [0..<cols (s a)] s)
                 [0..<rows (s1 a)] s1))"

definition matrix_multiply :: "addr \<Rightarrow> addr \<Rightarrow> addr \<Rightarrow> store \<Rightarrow> bool \<times> store" where
  "matrix_multiply a b result s =
     (if cols (s a) \<noteq> rows (s b) then (False, s)
      else
        let s1 = s(result := matrix_create (rows (s a)) (cols (s b)))
        in (True,
            fold (\<lambda>i s. fold (\<lambda>j s.
                    let sum0 = fold (\<lambda>k sum0. sum0 + data (s a) i k * data (s b) k j)
                                 [0..<cols (s a)] 0
                    in s(result := poke (s result) i j sum0))
                  [0..<cols (s b)] s)
                 [0..<rows (s1 a)] s1))"

definition matrix_scale :: "addr \<Rightarrow> real \<Rightarrow> addr \<Rightarrow> store \<Rightarrow> bool \<times> store" where
  "matrix_scale m scalar result s =
     (let s1 = s(result := matrix_create (rows (s m)) (cols (s m)))
      in (True,
          fold (\<lambda>i s. fold (\<lambda>j s. s(result := poke (s result) i j (data (s m) i j * scalar)))
                          [0..<cols (s m)] s)
               [0..<rows (s1 m)] s1))"

definition matrix_transpose :: "addr \<Rightarrow> addr \<Rightarrow> store \<Rightarrow> bool \<times> store" where
  "matrix_transpose m result s =
     (let s1 = s(result := matrix_create (cols (s m)) (rows (s m)))
      in (True,
          fold (\<lambda>i s. fold (\<lambda>j s. s(result := poke (s result) j i (data (s m) i j)))
                          [0..<cols (s m)] s)
               [0..<rows (s1 m)] s1))"

definition matrix_zero :: "Matrix \<Rightarrow> bool \<times> Matrix" where
  "matrix_zero m =
     (True, fold (\<lambda>i m. fold (\<lambda>j m. poke m i j 0) [0..<cols m] m) [0..<rows m] m)"

definition matrix_diagonal :: "Matrix \<Rightarrow> real \<Rightarrow> bool \<times> Matrix" where
  "matrix_diagonal m v =
     (let m = snd (matrix_zero m);
          min_dim = (if rows m < cols m then rows m else cols m)
      in (True, fold (\<lambda>i m. poke m i i v) [0..<min_dim] m))"

subsection \<open>Closed forms of the matrix loops\<close>

lemma poke_simps [simp]:
  "rows (poke m i j v) = rows m"
  "cols (poke m i j v) = cols m"
  "data (poke m i j v) i' j' = (if i' = i \<and> j' = j then v else data m i' j')"
  by (simp_all add: poke_def)

lemma Matrix_eqI:
  "rows m = rows m' \<Longrightarrow> cols m = cols m' \<Longrightarrow> (\<And>i j. data m i j = data m' i j) \<Longrightarrow>
   (m :: Matrix) = m'"
  by (cases m, cases m') (auto intro!: ext)

lemma fold_fill_row:
  "fold (\<lambda>j m. poke m i j (f j)) [0..<c] m
     = m\<lparr>data := (data m)(i := (\<lambda>j. if j < c then f j else data m i j))\<rparr>"
proof (induction c)
  case 0
  show ?case by (intro Matrix_eqI) simp_all
next
  case (Suc c)
  show ?case
    by (simp add: Suc) (intro Matrix_eqI, simp_all)
qed

lemma fold_fill_grid:
  "fold (\<lambda>i m. fold (\<lambda>j m. poke m i j (f i j)) [0..<c] m) [0..<r] m
     = m\<lparr>data := (\<lambda>i j. if i < r \<and> j < c then f i j else data m i j)\<rparr>"
proof (induction r)
  case 0
  show ?case by (intro Matrix_eqI) simp_all
next
  case (Suc r)
  have step: "fold (\<lambda>i m. fold (\<lambda>j m. poke m i j (f i j)) [0..<c] m) [0..<Suc r] m
      = fold (\<lambda>j m. poke m r j (f r j)) [0..<c]
          (fold (\<lambda>i m. fold (\<lambda>j m. poke m i j (f i j)) [0..<c] m) [0..<r] m)"
    by simp
  show ?case
    unfolding step Suc by (intro Matrix_eqI) (auto simp: fold_fill_row less_Suc_eq)
qed

lemma fold_fill_col:
  "fold (\<lambda>j m. poke m j i (f j)) [0..<c] m
     = m\<lparr>data := (\<lambda>j k. if j < c \<and> k = i then f j else data m j k)\<rparr>"
proof (induction c)
  case 0
  show ?case by (intro Matrix_eqI) simp_all
next
  case (Suc c)
  show ?case
    by (simp add: Suc) (intro Matrix_eqI, auto simp: less_Suc_eq)
qed

lemma fold_fill_grid_transposed:
  "fold (\<lambda>i m. fold (\<lambda>j m. poke m j i (f i j)) [0..<c] m) [0..<r] m
     = m\<lparr>data := (\<lambda>j i. if i < r \<and> j < c then f i j else data m j i)\<rparr>"
proof (induction r)
  case 0
  show ?case by (intro Matrix_eqI) simp_all
next
  case (Suc r)
  have step: "fold (\<lambda>i m. fold (\<lambda>j m. poke m j i (f i j)) [0..<c] m) [0..<Suc r] m
      = fold (\<lambda>j m. poke m j r (f r j)) [0..<c]
          (fold (\<lambda>i m. fold (\<lambda>j m. poke m j i (f i j)) [0..<c] m) [0..<r] m)"
    by simp
  show ?case
    unfolding step Suc by (intro Matrix_eqI) (auto simp: fold_fill_col less_Suc_eq)
qed

lemma fold_fill_diag:
  "fold (\<lambda>i m. poke m i i (f i)) [0..<n] m
     = m\<lparr>data := (\<lambda>i j. if i < n \<and> j = i then f i else data m i j)\<rparr>"
proof (induction n)
  case 0
  show ?case by (intro Matrix_eqI) simp_all
next
  case (Suc n)
  show ?case
    by (simp add: Suc) (intro Matrix_eqI, auto simp: less_Suc_eq)
qed

lemma fold_accumulate_row:
  "fold (\<lambda>j m. poke m i j (data m i j + f j)) [0..<c] m
     = m\<lparr>data := (data m)(i := (\<lambda>j. if j < c then data m i j + f j else data m i j))\<rparr>"
proof (induction c)
  case 0
  show ?case by (intro Matrix_eqI) simp_all
next
  case (Suc c)
  show ?case
    by (simp add: Suc) (intro Matrix_eqI, simp_all)
qed

lemma fold_store_lift:
  assumes "\<And>x t. (\<forall>p. p \<noteq> r \<longrightarrow> t p = s p) \<Longrightarrow> f x t = t(r := g x (t r))"
  shows "fold f xs s = s(r := fold g xs (s r))"
proof -
  have "(\<forall>p. p \<noteq> r \<longrightarrow> t p = s p) \<Longrightarrow> fold f xs t = t(r := fold g xs (t r))" for t
  proof (induction xs arbitrary: t)
    case Nil
    show ?case by simp
  next
    case (Cons x xs)
    have step: "f x t = t(r := g x (t r))"
      using assms Cons.prems by blast
    have "fold f xs (t(r := g x (t r))) = (t(r := g x (t r)))(r := fold g xs ((t(r := g x (t r))) r))"
      by (rule Cons.IH) (simp add: Cons.prems)
    then show ?case by (simp add: step)
  qed
  then show ?thesis by blast
qed

lemma fold_sum_products:
  "fold (\<lambda>k acc. acc + f k) [0..<n] (a :: real) = a + (\<Sum>k<n. f k)"
  by (induction n) simp_all

lemma matrix_create_cells [simp]:
  "rows (matrix_create r c) = min r 16"
  "cols (matrix_create r c) = min c 16"
  "i < r \<Longrightarrow> i < 16 \<Longrightarrow> j < c \<Longrightarrow> j < 16 \<Longrightarrow> data (matrix_create r c) i j = 0"
  by (auto simp: matrix_create_def MATRIX_MAX_SIZE_def Let_def fold_fill_grid)

lemma matrix_create_outside:
  "data (matrix_create r c) i j
     = (if i < min r 16 \<and> j < min c 16 then 0 else data indeterminate i j)"
  by (auto simp: matrix_create_def MATRIX_MAX_SIZE_def Let_def fold_fill_grid)


definition matrix_of :: "nat \<Rightarrow> nat \<Rightarrow> (nat \<Rightarrow> nat \<Rightarrow> real) \<Rightarrow> Matrix" where
  "matrix_of r c f =
     \<lparr>data = (\<lambda>i j. if i < r \<and> j < c then f i j else data indeterminate i j), rows = r, cols = c\<rparr>"

lemma matrix_of_simps [simp]:
  "rows (matrix_of r c f) = r"
  "cols (matrix_of r c f) = c"
  "i < r \<Longrightarrow> j < c \<Longrightarrow> data (matrix_of r c f) i j = f i j"
  by (simp_all add: matrix_of_def)

lemma store_grid_fill:
  assumes body: "\<And>t i j. (\<forall>p. p \<noteq> r \<longrightarrow> t p = s p) \<Longrightarrow> body i j t = t(r := poke (t r) i j (f i j))"
    and bound: "\<And>t. (\<forall>p. p \<noteq> r \<longrightarrow> t p = s p) \<Longrightarrow> bound t = c"
  shows "fold (\<lambda>i t. fold (\<lambda>j t. body i j t) [0..<bound t] t) [0..<n] s
     = s(r := (s r)\<lparr>data := (\<lambda>i j. if i < n \<and> j < c then f i j else data (s r) i j)\<rparr>)"
proof -
  have inner: "fold (\<lambda>j t. body i j t) [0..<bound t] t
      = t(r := fold (\<lambda>j m. poke m i j (f i j)) [0..<c] (t r))"
    if agree: "\<forall>p. p \<noteq> r \<longrightarrow> t p = s p" for i t
  proof -
    have "fold (\<lambda>j t. body i j t) [0..<c] t = t(r := fold (\<lambda>j m. poke m i j (f i j)) [0..<c] (t r))"
    proof (rule fold_store_lift)
      fix x u
      assume "\<forall>p. p \<noteq> r \<longrightarrow> u p = t p"
      with agree have "\<forall>p. p \<noteq> r \<longrightarrow> u p = s p" by simp
      then show "body i x u = u(r := poke (u r) i x (f i x))" by (rule body)
    qed
    then show ?thesis by (simp add: bound [OF agree])
  qed
  have "fold (\<lambda>i t. fold (\<lambda>j t. body i j t) [0..<bound t] t) [0..<n] s
      = s(r := fold (\<lambda>i m. fold (\<lambda>j m. poke m i j (f i j)) [0..<c] m) [0..<n] (s r))"
    by (rule fold_store_lift) (rule inner)
  then show ?thesis by (simp add: fold_fill_grid)
qed

lemma matrix_add_distinct:
  assumes "result \<noteq> a" "result \<noteq> b"
    and "rows (s a) = rows (s b)" "cols (s a) = cols (s b)"
    and "rows (s a) \<le> 16" "cols (s a) \<le> 16"
  shows "matrix_add a b result s
     = (True, s(result := matrix_of (rows (s a)) (cols (s a)) (\<lambda>i j. data (s a) i j + data (s b) i j)))"
proof -
  let ?s1 = "s(result := matrix_create (rows (s a)) (cols (s a)))"
  have "fold (\<lambda>i t. fold (\<lambda>j t. t(result := poke (t result) i j (data (t a) i j + data (t b) i j)))
                  [0..<cols (t a)] t) [0..<rows (s a)] ?s1
      = ?s1(result := (?s1 result)\<lparr>data := (\<lambda>i j. if i < rows (s a) \<and> j < cols (s a)
            then data (s a) i j + data (s b) i j else data (?s1 result) i j)\<rparr>)"
    by (rule store_grid_fill) (use assms in simp_all)
  then show ?thesis
    using assms
    by (simp add: matrix_add_def Let_def matrix_of_def fun_eq_iff matrix_create_outside
        min_absorb1 cong: if_cong)
qed


lemma fold_accumulate_grid:
  "fold (\<lambda>i m. fold (\<lambda>j m. poke m i j (data m i j + f i j)) [0..<cols m] m) [0..<r] m
     = m\<lparr>data := (\<lambda>i j. if i < r \<and> j < cols m then data m i j + f i j else data m i j)\<rparr>"
proof (induction r)
  case 0
  show ?case by (intro Matrix_eqI) simp_all
next
  case (Suc r)
  have step: "fold (\<lambda>i m. fold (\<lambda>j m. poke m i j (data m i j + f i j)) [0..<cols m] m) [0..<Suc r] m
      = (\<lambda>m. fold (\<lambda>j m. poke m r j (data m r j + f r j)) [0..<cols m] m)
          (fold (\<lambda>i m. fold (\<lambda>j m. poke m i j (data m i j + f i j)) [0..<cols m] m) [0..<r] m)"
    by simp
  show ?case
    unfolding step Suc by (intro Matrix_eqI) (auto simp: fold_accumulate_row less_Suc_eq)
qed

text \<open>
  The aliased call \<^verbatim>\<open>matrix_add(&r, &b, &r)\<close>: the assignment
  \<^verbatim>\<open>*result = matrix_create(a->rows, a->cols)\<close> zeroes the first operand before the loop
  reads it, so the result is \<open>0 + b\<close>.
\<close>

lemma matrix_add_aliased:
  assumes "b \<noteq> r"
    and "rows (s r) = rows (s b)" "cols (s r) = cols (s b)"
    and "rows (s r) \<le> 16" "cols (s r) \<le> 16"
  shows "matrix_add r b r s
     = (True, s(r := matrix_of (rows (s r)) (cols (s r)) (\<lambda>i j. data (s b) i j)))"
proof -
  let ?c = "matrix_create (rows (s r)) (cols (s r))"
  let ?s1 = "s(r := ?c)"
  have inner: "fold (\<lambda>j t. t(r := poke (t r) i j (data (t r) i j + data (t b) i j))) [0..<cols (t r)] t
      = t(r := fold (\<lambda>j m. poke m i j (data m i j + data (s b) i j)) [0..<cols (t r)] (t r))"
    if agree: "\<forall>p. p \<noteq> r \<longrightarrow> t p = ?s1 p" for i t
  proof (rule fold_store_lift)
    fix x u
    assume "\<forall>p. p \<noteq> r \<longrightarrow> u p = t p"
    with agree assms(1) have "u b = s b" by simp
    then show "u(r := poke (u r) i x (data (u r) i x + data (u b) i x))
        = u(r := poke (u r) i x (data (u r) i x + data (s b) i x))"
      by simp
  qed
  have "fold (\<lambda>i t. fold (\<lambda>j t. t(r := poke (t r) i j (data (t r) i j + data (t b) i j)))
                  [0..<cols (t r)] t) [0..<rows (?s1 r)] ?s1
      = ?s1(r := fold (\<lambda>i m. fold (\<lambda>j m. poke m i j (data m i j + data (s b) i j)) [0..<cols m] m)
                  [0..<rows (?s1 r)] (?s1 r))"
    by (rule fold_store_lift) (use inner in simp)
  then show ?thesis
    using assms
    by (simp add: matrix_add_def Let_def matrix_of_def fun_eq_iff matrix_create_outside
        fold_accumulate_grid min_absorb1 cong: if_cong)
qed

lemma matrix_add_mismatch:
  "rows (s a) \<noteq> rows (s b) \<or> cols (s a) \<noteq> cols (s b) \<Longrightarrow> matrix_add a b result s = (False, s)"
  by (simp add: matrix_add_def)

lemma matrix_subtract_distinct:
  assumes "result \<noteq> a" "result \<noteq> b"
    and "rows (s a) = rows (s b)" "cols (s a) = cols (s b)"
    and "rows (s a) \<le> 16" "cols (s a) \<le> 16"
  shows "matrix_subtract a b result s
     = (True, s(result := matrix_of (rows (s a)) (cols (s a)) (\<lambda>i j. data (s a) i j - data (s b) i j)))"
proof -
  let ?s1 = "s(result := matrix_create (rows (s a)) (cols (s a)))"
  have "fold (\<lambda>i t. fold (\<lambda>j t. t(result := poke (t result) i j (data (t a) i j - data (t b) i j)))
                  [0..<cols (t a)] t) [0..<rows (s a)] ?s1
      = ?s1(result := (?s1 result)\<lparr>data := (\<lambda>i j. if i < rows (s a) \<and> j < cols (s a)
            then data (s a) i j - data (s b) i j else data (?s1 result) i j)\<rparr>)"
    by (rule store_grid_fill) (use assms in simp_all)
  then show ?thesis
    using assms
    by (simp add: matrix_subtract_def Let_def matrix_of_def fun_eq_iff matrix_create_outside
        min_absorb1 cong: if_cong)
qed

lemma matrix_multiply_distinct:
  assumes "result \<noteq> a" "result \<noteq> b"
    and "cols (s a) = rows (s b)"
    and "rows (s a) \<le> 16" "cols (s b) \<le> 16"
  shows "matrix_multiply a b result s
     = (True, s(result := matrix_of (rows (s a)) (cols (s b))
          (\<lambda>i j. \<Sum>k<cols (s a). data (s a) i k * data (s b) k j)))"
proof -
  let ?s1 = "s(result := matrix_create (rows (s a)) (cols (s b)))"
  have "fold (\<lambda>i t. fold (\<lambda>j t.
            let sum0 = fold (\<lambda>k sum0. sum0 + data (t a) i k * data (t b) k j) [0..<cols (t a)] 0
            in t(result := poke (t result) i j sum0))
          [0..<cols (t b)] t) [0..<rows (s a)] ?s1
      = ?s1(result := (?s1 result)\<lparr>data := (\<lambda>i j. if i < rows (s a) \<and> j < cols (s b)
            then (\<Sum>k<cols (s a). data (s a) i k * data (s b) k j) else data (?s1 result) i j)\<rparr>)"
    by (rule store_grid_fill) (use assms in \<open>simp_all add: fold_sum_products\<close>)
  then show ?thesis
    using assms
    by (simp add: matrix_multiply_def Let_def matrix_of_def fun_eq_iff matrix_create_outside
        min_absorb1 cong: if_cong)
qed

lemma matrix_multiply_mismatch:
  "cols (s a) \<noteq> rows (s b) \<Longrightarrow> matrix_multiply a b result s = (False, s)"
  by (simp add: matrix_multiply_def)

lemma matrix_scale_distinct:
  assumes "result \<noteq> m" "rows (s m) \<le> 16" "cols (s m) \<le> 16"
  shows "matrix_scale m scalar result s
     = (True, s(result := matrix_of (rows (s m)) (cols (s m)) (\<lambda>i j. data (s m) i j * scalar)))"
proof -
  let ?s1 = "s(result := matrix_create (rows (s m)) (cols (s m)))"
  have "fold (\<lambda>i t. fold (\<lambda>j t. t(result := poke (t result) i j (data (t m) i j * scalar)))
                  [0..<cols (t m)] t) [0..<rows (s m)] ?s1
      = ?s1(result := (?s1 result)\<lparr>data := (\<lambda>i j. if i < rows (s m) \<and> j < cols (s m)
            then data (s m) i j * scalar else data (?s1 result) i j)\<rparr>)"
    by (rule store_grid_fill) (use assms in simp_all)
  then show ?thesis
    using assms
    by (simp add: matrix_scale_def Let_def matrix_of_def fun_eq_iff matrix_create_outside
        min_absorb1 cong: if_cong)
qed

lemma matrix_transpose_distinct:
  assumes "result \<noteq> m" "rows (s m) \<le> 16" "cols (s m) \<le> 16"
  shows "matrix_transpose m result s
     = (True, s(result := matrix_of (cols (s m)) (rows (s m)) (\<lambda>j i. data (s m) i j)))"
proof -
  let ?s1 = "s(result := matrix_create (cols (s m)) (rows (s m)))"
  let ?g = "\<lambda>i M. fold (\<lambda>j M. poke M j i (data (s m) i j)) [0..<cols (s m)] M"
  have inner: "fold (\<lambda>j t. t(result := poke (t result) j i (data (t m) i j))) [0..<cols (t m)] t
      = t(result := ?g i (t result))"
    if agree: "\<forall>p. p \<noteq> result \<longrightarrow> t p = ?s1 p" for i t
  proof -
    have tm: "t m = s m" using agree assms(1) by simp
    have "fold (\<lambda>j t. t(result := poke (t result) j i (data (t m) i j))) [0..<cols (s m)] t
      = t(result := ?g i (t result))"
    proof (rule fold_store_lift)
      fix x u
      assume "\<forall>p. p \<noteq> result \<longrightarrow> u p = t p"
      with tm assms(1) have "u m = s m" by simp
      then show "u(result := poke (u result) x i (data (u m) i x))
          = u(result := poke (u result) x i (data (s m) i x))"
        by simp
    qed
    then show ?thesis by (simp add: tm)
  qed
  have "fold (\<lambda>i t. fold (\<lambda>j t. t(result := poke (t result) j i (data (t m) i j)))
                  [0..<cols (t m)] t) [0..<rows (s m)] ?s1
      = ?s1(result := fold ?g [0..<rows (s m)] (?s1 result))"
    by (rule fold_store_lift) (use inner in simp)
  then show ?thesis
    using assms
    by (simp add: matrix_transpose_def Let_def matrix_of_def fun_eq_iff matrix_create_outside
        fold_fill_grid_transposed min_absorb1 cong: if_cong)
qed

lemma matrix_zero_cells [simp]:
  "fst (matrix_zero m) = True"
  "rows (snd (matrix_zero m)) = rows m"
  "cols (snd (matrix_zero m)) = cols m"
  "data (snd (matrix_zero m)) i j = (if i < rows m \<and> j < cols m then 0 else data m i j)"
proof -
  have "fold (\<lambda>i m. fold (\<lambda>j m. poke m i j 0) [0..<cols m] m) [0..<r] m
      = fold (\<lambda>i m. fold (\<lambda>j m. poke m i j 0) [0..<c] m) [0..<r] m" if "cols m = c" for r c m
    using that
  proof (induction r)
    case 0
    show ?case by simp
  next
    case (Suc r)
    then show ?case by (simp add: fold_fill_grid)
  qed
  then have eq: "snd (matrix_zero m)
      = m\<lparr>data := (\<lambda>i j. if i < rows m \<and> j < cols m then 0 else data m i j)\<rparr>"
    by (simp add: matrix_zero_def fold_fill_grid)
  show "fst (matrix_zero m) = True" by (simp add: matrix_zero_def)
  show "rows (snd (matrix_zero m)) = rows m" by (simp add: eq)
  show "cols (snd (matrix_zero m)) = cols m" by (simp add: eq)
  show "data (snd (matrix_zero m)) i j = (if i < rows m \<and> j < cols m then 0 else data m i j)"
    by (simp add: eq)
qed

lemma matrix_diagonal_cells [simp]:
  "fst (matrix_diagonal m v) = True"
  "rows (snd (matrix_diagonal m v)) = rows m"
  "cols (snd (matrix_diagonal m v)) = cols m"
  "i < rows m \<Longrightarrow> j < cols m \<Longrightarrow> data (snd (matrix_diagonal m v)) i j = (if i = j then v else 0)"
  by (auto simp: matrix_diagonal_def Let_def fold_fill_diag)

lemma matrix_identity_cells [simp]:
  "rows (matrix_identity n) = min n 16"
  "cols (matrix_identity n) = min n 16"
  "n \<le> 16 \<Longrightarrow> i < n \<Longrightarrow> j < n \<Longrightarrow> data (matrix_identity n) i j = (if i = j then 1 else 0)"
  by (auto simp: matrix_identity_def Let_def fold_fill_diag)

lemma matrix_set_cells [simp]:
  "rows (snd (matrix_set m r c v)) = rows m"
  "cols (snd (matrix_set m r c v)) = cols m"
  "data (snd (matrix_set m r c v)) i j
     = (if r < rows m \<and> c < cols m \<and> i = r \<and> j = c then v else data m i j)"
  "fst (matrix_set m r c v) = (r < rows m \<and> c < cols m)"
  by (auto simp: matrix_set_def)

lemma matrix_get_Some [simp]:
  "r < rows m \<Longrightarrow> c < cols m \<Longrightarrow> matrix_get m r c = Some (data m r c)"
  by (simp add: matrix_get_def)

subsection \<open>Pointers, arrays and loops that may leave the storage\<close>

datatype 'a ptr = NULL | Ptr 'a

definition array_read :: "'a list \<Rightarrow> nat \<Rightarrow> 'a option" where
  \<comment> \<open>\<^verbatim>\<open>xs[i]\<close> for an array of \<open>length xs\<close> elements.\<close>
  "array_read xs i = (if i < length xs then Some (xs ! i) else None)"

definition rd :: "Matrix \<Rightarrow> nat \<Rightarrow> nat \<Rightarrow> real option" where
  \<comment> \<open>The read \<^verbatim>\<open>m.data[i][j]\<close>, checked against the storage
     \<^verbatim>\<open>float data[MATRIX_MAX_SIZE][MATRIX_MAX_SIZE]\<close>.\<close>
  "rd m i j = (if i < MATRIX_MAX_SIZE \<and> j < MATRIX_MAX_SIZE then Some (data m i j) else None)"

definition wr :: "Matrix \<Rightarrow> nat \<Rightarrow> nat \<Rightarrow> real \<Rightarrow> Matrix option" where
  \<comment> \<open>The write \<^verbatim>\<open>m.data[i][j] = v\<close>, checked in the same way.\<close>
  "wr m i j v = (if i < MATRIX_MAX_SIZE \<and> j < MATRIX_MAX_SIZE then Some (poke m i j v) else None)"

fun ofold :: "('a \<Rightarrow> 's \<Rightarrow> 's option) \<Rightarrow> 'a list \<Rightarrow> 's \<Rightarrow> 's option" where
  "ofold f [] s = Some s"
| "ofold f (x # xs) s = (case f x s of None \<Rightarrow> None | Some s' \<Rightarrow> ofold f xs s')"

definition matrix_diagonal_vector :: "Matrix \<Rightarrow> real list ptr \<Rightarrow> nat \<Rightarrow> (bool \<times> Matrix) option" where
  "matrix_diagonal_vector m values0 size0 =
     (case values0 of
        NULL \<Rightarrow> Some (False, m)
      | Ptr vs \<Rightarrow>
          let m = snd (matrix_zero m);
              min_dim = (if rows m < cols m then rows m else cols m);
              min_dim = (if size0 < min_dim then size0 else min_dim)
          in do {
            m \<leftarrow> ofold (\<lambda>i m. do { v \<leftarrow> array_read vs i; Some (poke m i i v) }) [0..<min_dim] m;
            Some (True, m)
          })"

datatype 'a outcome = Returned_false | Returned_true 'a

text \<open>
  \<^verbatim>\<open>matrix_inverse\<close> (lines 166-242). The working matrix \<^verbatim>\<open>augmented\<close> is a local; the
  argument \<^verbatim>\<open>m\<close> is read before \<^verbatim>\<open>*result\<close> is written, so the function is modelled on
  the content of \<^verbatim>\<open>*m\<close>. \<open>Returned_true r\<close>: the function returns true and has stored \<open>r\<close>
  in \<^verbatim>\<open>*result\<close>; \<open>Returned_false\<close>: it returns false and has not written \<^verbatim>\<open>*result\<close>.
  The argument \<^verbatim>\<open>2 * n\<close> of \<^verbatim>\<open>matrix_create\<close> is converted to \<^verbatim>\<open>uint8_t\<close>.
\<close>

definition find_pivot :: "nat \<Rightarrow> nat \<Rightarrow> Matrix \<Rightarrow> (nat \<times> real) option" where
  \<comment> \<open>Lines 192-200: the pivot search in column \<open>i\<close>.\<close>
  "find_pivot n i augmented = do {
     d \<leftarrow> rd augmented i i;
     ofold (\<lambda>j (pivot, max_val). do {
              v \<leftarrow> rd augmented j i;
              Some (if \<bar>v\<bar> > max_val then (j, \<bar>v\<bar>) else (pivot, max_val))
            }) [i + 1..<n] (i, \<bar>d\<bar>)
   }"

definition swap_rows :: "nat \<Rightarrow> nat \<Rightarrow> nat \<Rightarrow> Matrix \<Rightarrow> Matrix option" where
  \<comment> \<open>Lines 209-213.\<close>
  "swap_rows n i pivot augmented =
     ofold (\<lambda>j aug. do {
              temp \<leftarrow> rd aug i j;
              v \<leftarrow> rd aug pivot j;
              aug \<leftarrow> wr aug i j v;
              wr aug pivot j temp
            }) [0..<2 * n] augmented"

definition normalize_pivot_row :: "nat \<Rightarrow> nat \<Rightarrow> Matrix \<Rightarrow> Matrix option" where
  \<comment> \<open>Lines 217-220.\<close>
  "normalize_pivot_row n i augmented = do {
     pivot_val \<leftarrow> rd augmented i i;
     ofold (\<lambda>j aug. do { v \<leftarrow> rd aug i j; wr aug i j (v / pivot_val) }) [0..<2 * n] augmented
   }"

definition eliminate_rows :: "nat \<Rightarrow> nat \<Rightarrow> Matrix \<Rightarrow> Matrix option" where
  \<comment> \<open>Lines 223-230.\<close>
  "eliminate_rows n i augmented =
     ofold (\<lambda>j aug.
        if j \<noteq> i then do {
          factor \<leftarrow> rd aug j i;
          ofold (\<lambda>k aug. do {
                   a \<leftarrow> rd aug j k;
                   b \<leftarrow> rd aug i k;
                   wr aug j k (a - factor * b)
                 }) [0..<2 * n] aug
        } else Some aug) [0..<n] augmented"

fun gauss_jordan :: "nat \<Rightarrow> nat list \<Rightarrow> Matrix \<Rightarrow> Matrix outcome option" where
  \<comment> \<open>Lines 190-231: the loop over \<open>i\<close>, left by \<^verbatim>\<open>return false\<close> at a pivot below \<open>10\<^sup>-\<^sup>6\<close>.\<close>
  "gauss_jordan n [] augmented = Some (Returned_true augmented)"
| "gauss_jordan n (i # is) augmented =
     (case find_pivot n i augmented of
        None \<Rightarrow> None
      | Some (pivot, max_val) \<Rightarrow>
          if max_val < 1 / 1000000 then Some Returned_false
          else
            (case (if pivot \<noteq> i then swap_rows n i pivot augmented else Some augmented) of
               None \<Rightarrow> None
             | Some augmented \<Rightarrow>
                 (case normalize_pivot_row n i augmented of
                    None \<Rightarrow> None
                  | Some augmented \<Rightarrow>
                      (case eliminate_rows n i augmented of
                         None \<Rightarrow> None
                       | Some augmented \<Rightarrow> gauss_jordan n is augmented))))"

definition matrix_inverse :: "Matrix \<Rightarrow> Matrix outcome option" where
  "matrix_inverse m =
     (if rows m \<noteq> cols m then Some Returned_false
      else do {
        let n = rows m;
        let augmented = matrix_create n ((2 * n) mod 256);
        augmented \<leftarrow> ofold (\<lambda>i aug. ofold (\<lambda>j aug. do { v \<leftarrow> rd m i j; wr aug i j v })
                                          [0..<n] aug) [0..<n] augmented;
        augmented \<leftarrow> ofold (\<lambda>i aug. wr aug i (i + n) 1) [0..<n] augmented;
        r \<leftarrow> gauss_jordan n [0..<n] augmented;
        (case r of
           Returned_false \<Rightarrow> Some Returned_false
         | Returned_true augmented \<Rightarrow> do {
             let result = matrix_create n n;
             result \<leftarrow> ofold (\<lambda>i res. ofold (\<lambda>j res. do { v \<leftarrow> rd augmented i (j + n); wr res i j v })
                                             [0..<n] res) [0..<n] result;
             Some (Returned_true result)
           })
      })"

lemma ofold_None:
  "x \<in> set xs \<Longrightarrow> (\<And>t. f x t = None) \<Longrightarrow> ofold f xs s = None"
  by (induction xs arbitrary: s) (auto split: option.splits)

lemma matrix_inverse_leaves_storage:
  assumes "rows m = cols m" and "8 < rows m"
  shows "matrix_inverse m = None"
proof -
  let ?n = "rows m"
  have "ofold (\<lambda>i aug. wr aug i (i + ?n) 1) [0..<?n] aug = None" for aug
  proof (rule ofold_None [where x = "?n - 1"])
    show "?n - 1 \<in> set [0..<?n]" using assms by simp
    show "wr t (?n - 1) (?n - 1 + ?n) 1 = None" for t
      using assms by (auto simp: wr_def MATRIX_MAX_SIZE_def)
  qed
  then show ?thesis
    using assms by (simp add: matrix_inverse_def Let_def split: Option.bind_split)
qed

subsection \<open>Calls of the matrix routines\<close>

text \<open>
  How the filter code calls the store-level routines. \<open>binop_call f a b r0\<close> is the call
  \<^verbatim>\<open>f(&a, &b, &r)\<close> on three distinct objects, where \<open>r0\<close> is the content of \<^verbatim>\<open>r\<close> before
  the call; it yields the return value and the content of \<^verbatim>\<open>r\<close> afterwards.
  \<open>binop_call_aliased f r0 b\<close> is the call \<^verbatim>\<open>f(&r, &b, &r)\<close>, whose first operand is the
  result object. \<open>unop_call f m r0\<close> is \<^verbatim>\<open>f(&m, &r)\<close> on two distinct objects.
\<close>

definition binop_call ::
  "(addr \<Rightarrow> addr \<Rightarrow> addr \<Rightarrow> store \<Rightarrow> bool \<times> store) \<Rightarrow> Matrix \<Rightarrow> Matrix \<Rightarrow> Matrix \<Rightarrow> bool \<times> Matrix" where
  "binop_call f a b r0 =
     (let (ok, s) = f 0 1 2 ((\<lambda>_. r0)(0 := a, 1 := b)) in (ok, s 2))"

definition binop_call_aliased ::
  "(addr \<Rightarrow> addr \<Rightarrow> addr \<Rightarrow> store \<Rightarrow> bool \<times> store) \<Rightarrow> Matrix \<Rightarrow> Matrix \<Rightarrow> bool \<times> Matrix" where
  "binop_call_aliased f r0 b =
     (let (ok, s) = f 0 1 0 ((\<lambda>_. b)(0 := r0)) in (ok, s 0))"

definition unop_call ::
  "(addr \<Rightarrow> addr \<Rightarrow> store \<Rightarrow> bool \<times> store) \<Rightarrow> Matrix \<Rightarrow> Matrix \<Rightarrow> bool \<times> Matrix" where
  "unop_call f m r0 =
     (let (ok, s) = f 0 1 ((\<lambda>_. r0)(0 := m)) in (ok, s 1))"

definition written :: "bool \<times> Matrix \<Rightarrow> Matrix option" where
  \<comment> \<open>A local matrix declared without initialiser and passed as result to a call whose
     return value is ignored: it has a content only if the call wrote it.\<close>
  "written r = (if fst r then Some (snd r) else None)"

section \<open>The filter (ekf.h, ekf\_init.c)\<close>

record EKF =
  x_vec :: Matrix
  P_cov :: Matrix
  Q_cov :: Matrix
  R_gps :: Matrix
  R_baro :: Matrix
  R_mag :: Matrix
  gravity :: real
  earth_mag_ned :: Vector3f
  initialized :: bool

text \<open>
  The fields \<^verbatim>\<open>x\<close>, \<^verbatim>\<open>P\<close> and \<^verbatim>\<open>Q\<close> of the C struct are \<open>x_vec\<close>, \<open>P_cov\<close> and \<open>Q_cov\<close>.
\<close>

abbreviation (input) EKF_STATE_DIM :: nat where "EKF_STATE_DIM \<equiv> 16"
abbreviation (input) EKF_STATE_POS_X :: nat where "EKF_STATE_POS_X \<equiv> 0"
abbreviation (input) EKF_STATE_POS_Y :: nat where "EKF_STATE_POS_Y \<equiv> 1"
abbreviation (input) EKF_STATE_POS_Z :: nat where "EKF_STATE_POS_Z \<equiv> 2"
abbreviation (input) EKF_STATE_VEL_X :: nat where "EKF_STATE_VEL_X \<equiv> 3"
abbreviation (input) EKF_STATE_VEL_Y :: nat where "EKF_STATE_VEL_Y \<equiv> 4"
abbreviation (input) EKF_STATE_VEL_Z :: nat where "EKF_STATE_VEL_Z \<equiv> 5"
abbreviation (input) EKF_STATE_QUAT_W :: nat where "EKF_STATE_QUAT_W \<equiv> 6"
abbreviation (input) EKF_STATE_QUAT_X :: nat where "EKF_STATE_QUAT_X \<equiv> 7"
abbreviation (input) EKF_STATE_QUAT_Y :: nat where "EKF_STATE_QUAT_Y \<equiv> 8"
abbreviation (input) EKF_STATE_QUAT_Z :: nat where "EKF_STATE_QUAT_Z \<equiv> 9"
abbreviation (input) EKF_STATE_GYRO_BIAS_X :: nat where "EKF_STATE_GYRO_BIAS_X \<equiv> 10"
abbreviation (input) EKF_STATE_GYRO_BIAS_Y :: nat where "EKF_STATE_GYRO_BIAS_Y \<equiv> 11"
abbreviation (input) EKF_STATE_GYRO_BIAS_Z :: nat where "EKF_STATE_GYRO_BIAS_Z \<equiv> 12"
abbreviation (input) EKF_STATE_ACC_BIAS_X :: nat where "EKF_STATE_ACC_BIAS_X \<equiv> 13"
abbreviation (input) EKF_STATE_ACC_BIAS_Y :: nat where "EKF_STATE_ACC_BIAS_Y \<equiv> 14"
abbreviation (input) EKF_STATE_ACC_BIAS_Z :: nat where "EKF_STATE_ACC_BIAS_Z \<equiv> 15"

definition set_state :: "EKF \<Rightarrow> nat \<Rightarrow> real \<Rightarrow> EKF" where
  \<comment> \<open>The statement \<^verbatim>\<open>matrix_set(&ekf->x, index, 0, v);\<close>, whose return value is ignored.\<close>
  "set_state ekf index v = ekf\<lparr>x_vec := snd (matrix_set (x_vec ekf) index 0 v)\<rparr>"

definition set_Q :: "EKF \<Rightarrow> nat \<Rightarrow> nat \<Rightarrow> real \<Rightarrow> EKF" where
  \<comment> \<open>The statement \<^verbatim>\<open>matrix_set(&ekf->Q, i, j, v);\<close>.\<close>
  "set_Q ekf i j v = ekf\<lparr>Q_cov := snd (matrix_set (Q_cov ekf) i j v)\<rparr>"

definition set_R_gps :: "EKF \<Rightarrow> nat \<Rightarrow> nat \<Rightarrow> real \<Rightarrow> EKF" where
  "set_R_gps ekf i j v = ekf\<lparr>R_gps := snd (matrix_set (R_gps ekf) i j v)\<rparr>"

definition set_R_mag :: "EKF \<Rightarrow> nat \<Rightarrow> nat \<Rightarrow> real \<Rightarrow> EKF" where
  "set_R_mag ekf i j v = ekf\<lparr>R_mag := snd (matrix_set (R_mag ekf) i j v)\<rparr>"

definition ekf_init :: "EKF ptr \<Rightarrow> (bool \<times> EKF ptr) option" where
  "ekf_init p =
     (case p of
        NULL \<Rightarrow> Some (False, NULL)
      | Ptr ekf \<Rightarrow> do {
          let ekf = ekf\<lparr>x_vec := matrix_create EKF_STATE_DIM 1\<rparr>;
          let ekf = ekf\<lparr>P_cov := matrix_create EKF_STATE_DIM EKF_STATE_DIM\<rparr>;
          let ekf = ekf\<lparr>P_cov := snd (matrix_diagonal (P_cov ekf) 1)\<rparr>;
          let ekf = ekf\<lparr>Q_cov := matrix_create EKF_STATE_DIM EKF_STATE_DIM\<rparr>;
          let ekf = ekf\<lparr>Q_cov := snd (matrix_diagonal (Q_cov ekf) (1 / 100))\<rparr>;
          let ekf = ekf\<lparr>R_gps := matrix_create 6 6\<rparr>;
          let gps_std = [5, 5, 10, 1 / 2, 1 / 2, 1];
          (ok, R) \<leftarrow> matrix_diagonal_vector (R_gps ekf) (Ptr gps_std) 6;
          let ekf = ekf\<lparr>R_gps := R\<rparr>;
          let ekf = ekf\<lparr>R_baro := matrix_create 1 1\<rparr>;
          let ekf = ekf\<lparr>R_baro := snd (matrix_set (R_baro ekf) 0 0 1)\<rparr>;
          let ekf = ekf\<lparr>R_mag := matrix_create 3 3\<rparr>;
          let ekf = ekf\<lparr>R_mag := snd (matrix_diagonal (R_mag ekf) (1 / 10))\<rparr>;
          let ekf = ekf\<lparr>gravity := 980665 / 100000\<rparr>;
          let ekf = ekf\<lparr>earth_mag_ned := vector3f_create (29 / 100) (- (5 / 100)) (42 / 100)\<rparr>;
          let ekf = ekf\<lparr>initialized := False\<rparr>;
          Some (True, Ptr ekf)
        })"

definition ekf_set_initial_state ::
  "EKF ptr \<Rightarrow> Vector3f \<Rightarrow> Vector3f \<Rightarrow> Quaternion \<Rightarrow> (bool \<times> EKF ptr) option" where
  "ekf_set_initial_state p pos vel q =
     (case p of
        NULL \<Rightarrow> Some (False, NULL)
      | Ptr ekf \<Rightarrow> do {
          let ekf = set_state ekf EKF_STATE_POS_X (v_x pos);
          let ekf = set_state ekf EKF_STATE_POS_Y (v_y pos);
          let ekf = set_state ekf EKF_STATE_POS_Z (v_z pos);
          let ekf = set_state ekf EKF_STATE_VEL_X (v_x vel);
          let ekf = set_state ekf EKF_STATE_VEL_Y (v_y vel);
          let ekf = set_state ekf EKF_STATE_VEL_Z (v_z vel);
          let qn = quaternion_normalize q;
          let ekf = set_state ekf EKF_STATE_QUAT_W (q_w qn);
          let ekf = set_state ekf EKF_STATE_QUAT_X (q_x qn);
          let ekf = set_state ekf EKF_STATE_QUAT_Y (q_y qn);
          let ekf = set_state ekf EKF_STATE_QUAT_Z (q_z qn);
          let ekf = set_state ekf EKF_STATE_GYRO_BIAS_X 0;
          let ekf = set_state ekf EKF_STATE_GYRO_BIAS_Y 0;
          let ekf = set_state ekf EKF_STATE_GYRO_BIAS_Z 0;
          let ekf = set_state ekf EKF_STATE_ACC_BIAS_X 0;
          let ekf = set_state ekf EKF_STATE_ACC_BIAS_Y 0;
          let ekf = set_state ekf EKF_STATE_ACC_BIAS_Z 0;
          let p_diag = [10, 10, 10, 1, 1, 1, 1 / 10, 1 / 10, 1 / 10, 1 / 10,
                        1 / 100, 1 / 100, 1 / 100, 1 / 10, 1 / 10, 1 / 10];
          (ok, P) \<leftarrow> matrix_diagonal_vector (P_cov ekf) (Ptr p_diag) EKF_STATE_DIM;
          let ekf = ekf\<lparr>P_cov := P\<rparr>;
          let ekf = ekf\<lparr>initialized := True\<rparr>;
          Some (True, Ptr ekf)
        })"

definition ekf_set_process_noise ::
  "EKF ptr \<Rightarrow> real \<Rightarrow> real \<Rightarrow> real \<Rightarrow> real \<Rightarrow> real \<Rightarrow> bool \<times> EKF ptr" where
  "ekf_set_process_noise p pos_std vel_std att_std gyro_bias_std acc_bias_std =
     (case p of
        NULL \<Rightarrow> (False, NULL)
      | Ptr ekf \<Rightarrow>
          let ekf = ekf\<lparr>Q_cov := snd (matrix_zero (Q_cov ekf))\<rparr>;
              ekf = set_Q ekf EKF_STATE_POS_X EKF_STATE_POS_X (pos_std * pos_std);
              ekf = set_Q ekf EKF_STATE_POS_Y EKF_STATE_POS_Y (pos_std * pos_std);
              ekf = set_Q ekf EKF_STATE_POS_Z EKF_STATE_POS_Z (pos_std * pos_std);
              ekf = set_Q ekf EKF_STATE_VEL_X EKF_STATE_VEL_X (vel_std * vel_std);
              ekf = set_Q ekf EKF_STATE_VEL_Y EKF_STATE_VEL_Y (vel_std * vel_std);
              ekf = set_Q ekf EKF_STATE_VEL_Z EKF_STATE_VEL_Z (vel_std * vel_std);
              ekf = set_Q ekf EKF_STATE_QUAT_W EKF_STATE_QUAT_W (att_std * att_std);
              ekf = set_Q ekf EKF_STATE_QUAT_X EKF_STATE_QUAT_X (att_std * att_std);
              ekf = set_Q ekf EKF_STATE_QUAT_Y EKF_STATE_QUAT_Y (att_std * att_std);
              ekf = set_Q ekf EKF_STATE_QUAT_Z EKF_STATE_QUAT_Z (att_std * att_std);
              ekf = set_Q ekf EKF_STATE_GYRO_BIAS_X EKF_STATE_GYRO_BIAS_X (gyro_bias_std * gyro_bias_std);
              ekf = set_Q ekf EKF_STATE_GYRO_BIAS_Y EKF_STATE_GYRO_BIAS_Y (gyro_bias_std * gyro_bias_std);
              ekf = set_Q ekf EKF_STATE_GYRO_BIAS_Z EKF_STATE_GYRO_BIAS_Z (gyro_bias_std * gyro_bias_std);
              ekf = set_Q ekf EKF_STATE_ACC_BIAS_X EKF_STATE_ACC_BIAS_X (acc_bias_std * acc_bias_std);
              ekf = set_Q ekf EKF_STATE_ACC_BIAS_Y EKF_STATE_ACC_BIAS_Y (acc_bias_std * acc_bias_std);
              ekf = set_Q ekf EKF_STATE_ACC_BIAS_Z EKF_STATE_ACC_BIAS_Z (acc_bias_std * acc_bias_std)
          in (True, Ptr ekf))"

definition ekf_set_gps_noise :: "EKF ptr \<Rightarrow> real \<Rightarrow> real \<Rightarrow> bool \<times> EKF ptr" where
  "ekf_set_gps_noise p pos_std vel_std =
     (case p of
        NULL \<Rightarrow> (False, NULL)
      | Ptr ekf \<Rightarrow>
          let ekf = ekf\<lparr>R_gps := snd (matrix_zero (R_gps ekf))\<rparr>;
              ekf = set_R_gps ekf 0 0 (pos_std * pos_std);
              ekf = set_R_gps ekf 1 1 (pos_std * pos_std);
              ekf = set_R_gps ekf 2 2 (pos_std * pos_std);
              ekf = set_R_gps ekf 3 3 (vel_std * vel_std);
              ekf = set_R_gps ekf 4 4 (vel_std * vel_std);
              ekf = set_R_gps ekf 5 5 (vel_std * vel_std)
          in (True, Ptr ekf))"

definition ekf_set_baro_noise :: "EKF ptr \<Rightarrow> real \<Rightarrow> bool \<times> EKF ptr" where
  "ekf_set_baro_noise p baro_std =
     (case p of
        NULL \<Rightarrow> (False, NULL)
      | Ptr ekf \<Rightarrow>
          (True, Ptr (ekf\<lparr>R_baro := snd (matrix_set (R_baro ekf) 0 0 (baro_std * baro_std))\<rparr>)))"

definition ekf_set_mag_noise :: "EKF ptr \<Rightarrow> real \<Rightarrow> bool \<times> EKF ptr" where
  "ekf_set_mag_noise p mag_std =
     (case p of
        NULL \<Rightarrow> (False, NULL)
      | Ptr ekf \<Rightarrow>
          let ekf = ekf\<lparr>R_mag := snd (matrix_zero (R_mag ekf))\<rparr>;
              ekf = set_R_mag ekf 0 0 (mag_std * mag_std);
              ekf = set_R_mag ekf 1 1 (mag_std * mag_std);
              ekf = set_R_mag ekf 2 2 (mag_std * mag_std)
          in (True, Ptr ekf))"

definition ekf_set_earth_magnetic_field :: "EKF ptr \<Rightarrow> Vector3f \<Rightarrow> bool \<times> EKF ptr" where
  "ekf_set_earth_magnetic_field p mag_ned =
     (case p of
        NULL \<Rightarrow> (False, NULL)
      | Ptr ekf \<Rightarrow> (True, Ptr (ekf\<lparr>earth_mag_ned := mag_ned\<rparr>)))"

definition ekf_get_position :: "EKF ptr \<Rightarrow> Vector3f option" where
  "ekf_get_position p =
     (let pos = vector3f_zero in
      case p of
        NULL \<Rightarrow> Some pos
      | Ptr ekf \<Rightarrow>
          if \<not> initialized ekf then Some pos
          else do {
            x \<leftarrow> matrix_get (x_vec ekf) EKF_STATE_POS_X 0;
            y \<leftarrow> matrix_get (x_vec ekf) EKF_STATE_POS_Y 0;
            z \<leftarrow> matrix_get (x_vec ekf) EKF_STATE_POS_Z 0;
            Some (pos\<lparr>v_x := x, v_y := y, v_z := z\<rparr>)
          })"

definition ekf_get_velocity :: "EKF ptr \<Rightarrow> Vector3f option" where
  "ekf_get_velocity p =
     (let vel = vector3f_zero in
      case p of
        NULL \<Rightarrow> Some vel
      | Ptr ekf \<Rightarrow>
          if \<not> initialized ekf then Some vel
          else do {
            vx \<leftarrow> matrix_get (x_vec ekf) EKF_STATE_VEL_X 0;
            vy \<leftarrow> matrix_get (x_vec ekf) EKF_STATE_VEL_Y 0;
            vz \<leftarrow> matrix_get (x_vec ekf) EKF_STATE_VEL_Z 0;
            Some (vel\<lparr>v_x := vx, v_y := vy, v_z := vz\<rparr>)
          })"

definition ekf_get_attitude :: "EKF ptr \<Rightarrow> Quaternion option" where
  "ekf_get_attitude p =
     (let q = quaternion_identity in
      case p of
        NULL \<Rightarrow> Some q
      | Ptr ekf \<Rightarrow>
          if \<not> initialized ekf then Some q
          else do {
            w \<leftarrow> matrix_get (x_vec ekf) EKF_STATE_QUAT_W 0;
            x \<leftarrow> matrix_get (x_vec ekf) EKF_STATE_QUAT_X 0;
            y \<leftarrow> matrix_get (x_vec ekf) EKF_STATE_QUAT_Y 0;
            z \<leftarrow> matrix_get (x_vec ekf) EKF_STATE_QUAT_Z 0;
            Some (quaternion_normalize (q\<lparr>q_w := w, q_x := x, q_y := y, q_z := z\<rparr>))
          })"

text \<open>
  \<^verbatim>\<open>ekf_get_euler\<close> stores its results through three pointers. Each is modelled by the
  content of the \<^verbatim>\<open>float\<close> it points to (\<open>NULL\<close> for a null pointer), before and after
  the call.
\<close>

definition ekf_get_euler ::
  "EKF ptr \<Rightarrow> real ptr \<Rightarrow> real ptr \<Rightarrow> real ptr \<Rightarrow> (bool \<times> real ptr \<times> real ptr \<times> real ptr) option" where
  "ekf_get_euler p roll pitch yaw =
     (case p of
        NULL \<Rightarrow> Some (False, roll, pitch, yaw)
      | Ptr ekf \<Rightarrow>
          if \<not> initialized ekf \<or> roll = NULL \<or> pitch = NULL \<or> yaw = NULL
          then Some (False, roll, pitch, yaw)
          else do {
            q \<leftarrow> ekf_get_attitude p;
            let (r, pi0, y) = quaternion_to_euler q;
            Some (True, Ptr r, Ptr pi0, Ptr y)
          })"

definition ekf_get_gyro_bias :: "EKF ptr \<Rightarrow> Vector3f option" where
  "ekf_get_gyro_bias p =
     (let bias = vector3f_zero in
      case p of
        NULL \<Rightarrow> Some bias
      | Ptr ekf \<Rightarrow>
          if \<not> initialized ekf then Some bias
          else do {
            bx \<leftarrow> matrix_get (x_vec ekf) EKF_STATE_GYRO_BIAS_X 0;
            by0 \<leftarrow> matrix_get (x_vec ekf) EKF_STATE_GYRO_BIAS_Y 0;
            bz \<leftarrow> matrix_get (x_vec ekf) EKF_STATE_GYRO_BIAS_Z 0;
            Some (bias\<lparr>v_x := bx, v_y := by0, v_z := bz\<rparr>)
          })"

definition ekf_get_accel_bias :: "EKF ptr \<Rightarrow> Vector3f option" where
  "ekf_get_accel_bias p =
     (let bias = vector3f_zero in
      case p of
        NULL \<Rightarrow> Some bias
      | Ptr ekf \<Rightarrow>
          if \<not> initialized ekf then Some bias
          else do {
            bx \<leftarrow> matrix_get (x_vec ekf) EKF_STATE_ACC_BIAS_X 0;
            by0 \<leftarrow> matrix_get (x_vec ekf) EKF_STATE_ACC_BIAS_Y 0;
            bz \<leftarrow> matrix_get (x_vec ekf) EKF_STATE_ACC_BIAS_Z 0;
            Some (bias\<lparr>v_x := bx, v_y := by0, v_z := bz\<rparr>)
          })"

definition ekf_reset :: "EKF ptr \<Rightarrow> (bool \<times> EKF ptr) option" where
  "ekf_reset p =
     (case p of
        NULL \<Rightarrow> Some (False, NULL)
      | Ptr ekf \<Rightarrow> do {
          let ekf = ekf\<lparr>x_vec := snd (matrix_zero (x_vec ekf))\<rparr>;
          let ekf = set_state ekf EKF_STATE_QUAT_W 1;
          let p_diag = [100, 100, 100, 10, 10, 10, 1, 1, 1, 1,
                        1 / 100, 1 / 100, 1 / 100, 1 / 10, 1 / 10, 1 / 10];
          (ok, P) \<leftarrow> matrix_diagonal_vector (P_cov ekf) (Ptr p_diag) EKF_STATE_DIM;
          let ekf = ekf\<lparr>P_cov := P\<rparr>;
          let ekf = ekf\<lparr>initialized := False\<rparr>;
          Some (True, Ptr ekf)
        })"

section \<open>Magnetic reference initialisation (ekf\_mag\_calibration.c)\<close>

text \<open>
  \<^verbatim>\<open>ekf_mag_calibration.h\<close> includes \<^verbatim>\<open>math/vector3f.h\<close>, so \<^verbatim>\<open>vector3f_normalize\<close> is the
  definition of \<^verbatim>\<open>vector3f.c\<close> here. An array argument is the list of its elements.
\<close>

definition ekf_compute_ned_transform :: "Vector3f \<Rightarrow> real list ptr \<Rightarrow> real list ptr option" where
  \<comment> \<open>The result is the content of the array \<^verbatim>\<open>dcm\<close> after the call.\<close>
  "ekf_compute_ned_transform accel dcm =
     (case dcm of
        NULL \<Rightarrow> Some NULL
      | Ptr d \<Rightarrow>
          let down = vector3f_scale accel (- 1);
              down = vector3f_normalize_vector3f_c down;
              east_approx = vector3f_create 0 1 0;
              north = vector3f_cross down east_approx;
              north = vector3f_normalize_vector3f_c north;
              east = vector3f_cross north down;
              east = vector3f_normalize_vector3f_c east
          in if length d < 9 then None
             else Some (Ptr (d[0 := v_x north, 1 := v_y north, 2 := v_z north,
                              3 := v_x east, 4 := v_y east, 5 := v_z east,
                              6 := v_x down, 7 := v_y down, 8 := v_z down])))"

definition ekf_convert_to_ned :: "Vector3f \<Rightarrow> real list ptr \<Rightarrow> Vector3f option" where
  "ekf_convert_to_ned vec_body dcm =
     (case dcm of
        NULL \<Rightarrow> Some vec_body
      | Ptr d \<Rightarrow> do {
          d0 \<leftarrow> array_read d 0; d1 \<leftarrow> array_read d 1; d2 \<leftarrow> array_read d 2;
          d3 \<leftarrow> array_read d 3; d4 \<leftarrow> array_read d 4; d5 \<leftarrow> array_read d 5;
          d6 \<leftarrow> array_read d 6; d7 \<leftarrow> array_read d 7; d8 \<leftarrow> array_read d 8;
          Some \<lparr>v_x = d0 * v_x vec_body + d1 * v_y vec_body + d2 * v_z vec_body,
                v_y = d3 * v_x vec_body + d4 * v_y vec_body + d5 * v_z vec_body,
                v_z = d6 * v_x vec_body + d7 * v_y vec_body + d8 * v_z vec_body\<rparr>
        })"

definition ekf_calibrate_magnetic_field ::
  "Vector3f list ptr \<Rightarrow> Vector3f list ptr \<Rightarrow> int \<Rightarrow> Vector3f option" where
  "ekf_calibrate_magnetic_field mag_samples accel_samples sample_count =
     (case (mag_samples, accel_samples) of
        (Ptr mags, Ptr accels) \<Rightarrow>
          if sample_count \<le> 0 then Some (vector3f_create (29 / 100) (- (5 / 100)) (42 / 100))
          else do {
            (avg_mag, avg_accel) \<leftarrow>
              ofold (\<lambda>i (avg_mag, avg_accel). do {
                       m \<leftarrow> array_read mags i;
                       a \<leftarrow> array_read accels i;
                       Some (vector3f_add avg_mag m, vector3f_add avg_accel a)
                     }) [0..<nat sample_count] (vector3f_zero, vector3f_zero);
            let avg_mag = vector3f_scale avg_mag (1 / real_of_int sample_count);
            let avg_accel = vector3f_scale avg_accel (1 / real_of_int sample_count);
            dcm \<leftarrow> ekf_compute_ned_transform avg_accel (Ptr (replicate 9 undefined));
            mag_ned \<leftarrow> ekf_convert_to_ned avg_mag dcm;
            Some (vector3f_normalize_vector3f_c mag_ned)
          }
      | _ \<Rightarrow> Some (vector3f_create (29 / 100) (- (5 / 100)) (42 / 100)))"

definition ekf_initialize_default_magnetic_field :: "EKF ptr \<Rightarrow> bool \<times> EKF ptr" where
  "ekf_initialize_default_magnetic_field p =
     (case p of
        NULL \<Rightarrow> (False, NULL)
      | Ptr ekf \<Rightarrow>
          (True, Ptr (ekf\<lparr>earth_mag_ned := vector3f_create (29 / 100) (- (5 / 100)) (42 / 100)\<rparr>)))"

definition ekf_initialize_magnetic_field ::
  "EKF ptr \<Rightarrow> Vector3f list ptr \<Rightarrow> Vector3f list ptr \<Rightarrow> int \<Rightarrow> (bool \<times> EKF ptr) option" where
  "ekf_initialize_magnetic_field p mag_samples accel_samples sample_count =
     (if p = NULL \<or> mag_samples = NULL \<or> accel_samples = NULL \<or> sample_count \<le> 0
      then Some (ekf_initialize_default_magnetic_field p)
      else do {
        mag_ned \<leftarrow> ekf_calibrate_magnetic_field mag_samples accel_samples sample_count;
        (case p of
           NULL \<Rightarrow> None
         | Ptr ekf \<Rightarrow> Some (True, Ptr (ekf\<lparr>earth_mag_ned := mag_ned\<rparr>)))
      })"

section \<open>Prediction (ekf\_predict.c)\<close>

text \<open>
  \<^verbatim>\<open>ekf_compute_jacobian\<close> is static; its one call passes the filter pointer that
  \<^verbatim>\<open>ekf_predict\<close> has checked and the address of a local, so its \<^verbatim>\<open>NULL\<close> test never
  fires and the model takes the filter itself. The reads of the velocity and of the
  accelerometer bias (lines 38-47) store into locals that are never used and are left out.
  The result is the return value and the content of \<^verbatim>\<open>*F\<close>.
\<close>

definition ekf_compute_jacobian :: "EKF \<Rightarrow> real \<Rightarrow> (bool \<times> Matrix) option" where
  "ekf_compute_jacobian ekf dt = do {
     let F = matrix_identity EKF_STATE_DIM;
     let F = snd (matrix_set F EKF_STATE_POS_X EKF_STATE_VEL_X dt);
     let F = snd (matrix_set F EKF_STATE_POS_Y EKF_STATE_VEL_Y dt);
     let F = snd (matrix_set F EKF_STATE_POS_Z EKF_STATE_VEL_Z dt);
     qw \<leftarrow> matrix_get (x_vec ekf) EKF_STATE_QUAT_W 0;
     qx \<leftarrow> matrix_get (x_vec ekf) EKF_STATE_QUAT_X 0;
     qy \<leftarrow> matrix_get (x_vec ekf) EKF_STATE_QUAT_Y 0;
     qz \<leftarrow> matrix_get (x_vec ekf) EKF_STATE_QUAT_Z 0;
     let qnorm = sqrt (qw * qw + qx * qx + qy * qy + qz * qz);
     let (qw, qx, qy, qz) =
       (if qnorm < 1 / 1000000 then (1, 0, 0, 0)
        else (qw / qnorm, qx / qnorm, qy / qnorm, qz / qnorm));
     let F = snd (matrix_set F EKF_STATE_QUAT_W EKF_STATE_GYRO_BIAS_X (- (1 / 2) * qx * dt));
     let F = snd (matrix_set F EKF_STATE_QUAT_W EKF_STATE_GYRO_BIAS_Y (- (1 / 2) * qy * dt));
     let F = snd (matrix_set F EKF_STATE_QUAT_W EKF_STATE_GYRO_BIAS_Z (- (1 / 2) * qz * dt));
     let F = snd (matrix_set F EKF_STATE_QUAT_X EKF_STATE_GYRO_BIAS_X (1 / 2 * qw * dt));
     let F = snd (matrix_set F EKF_STATE_QUAT_X EKF_STATE_GYRO_BIAS_Y (- (1 / 2) * qz * dt));
     let F = snd (matrix_set F EKF_STATE_QUAT_X EKF_STATE_GYRO_BIAS_Z (1 / 2 * qy * dt));
     let F = snd (matrix_set F EKF_STATE_QUAT_Y EKF_STATE_GYRO_BIAS_X (1 / 2 * qz * dt));
     let F = snd (matrix_set F EKF_STATE_QUAT_Y EKF_STATE_GYRO_BIAS_Y (1 / 2 * qw * dt));
     let F = snd (matrix_set F EKF_STATE_QUAT_Y EKF_STATE_GYRO_BIAS_Z (- (1 / 2) * qx * dt));
     let F = snd (matrix_set F EKF_STATE_QUAT_Z EKF_STATE_GYRO_BIAS_X (- (1 / 2) * qy * dt));
     let F = snd (matrix_set F EKF_STATE_QUAT_Z EKF_STATE_GYRO_BIAS_Y (1 / 2 * qx * dt));
     let F = snd (matrix_set F EKF_STATE_QUAT_Z EKF_STATE_GYRO_BIAS_Z (1 / 2 * qw * dt));
     let R11 = 1 - 2 * (qy * qy + qz * qz);
     let R12 = 2 * (qx * qy - qw * qz);
     let R13 = 2 * (qx * qz + qw * qy);
     let R21 = 2 * (qx * qy + qw * qz);
     let R22 = 1 - 2 * (qx * qx + qz * qz);
     let R23 = 2 * (qy * qz - qw * qx);
     let R31 = 2 * (qx * qz - qw * qy);
     let R32 = 2 * (qy * qz + qw * qx);
     let R33 = 1 - 2 * (qx * qx + qy * qy);
     let F = snd (matrix_set F EKF_STATE_VEL_X EKF_STATE_ACC_BIAS_X (- R11 * dt));
     let F = snd (matrix_set F EKF_STATE_VEL_X EKF_STATE_ACC_BIAS_Y (- R12 * dt));
     let F = snd (matrix_set F EKF_STATE_VEL_X EKF_STATE_ACC_BIAS_Z (- R13 * dt));
     let F = snd (matrix_set F EKF_STATE_VEL_Y EKF_STATE_ACC_BIAS_X (- R21 * dt));
     let F = snd (matrix_set F EKF_STATE_VEL_Y EKF_STATE_ACC_BIAS_Y (- R22 * dt));
     let F = snd (matrix_set F EKF_STATE_VEL_Y EKF_STATE_ACC_BIAS_Z (- R23 * dt));
     let F = snd (matrix_set F EKF_STATE_VEL_Z EKF_STATE_ACC_BIAS_X (- R31 * dt));
     let F = snd (matrix_set F EKF_STATE_VEL_Z EKF_STATE_ACC_BIAS_Y (- R32 * dt));
     let F = snd (matrix_set F EKF_STATE_VEL_Z EKF_STATE_ACC_BIAS_Z (- R33 * dt));
     Some (True, F)
   }"

text \<open>
  \<^verbatim>\<open>ekf_predict\<close> in two parts: lines 124-221 propagate the state vector, lines 225-241
  propagate the covariance.
\<close>

definition ekf_predict_state :: "EKF \<Rightarrow> Vector3f \<Rightarrow> Vector3f \<Rightarrow> real \<Rightarrow> EKF option" where
  "ekf_predict_state ekf gyro accel dt = do {
     px \<leftarrow> matrix_get (x_vec ekf) EKF_STATE_POS_X 0;
     py \<leftarrow> matrix_get (x_vec ekf) EKF_STATE_POS_Y 0;
     pz \<leftarrow> matrix_get (x_vec ekf) EKF_STATE_POS_Z 0;
     vx \<leftarrow> matrix_get (x_vec ekf) EKF_STATE_VEL_X 0;
     vy \<leftarrow> matrix_get (x_vec ekf) EKF_STATE_VEL_Y 0;
     vz \<leftarrow> matrix_get (x_vec ekf) EKF_STATE_VEL_Z 0;
     qw \<leftarrow> matrix_get (x_vec ekf) EKF_STATE_QUAT_W 0;
     qx \<leftarrow> matrix_get (x_vec ekf) EKF_STATE_QUAT_X 0;
     qy \<leftarrow> matrix_get (x_vec ekf) EKF_STATE_QUAT_Y 0;
     qz \<leftarrow> matrix_get (x_vec ekf) EKF_STATE_QUAT_Z 0;
     bgx \<leftarrow> matrix_get (x_vec ekf) EKF_STATE_GYRO_BIAS_X 0;
     bgy \<leftarrow> matrix_get (x_vec ekf) EKF_STATE_GYRO_BIAS_Y 0;
     bgz \<leftarrow> matrix_get (x_vec ekf) EKF_STATE_GYRO_BIAS_Z 0;
     bax \<leftarrow> matrix_get (x_vec ekf) EKF_STATE_ACC_BIAS_X 0;
     bay \<leftarrow> matrix_get (x_vec ekf) EKF_STATE_ACC_BIAS_Y 0;
     baz \<leftarrow> matrix_get (x_vec ekf) EKF_STATE_ACC_BIAS_Z 0;
     let q = quaternion_create qw qx qy qz;
     let q = quaternion_normalize q;
     let qw = q_w q; let qx = q_x q; let qy = q_y q; let qz = q_z q;
     let gyro_corrected = vector3f_create (v_x gyro - bgx) (v_y gyro - bgy) (v_z gyro - bgz);
     let accel_corrected = vector3f_create (v_x accel - bax) (v_y accel - bay) (v_z accel - baz);
     let q_dot = quaternion_derivative q gyro_corrected;
     let qw = qw + q_w q_dot * dt;
     let qx = qx + q_x q_dot * dt;
     let qy = qy + q_y q_dot * dt;
     let qz = qz + q_z q_dot * dt;
     let q = quaternion_create qw qx qy qz;
     let q = quaternion_normalize q;
     let qw = q_w q; let qx = q_x q; let qy = q_y q; let qz = q_z q;
     let gravity_ned = vector3f_create 0 0 (gravity ekf);
     let accel_ned = quaternion_rotate_vector q accel_corrected;
     let accel_ned = vector3f_subtract accel_ned gravity_ned;
     let vx = vx + v_x accel_ned * dt;
     let vy = vy + v_y accel_ned * dt;
     let vz = vz + v_z accel_ned * dt;
     let px = px + vx * dt;
     let py = py + vy * dt;
     let pz = pz + vz * dt;
     let ekf = set_state ekf EKF_STATE_POS_X px;
     let ekf = set_state ekf EKF_STATE_POS_Y py;
     let ekf = set_state ekf EKF_STATE_POS_Z pz;
     let ekf = set_state ekf EKF_STATE_VEL_X vx;
     let ekf = set_state ekf EKF_STATE_VEL_Y vy;
     let ekf = set_state ekf EKF_STATE_VEL_Z vz;
     let ekf = set_state ekf EKF_STATE_QUAT_W qw;
     let ekf = set_state ekf EKF_STATE_QUAT_X qx;
     let ekf = set_state ekf EKF_STATE_QUAT_Y qy;
     let ekf = set_state ekf EKF_STATE_QUAT_Z qz;
     Some ekf
   }"

definition ekf_predict_covariance :: "EKF \<Rightarrow> real \<Rightarrow> EKF option" where
  "ekf_predict_covariance ekf dt = do {
     (ok, F) \<leftarrow> ekf_compute_jacobian ekf dt;
     let F_transpose = snd (unop_call matrix_transpose F indeterminate);
     temp1 \<leftarrow> written (binop_call matrix_multiply F (P_cov ekf) indeterminate);
     temp2 \<leftarrow> written (binop_call matrix_multiply temp1 F_transpose indeterminate);
     let scaled_Q = snd (unop_call (\<lambda>m. matrix_scale m dt) (Q_cov ekf) indeterminate);
     let ekf = ekf\<lparr>P_cov := snd (binop_call matrix_add temp2 scaled_Q (P_cov ekf))\<rparr>;
     Some ekf
   }"

definition ekf_predict :: "EKF ptr \<Rightarrow> Vector3f \<Rightarrow> Vector3f \<Rightarrow> real \<Rightarrow> (bool \<times> EKF ptr) option" where
  "ekf_predict p gyro accel dt =
     (case p of
        NULL \<Rightarrow> Some (False, NULL)
      | Ptr ekf \<Rightarrow>
          if dt \<le> 0 then Some (False, Ptr ekf)
          else if \<not> initialized ekf then Some (False, Ptr ekf)
          else do {
            ekf \<leftarrow> ekf_predict_state ekf gyro accel dt;
            ekf \<leftarrow> ekf_predict_covariance ekf dt;
            Some (True, Ptr ekf)
          })"

section \<open>Measurement update (ekf\_update.c)\<close>

text \<open>
  The functions that compute Jacobians, the gain and the correction are static. Every
  call passes the filter pointer that the public function has checked and addresses of
  locals, so their \<^verbatim>\<open>NULL\<close> tests never fire; the models take the objects themselves.
\<close>

definition ekf_compute_gps_jacobian :: "EKF \<Rightarrow> bool \<times> Matrix" where
  "ekf_compute_gps_jacobian ekf =
     (let H = matrix_create 6 EKF_STATE_DIM;
          H = snd (matrix_zero H);
          H = snd (matrix_set H 0 EKF_STATE_POS_X 1);
          H = snd (matrix_set H 1 EKF_STATE_POS_Y 1);
          H = snd (matrix_set H 2 EKF_STATE_POS_Z 1);
          H = snd (matrix_set H 3 EKF_STATE_VEL_X 1);
          H = snd (matrix_set H 4 EKF_STATE_VEL_Y 1);
          H = snd (matrix_set H 5 EKF_STATE_VEL_Z 1)
      in (True, H))"

definition ekf_compute_baro_jacobian :: "EKF \<Rightarrow> bool \<times> Matrix" where
  "ekf_compute_baro_jacobian ekf =
     (let H = matrix_create 1 EKF_STATE_DIM;
          H = snd (matrix_zero H);
          H = snd (matrix_set H 0 EKF_STATE_POS_Z 1)
      in (True, H))"

definition ekf_compute_mag_jacobian :: "EKF \<Rightarrow> (bool \<times> Matrix) option" where
  "ekf_compute_mag_jacobian ekf = do {
     let H = matrix_create 3 EKF_STATE_DIM;
     let H = snd (matrix_zero H);
     qw \<leftarrow> matrix_get (x_vec ekf) EKF_STATE_QUAT_W 0;
     qx \<leftarrow> matrix_get (x_vec ekf) EKF_STATE_QUAT_X 0;
     qy \<leftarrow> matrix_get (x_vec ekf) EKF_STATE_QUAT_Y 0;
     qz \<leftarrow> matrix_get (x_vec ekf) EKF_STATE_QUAT_Z 0;
     let mx = v_x (earth_mag_ned ekf);
     let my = v_y (earth_mag_ned ekf);
     let mz = v_z (earth_mag_ned ekf);
     let H = snd (matrix_set H 0 EKF_STATE_QUAT_W (2 * (- qz * my + qy * mz)));
     let H = snd (matrix_set H 1 EKF_STATE_QUAT_W (2 * (qz * mx - qx * mz)));
     let H = snd (matrix_set H 2 EKF_STATE_QUAT_W (2 * (- qy * mx + qx * my)));
     let H = snd (matrix_set H 0 EKF_STATE_QUAT_X (2 * (qy * my + qz * mz)));
     let H = snd (matrix_set H 1 EKF_STATE_QUAT_X (2 * (qy * mx - 2 * qx * my - qw * mz)));
     let H = snd (matrix_set H 2 EKF_STATE_QUAT_X (2 * (qz * mx + qw * my - 2 * qx * mz)));
     let H = snd (matrix_set H 0 EKF_STATE_QUAT_Y (2 * (- 2 * qy * mx + qx * my + qw * mz)));
     let H = snd (matrix_set H 1 EKF_STATE_QUAT_Y (2 * (qx * mx + qz * mz)));
     let H = snd (matrix_set H 2 EKF_STATE_QUAT_Y (2 * (- qw * mx + qz * my - 2 * qy * mz)));
     let H = snd (matrix_set H 0 EKF_STATE_QUAT_Z (2 * (- 2 * qz * mx - qw * my + qx * mz)));
     let H = snd (matrix_set H 1 EKF_STATE_QUAT_Z (2 * (qw * mx - 2 * qz * my + qy * mz)));
     let H = snd (matrix_set H 2 EKF_STATE_QUAT_Z (2 * (qx * mx + qy * my)));
     Some (True, H)
   }"

definition innovation_covariance :: "EKF \<Rightarrow> Matrix \<Rightarrow> Matrix \<Rightarrow> (Matrix \<times> Matrix) option" where
  \<comment> \<open>Lines 133-139 of \<^verbatim>\<open>ekf_compute_kalman_gain\<close>: the locals \<^verbatim>\<open>H_transpose\<close> and \<^verbatim>\<open>S\<close>.\<close>
  "innovation_covariance ekf H R = do {
     let H_transpose = snd (unop_call matrix_transpose H indeterminate);
     temp1 \<leftarrow> written (binop_call matrix_multiply H (P_cov ekf) indeterminate);
     temp2 \<leftarrow> written (binop_call matrix_multiply temp1 H_transpose indeterminate);
     S \<leftarrow> written (binop_call matrix_add temp2 R indeterminate);
     Some (H_transpose, S)
   }"

definition ekf_compute_kalman_gain :: "EKF \<Rightarrow> Matrix \<Rightarrow> Matrix \<Rightarrow> Matrix outcome option" where
  \<comment> \<open>\<open>Returned_true K\<close>: the function returns true and has stored \<open>K\<close> in \<^verbatim>\<open>*K\<close>.\<close>
  "ekf_compute_kalman_gain ekf H R = do {
     (H_transpose, S) \<leftarrow> innovation_covariance ekf H R;
     inv \<leftarrow> matrix_inverse S;
     (case inv of
        Returned_false \<Rightarrow> Some Returned_false
      | Returned_true S_inv \<Rightarrow> do {
          temp3 \<leftarrow> written (binop_call matrix_multiply (P_cov ekf) H_transpose indeterminate);
          K \<leftarrow> written (binop_call matrix_multiply temp3 S_inv indeterminate);
          Some (Returned_true K)
        })
   }"

definition ekf_update_state_covariance :: "EKF \<Rightarrow> Matrix \<Rightarrow> Matrix \<Rightarrow> Matrix \<Rightarrow> (bool \<times> EKF) option" where
  "ekf_update_state_covariance ekf K y H = do {
     dx \<leftarrow> written (binop_call matrix_multiply K y indeterminate);
     let ekf = ekf\<lparr>x_vec := snd (binop_call_aliased matrix_add (x_vec ekf) dx)\<rparr>;
     qw \<leftarrow> matrix_get (x_vec ekf) EKF_STATE_QUAT_W 0;
     qx \<leftarrow> matrix_get (x_vec ekf) EKF_STATE_QUAT_X 0;
     qy \<leftarrow> matrix_get (x_vec ekf) EKF_STATE_QUAT_Y 0;
     qz \<leftarrow> matrix_get (x_vec ekf) EKF_STATE_QUAT_Z 0;
     let q = quaternion_create qw qx qy qz;
     let q = quaternion_normalize q;
     let ekf = set_state ekf EKF_STATE_QUAT_W (q_w q);
     let ekf = set_state ekf EKF_STATE_QUAT_X (q_x q);
     let ekf = set_state ekf EKF_STATE_QUAT_Y (q_y q);
     let ekf = set_state ekf EKF_STATE_QUAT_Z (q_z q);
     let I = matrix_identity EKF_STATE_DIM;
     KH \<leftarrow> written (binop_call matrix_multiply K H indeterminate);
     I_KH \<leftarrow> written (binop_call matrix_subtract I KH indeterminate);
     P_new \<leftarrow> written (binop_call matrix_multiply I_KH (P_cov ekf) indeterminate);
     let ekf = ekf\<lparr>P_cov := P_new\<rparr>;
     let P_transpose = snd (unop_call matrix_transpose (P_cov ekf) indeterminate);
     let P_new = snd (binop_call matrix_add (P_cov ekf) P_transpose P_new);
     let ekf = ekf\<lparr>P_cov := snd (unop_call (\<lambda>m. matrix_scale m (1 / 2)) P_new (P_cov ekf))\<rparr>;
     Some (True, ekf)
   }"

definition ekf_update_gps :: "EKF ptr \<Rightarrow> Vector3f \<Rightarrow> Vector3f \<Rightarrow> (bool \<times> EKF ptr) option" where
  "ekf_update_gps p pos vel =
     (case p of
        NULL \<Rightarrow> Some (False, NULL)
      | Ptr ekf \<Rightarrow>
          if \<not> initialized ekf then Some (False, Ptr ekf)
          else do {
            let H = snd (ekf_compute_gps_jacobian ekf);
            pos_pred \<leftarrow> ekf_get_position p;
            vel_pred \<leftarrow> ekf_get_velocity p;
            let z = matrix_create 6 1;
            let z_pred = matrix_create 6 1;
            let z = snd (matrix_set z 0 0 (v_x pos));
            let z = snd (matrix_set z 1 0 (v_y pos));
            let z = snd (matrix_set z 2 0 (v_z pos));
            let z = snd (matrix_set z 3 0 (v_x vel));
            let z = snd (matrix_set z 4 0 (v_y vel));
            let z = snd (matrix_set z 5 0 (v_z vel));
            let z_pred = snd (matrix_set z_pred 0 0 (v_x pos_pred));
            let z_pred = snd (matrix_set z_pred 1 0 (v_y pos_pred));
            let z_pred = snd (matrix_set z_pred 2 0 (v_z pos_pred));
            let z_pred = snd (matrix_set z_pred 3 0 (v_x vel_pred));
            let z_pred = snd (matrix_set z_pred 4 0 (v_y vel_pred));
            let z_pred = snd (matrix_set z_pred 5 0 (v_z vel_pred));
            y \<leftarrow> written (binop_call matrix_subtract z z_pred indeterminate);
            gain \<leftarrow> ekf_compute_kalman_gain ekf H (R_gps ekf);
            (case gain of
               Returned_false \<Rightarrow> Some (False, Ptr ekf)
             | Returned_true K \<Rightarrow> do {
                 (ok, ekf) \<leftarrow> ekf_update_state_covariance ekf K y H;
                 Some (ok, Ptr ekf)
               })
          })"

definition ekf_update_baro :: "EKF ptr \<Rightarrow> real \<Rightarrow> (bool \<times> EKF ptr) option" where
  "ekf_update_baro p altitude =
     (case p of
        NULL \<Rightarrow> Some (False, NULL)
      | Ptr ekf \<Rightarrow>
          if \<not> initialized ekf then Some (False, Ptr ekf)
          else do {
            let H = snd (ekf_compute_baro_jacobian ekf);
            pos_pred \<leftarrow> ekf_get_position p;
            let z = matrix_create 1 1;
            let z_pred = matrix_create 1 1;
            let z = snd (matrix_set z 0 0 altitude);
            let z_pred = snd (matrix_set z_pred 0 0 (v_z pos_pred));
            y \<leftarrow> written (binop_call matrix_subtract z z_pred indeterminate);
            gain \<leftarrow> ekf_compute_kalman_gain ekf H (R_baro ekf);
            (case gain of
               Returned_false \<Rightarrow> Some (False, Ptr ekf)
             | Returned_true K \<Rightarrow> do {
                 (ok, ekf) \<leftarrow> ekf_update_state_covariance ekf K y H;
                 Some (ok, Ptr ekf)
               })
          })"

definition quaternion_rotate_vector_inverse :: "Quaternion \<Rightarrow> Vector3f \<Rightarrow> Vector3f" where
  \<comment> \<open>Modelled from the spec: \<^verbatim>\<open>quaternion_rotate_vector_inverse\<close> is called by
     \<^verbatim>\<open>ekf_update_mag\<close> and defined in no source file. The spec gives the predicted
     measurement as \<open>h(x) = R(q)\<^sup>T \<cdot> m_ref\<close>, the rotation by the conjugate quaternion.\<close>
  "quaternion_rotate_vector_inverse q v = quaternion_rotate_vector (quaternion_conjugate q) v"

definition ekf_update_mag :: "EKF ptr \<Rightarrow> Vector3f \<Rightarrow> (bool \<times> EKF ptr) option" where
  "ekf_update_mag p mag =
     (case p of
        NULL \<Rightarrow> Some (False, NULL)
      | Ptr ekf \<Rightarrow>
          if \<not> initialized ekf then Some (False, Ptr ekf)
          else do {
            (okH, H) \<leftarrow> ekf_compute_mag_jacobian ekf;
            q \<leftarrow> ekf_get_attitude p;
            let mag_pred = quaternion_rotate_vector_inverse q (earth_mag_ned ekf);
            let z = matrix_create 3 1;
            let z_pred = matrix_create 3 1;
            let z = snd (matrix_set z 0 0 (v_x mag));
            let z = snd (matrix_set z 1 0 (v_y mag));
            let z = snd (matrix_set z 2 0 (v_z mag));
            let z_pred = snd (matrix_set z_pred 0 0 (v_x mag_pred));
            let z_pred = snd (matrix_set z_pred 1 0 (v_y mag_pred));
            let z_pred = snd (matrix_set z_pred 2 0 (v_z mag_pred));
            y \<leftarrow> written (binop_call matrix_subtract z z_pred indeterminate);
            gain \<leftarrow> ekf_compute_kalman_gain ekf H (R_mag ekf);
            (case gain of
               Returned_false \<Rightarrow> Some (False, Ptr ekf)
             | Returned_true K \<Rightarrow> do {
                 (ok, ekf) \<leftarrow> ekf_update_state_covariance ekf K y H;
                 Some (ok, Ptr ekf)
               })
          })"

section \<open>Closed forms of the calls\<close>

lemma written_simps [simp]:
  "written (True, m) = Some m"
  "written (False, m) = None"
  by (simp_all add: written_def)

lemma binop_call_multiply:
  assumes "cols a = rows b" "rows a \<le> 16" "cols b \<le> 16"
  shows "binop_call matrix_multiply a b r0
     = (True, matrix_of (rows a) (cols b) (\<lambda>i j. \<Sum>k<cols a. data a i k * data b k j))"
  using assms by (simp add: binop_call_def matrix_multiply_distinct)

lemma binop_call_add:
  assumes "rows a = rows b" "cols a = cols b" "rows a \<le> 16" "cols a \<le> 16"
  shows "binop_call matrix_add a b r0
     = (True, matrix_of (rows a) (cols a) (\<lambda>i j. data a i j + data b i j))"
  using assms by (simp add: binop_call_def matrix_add_distinct)

lemma binop_call_subtract:
  assumes "rows a = rows b" "cols a = cols b" "rows a \<le> 16" "cols a \<le> 16"
  shows "binop_call matrix_subtract a b r0
     = (True, matrix_of (rows a) (cols a) (\<lambda>i j. data a i j - data b i j))"
  using assms by (simp add: binop_call_def matrix_subtract_distinct)

lemma binop_call_aliased_add:
  assumes "rows r0 = rows b" "cols r0 = cols b" "rows r0 \<le> 16" "cols r0 \<le> 16"
  shows "binop_call_aliased matrix_add r0 b
     = (True, matrix_of (rows r0) (cols r0) (\<lambda>i j. data b i j))"
  using assms by (simp add: binop_call_aliased_def matrix_add_aliased)

lemma binop_call_aliased_add_mismatch:
  assumes "rows r0 \<noteq> rows b \<or> cols r0 \<noteq> cols b"
  shows "binop_call_aliased matrix_add r0 b = (False, r0)"
  using assms by (simp add: binop_call_aliased_def matrix_add_mismatch)

lemma unop_call_transpose:
  assumes "rows m \<le> 16" "cols m \<le> 16"
  shows "unop_call matrix_transpose m r0
     = (True, matrix_of (cols m) (rows m) (\<lambda>j i. data m i j))"
  using assms by (simp add: unop_call_def matrix_transpose_distinct)

lemma unop_call_scale:
  assumes "rows m \<le> 16" "cols m \<le> 16"
  shows "unop_call (\<lambda>m. matrix_scale m c) m r0
     = (True, matrix_of (rows m) (cols m) (\<lambda>i j. data m i j * c))"
  using assms by (simp add: unop_call_def matrix_scale_distinct)

lemma ofold_pure:
  "(\<And>x t. x \<in> set xs \<Longrightarrow> f x t = Some (g x t)) \<Longrightarrow> ofold f xs s = Some (fold g xs s)"
  by (induction xs arbitrary: s) simp_all

lemma diagonal_loop:
  "ofold (\<lambda>i m. do { v \<leftarrow> array_read vs i; Some (poke m i i v) }) [0..<d] z
     = (if d \<le> length vs
        then Some (z\<lparr>data := (\<lambda>i j. if i < d \<and> j = i then vs ! i else data z i j)\<rparr>)
        else None)"
proof (cases "d \<le> length vs")
  case True
  have "ofold (\<lambda>i m. do { v \<leftarrow> array_read vs i; Some (poke m i i v) }) [0..<d] z
      = Some (fold (\<lambda>i m. poke m i i (vs ! i)) [0..<d] z)"
    by (rule ofold_pure) (use True in \<open>simp add: array_read_def\<close>)
  then show ?thesis using True by (simp add: fold_fill_diag)
next
  case False
  have "ofold (\<lambda>i m. do { v \<leftarrow> array_read vs i; Some (poke m i i v) }) [0..<d] z = None"
    by (rule ofold_None [where x = "length vs"]) (use False in \<open>simp_all add: array_read_def\<close>)
  then show ?thesis using False by simp
qed

lemma matrix_diagonal_vector_Ptr:
  assumes "size0 \<le> length vs"
  shows "matrix_diagonal_vector m (Ptr vs) size0
     = Some (True, m\<lparr>data := (\<lambda>i j.
          if i < rows m \<and> i < cols m \<and> i < size0 \<and> j = i then vs ! i
          else if i < rows m \<and> j < cols m then 0 else data m i j)\<rparr>)"
  using assms
  by (auto simp: matrix_diagonal_vector_def Let_def diagonal_loop intro!: Matrix_eqI)

lemma quaternion_normalize_unit:
  "q_w (quaternion_normalize q) * q_w (quaternion_normalize q)
   + q_x (quaternion_normalize q) * q_x (quaternion_normalize q)
   + q_y (quaternion_normalize q) * q_y (quaternion_normalize q)
   + q_z (quaternion_normalize q) * q_z (quaternion_normalize q) = 1"
proof (cases "quaternion_magnitude q < 1 / 1000000")
  case True
  then show ?thesis by (simp add: quaternion_normalize_def quaternion_identity_def)
next
  case False
  let ?s = "q_w q * q_w q + q_x q * q_x q + q_y q * q_y q + q_z q * q_z q"
  let ?m = "quaternion_magnitude q"
  have pos: "0 < ?m" using False by simp
  have s: "0 \<le> ?s" by simp
  have mm: "?m * ?m = ?s"
    unfolding quaternion_magnitude_def using s by simp
  have "q_w q * (1 / ?m) * (q_w q * (1 / ?m)) + q_x q * (1 / ?m) * (q_x q * (1 / ?m))
      + q_y q * (1 / ?m) * (q_y q * (1 / ?m)) + q_z q * (1 / ?m) * (q_z q * (1 / ?m))
      = ?s / (?m * ?m)"
    by (simp add: add_divide_distrib)
  also have "\<dots> = 1" using pos by (simp add: mm [symmetric])
  finally show ?thesis using False by (simp add: quaternion_normalize_def Let_def)
qed

lemma quaternion_normalize_magnitude:
  "quaternion_magnitude (quaternion_normalize q) = 1"
  unfolding quaternion_magnitude_def [of "quaternion_normalize q"]
  by (simp add: quaternion_normalize_unit)

section \<open>Filters the claims are about\<close>

definition well_shaped :: "EKF \<Rightarrow> bool" where
  \<comment> \<open>The dimensions that \<^verbatim>\<open>ekf_init\<close> gives the matrices of a filter (and that the comments
     of the struct in \<^verbatim>\<open>ekf.h\<close> state); no function changes them.\<close>
  "well_shaped ekf \<longleftrightarrow>
     rows (x_vec ekf) = 16 \<and> cols (x_vec ekf) = 1 \<and>
     rows (P_cov ekf) = 16 \<and> cols (P_cov ekf) = 16 \<and>
     rows (Q_cov ekf) = 16 \<and> cols (Q_cov ekf) = 16 \<and>
     rows (R_gps ekf) = 6 \<and> cols (R_gps ekf) = 6 \<and>
     rows (R_baro ekf) = 1 \<and> cols (R_baro ekf) = 1 \<and>
     rows (R_mag ekf) = 3 \<and> cols (R_mag ekf) = 3"

definition example_filter :: EKF where
  \<comment> \<open>A filter at rest at the origin with identity attitude, not yet initialised.\<close>
  "example_filter =
     \<lparr>x_vec = \<lparr>data = (\<lambda>i j. if i = 6 \<and> j = 0 then 1 else 0), rows = 16, cols = 1\<rparr>,
      P_cov = \<lparr>data = (\<lambda>i j. if i = j then 1 else 0), rows = 16, cols = 16\<rparr>,
      Q_cov = \<lparr>data = (\<lambda>i j. if i = j then 1 / 100 else 0), rows = 16, cols = 16\<rparr>,
      R_gps = \<lparr>data = (\<lambda>i j. if i = j then 1 else 0), rows = 6, cols = 6\<rparr>,
      R_baro = \<lparr>data = (\<lambda>i j. 1), rows = 1, cols = 1\<rparr>,
      R_mag = \<lparr>data = (\<lambda>i j. if i = j then 1 / 10 else 0), rows = 3, cols = 3\<rparr>,
      gravity = 980665 / 100000,
      earth_mag_ned = \<lparr>v_x = 29 / 100, v_y = - (5 / 100), v_z = 42 / 100\<rparr>,
      initialized = False\<rparr>"

lemma example_filter_simps [simp]:
  "well_shaped example_filter"
  "\<not> initialized example_filter"
  "well_shaped (example_filter\<lparr>initialized := True\<rparr>)"
  by (simp_all add: example_filter_def well_shaped_def)

section \<open>Queries on a filter that is not initialised\<close>

text \<open>
  Claim C7, as stated: on a filter with \<open>initialized = false\<close> every query accessor,
  \<^verbatim>\<open>ekf_get_euler\<close> included, returns a neutral value and does not report failure. On the
  example filter \<^verbatim>\<open>ekf_get_euler\<close> returns false and leaves the three floats it was given
  (here 1, 2 and 3) as they were: it reports failure and yields no zero angles.
\<close>

theorem ekf_get_euler_uninitialized_fails:
  "ekf_get_euler (Ptr example_filter) (Ptr 1) (Ptr 2) (Ptr 3) = Some (False, Ptr 1, Ptr 2, Ptr 3)"
  by (simp add: ekf_get_euler_def)

text \<open>
  Claim C7, amended: on a filter with \<open>initialized = false\<close>, \<^verbatim>\<open>ekf_get_position\<close>,
  \<^verbatim>\<open>ekf_get_velocity\<close>, \<^verbatim>\<open>ekf_get_gyro_bias\<close> and \<^verbatim>\<open>ekf_get_accel_bias\<close> return the zero
  vector and \<^verbatim>\<open>ekf_get_attitude\<close> returns the identity quaternion; \<^verbatim>\<open>ekf_get_euler\<close> returns
  false and writes none of its three outputs.
\<close>

theorem uninitialized_queries:
  assumes "\<not> initialized ekf"
  shows "ekf_get_position (Ptr ekf) = Some vector3f_zero \<and>
         ekf_get_velocity (Ptr ekf) = Some vector3f_zero \<and>
         ekf_get_attitude (Ptr ekf) = Some quaternion_identity \<and>
         ekf_get_gyro_bias (Ptr ekf) = Some vector3f_zero \<and>
         ekf_get_accel_bias (Ptr ekf) = Some vector3f_zero \<and>
         ekf_get_euler (Ptr ekf) roll pitch yaw = Some (False, roll, pitch, yaw)"
  using assms
  by (simp add: ekf_get_position_def ekf_get_velocity_def ekf_get_attitude_def
      ekf_get_gyro_bias_def ekf_get_accel_bias_def ekf_get_euler_def)

theorem uninitialized_queries_witness:
  "ekf_get_position (Ptr example_filter) = Some vector3f_zero \<and>
   ekf_get_velocity (Ptr example_filter) = Some vector3f_zero \<and>
   ekf_get_attitude (Ptr example_filter) = Some quaternion_identity \<and>
   ekf_get_gyro_bias (Ptr example_filter) = Some vector3f_zero \<and>
   ekf_get_accel_bias (Ptr example_filter) = Some vector3f_zero \<and>
   ekf_get_euler (Ptr example_filter) (Ptr 1) (Ptr 2) (Ptr 3) = Some (False, Ptr 1, Ptr 2, Ptr 3)"
  by (rule uninitialized_queries) simp

section \<open>Reset\<close>

definition reset_diagonal :: "real list" where
  \<comment> \<open>The array \<^verbatim>\<open>p_diag\<close> of \<^verbatim>\<open>ekf_reset\<close>.\<close>
  "reset_diagonal = [100, 100, 100, 10, 10, 10, 1, 1, 1, 1,
                     1 / 100, 1 / 100, 1 / 100, 1 / 10, 1 / 10, 1 / 10]"

text \<open>
  Claim C8: for every filter (whose matrices have the dimensions of a filter), \<^verbatim>\<open>ekf_reset\<close>
  returns true, and afterwards \<open>initialized\<close> is false, every component of the state vector
  is 0 except \<open>q_w\<close> (index 6), which is 1, and \<open>P\<close> is the diagonal matrix with the diagonal
  (100, 100, 100, 10, 10, 10, 1, 1, 1, 1, 0.01, 0.01, 0.01, 0.1, 0.1, 0.1).
\<close>

theorem ekf_reset_result:
  assumes "well_shaped ekf"
  shows "\<exists>ekf'. ekf_reset (Ptr ekf) = Some (True, Ptr ekf') \<and>
           \<not> initialized ekf' \<and>
           rows (x_vec ekf') = 16 \<and> cols (x_vec ekf') = 1 \<and>
           (\<forall>i<16. data (x_vec ekf') i 0 = (if i = 6 then 1 else 0)) \<and>
           rows (P_cov ekf') = 16 \<and> cols (P_cov ekf') = 16 \<and>
           (\<forall>i<16. \<forall>j<16. data (P_cov ekf') i j = (if i = j then reset_diagonal ! i else 0))"
  using assms
  by (simp add: ekf_reset_def well_shaped_def set_state_def matrix_diagonal_vector_Ptr
      reset_diagonal_def Let_def)

theorem ekf_reset_result_witness:
  "\<exists>ekf'. ekf_reset (Ptr (example_filter\<lparr>initialized := True\<rparr>)) = Some (True, Ptr ekf') \<and>
           \<not> initialized ekf' \<and>
           rows (x_vec ekf') = 16 \<and> cols (x_vec ekf') = 1 \<and>
           (\<forall>i<16. data (x_vec ekf') i 0 = (if i = 6 then 1 else 0)) \<and>
           rows (P_cov ekf') = 16 \<and> cols (P_cov ekf') = 16 \<and>
           (\<forall>i<16. \<forall>j<16. data (P_cov ekf') i j = (if i = j then reset_diagonal ! i else 0))"
  by (rule ekf_reset_result) simp

section \<open>The state correction\<close>

lemma binop_call_aliased_add_shape:
  assumes "rows r0 \<le> 16" "cols r0 \<le> 16"
  shows "rows (snd (binop_call_aliased matrix_add r0 b)) = rows r0"
    and "cols (snd (binop_call_aliased matrix_add r0 b)) = cols r0"
  using assms
  by (cases "rows r0 = rows b \<and> cols r0 = cols b";
      simp add: binop_call_aliased_add binop_call_aliased_add_mismatch)+

definition state_quaternion :: "Matrix \<Rightarrow> Quaternion" where
  \<comment> \<open>The quaternion held at indices 6 to 9 of a state vector.\<close>
  "state_quaternion x =
     \<lparr>q_w = data x EKF_STATE_QUAT_W 0, q_x = data x EKF_STATE_QUAT_X 0,
      q_y = data x EKF_STATE_QUAT_Y 0, q_z = data x EKF_STATE_QUAT_Z 0\<rparr>"

text \<open>
  What \<^verbatim>\<open>ekf_update_state_covariance\<close> leaves in the state vector: the statement
  \<^verbatim>\<open>matrix_add(&ekf->x, &dx, &ekf->x)\<close> passes the state as first operand and as result,
  so the state becomes \<open>K \<cdot> y\<close> (with its quaternion part normalised), not \<open>x + K \<cdot> y\<close>.
\<close>

lemma ekf_update_state_covariance_state:
  assumes "well_shaped ekf"
    and "rows K = 16" "cols K = rows y" "cols y = 1" "rows H = cols K" "cols H = 16"
    and "cols K \<le> 16"
  shows "\<exists>ekf'. ekf_update_state_covariance ekf K y H = Some (True, ekf') \<and>
           rows (x_vec ekf') = 16 \<and> cols (x_vec ekf') = 1 \<and>
           (\<forall>i<16. i \<notin> {6, 7, 8, 9} \<longrightarrow>
              data (x_vec ekf') i 0 = (\<Sum>k<cols K. data K i k * data y k 0)) \<and>
           state_quaternion (x_vec ekf')
             = quaternion_normalize
                 \<lparr>q_w = (\<Sum>k<cols K. data K 6 k * data y k 0),
                  q_x = (\<Sum>k<cols K. data K 7 k * data y k 0),
                  q_y = (\<Sum>k<cols K. data K 8 k * data y k 0),
                  q_z = (\<Sum>k<cols K. data K 9 k * data y k 0)\<rparr>"
  using assms
  by (simp add: ekf_update_state_covariance_def well_shaped_def binop_call_multiply
      binop_call_aliased_add binop_call_subtract binop_call_add unop_call_transpose
      unop_call_scale set_state_def Let_def state_quaternion_def quaternion_create_def)


lemma ofold_invariant:
  assumes "ofold f xs s = Some s'" and "P s"
    and "\<And>x t t'. x \<in> set xs \<Longrightarrow> P t \<Longrightarrow> f x t = Some t' \<Longrightarrow> P t'"
  shows "P s'"
  using assms
proof (induction xs arbitrary: s)
  case Nil
  then show ?case by simp
next
  case (Cons x xs)
  from Cons.prems(1) obtain t where t: "f x s = Some t" and rest: "ofold f xs t = Some s'"
    by (auto split: option.splits)
  have t_ok: "P t" using Cons.prems(3) [of x s t] Cons.prems(2) t by simp
  show ?case
  proof (rule Cons.IH [OF rest t_ok])
    fix y u u'
    assume "y \<in> set xs" "P u" "f y u = Some u'"
    then show "P u'" using Cons.prems(3) [of y u u'] by simp
  qed
qed

lemma wr_shape:
  "wr m i j v = Some m' \<Longrightarrow> rows m' = rows m \<and> cols m' = cols m"
  by (auto simp: wr_def split: if_splits)

lemma extraction_shape:
  assumes r: "ofold (\<lambda>i res. ofold (\<lambda>j res. do { v \<leftarrow> rd aug i (j + n); wr res i j v }) [0..<n] res)
          [0..<n] (matrix_create n n) = Some r"
  shows "rows r = min n 16 \<and> cols r = min n 16"
proof -
  let ?P = "\<lambda>t. rows t = min n 16 \<and> cols t = min n 16"
  show "?P r"
  proof (rule ofold_invariant [OF r, where P = ?P])
    show "?P (matrix_create n n)" by simp
  next
    fix x t t'
    assume t: "?P t"
      and step: "ofold (\<lambda>j res. do { v \<leftarrow> rd aug x (j + n); wr res x j v }) [0..<n] t = Some t'"
    show "?P t'"
    proof (rule ofold_invariant [OF step, where P = ?P])
      show "?P t" by (rule t)
    next
      fix j u u'
      assume "?P u" and "do { v \<leftarrow> rd aug x (j + n); wr u x j v } = Some u'"
      then show "?P u'" by (auto simp: bind_eq_Some_conv dest: wr_shape)
    qed
  qed
qed

lemma matrix_inverse_shape:
  assumes "matrix_inverse m = Some (Returned_true r)"
  shows "rows r = min (rows m) 16 \<and> cols r = min (rows m) 16"
  using assms
  apply (clarsimp simp: matrix_inverse_def Let_def bind_eq_Some_conv split: if_splits)
  subgoal for y ya yb
    by (cases yb) (auto simp: bind_eq_Some_conv dest!: extraction_shape)
  done

lemma matrix_inverse_1x1:
  assumes "rows m = 1" "cols m = 1" "1 / 1000000 \<le> \<bar>data m 0 0\<bar>"
  shows "\<exists>r. matrix_inverse m = Some (Returned_true r) \<and> rows r = 1 \<and> cols r = 1 \<and>
           data r 0 0 = 1 / data m 0 0"
proof -
  have two: "[0..<2::nat] = [0, 1]" by (simp add: upt_rec)
  show ?thesis
    using assms
    by (simp add: matrix_inverse_def Let_def rd_def wr_def MATRIX_MAX_SIZE_def find_pivot_def
        normalize_pivot_row_def eliminate_rows_def two)
qed

lemma matrix_of_data_sum_left:
  "j < c \<Longrightarrow> (\<Sum>k<r. g k * data (matrix_of r c f) k j) = (\<Sum>k<r. g k * f k j)"
  by (rule sum.cong) simp_all

lemma matrix_of_data_sum_right:
  "i < r \<Longrightarrow> (\<Sum>k<c. data (matrix_of r c f) i k * g k) = (\<Sum>k<c. f i k * g k)"
  by (rule sum.cong) simp_all

lemma innovation_covariance_closed:
  assumes "rows (P_cov ekf) = 16" "cols (P_cov ekf) = 16"
    and "cols H = 16" "rows H \<le> 16" "rows R = rows H" "cols R = rows H"
  shows "innovation_covariance ekf H R
     = Some (matrix_of 16 (rows H) (\<lambda>j i. data H i j),
             matrix_of (rows H) (rows H)
               (\<lambda>i j. (\<Sum>l<16. (\<Sum>k<16. data H i k * data (P_cov ekf) k l) * data H j l)
                       + data R i j))"
proof -
  have "matrix_of (rows H) (rows H)
          (\<lambda>i j. data (matrix_of (rows H) (rows H)
                  (\<lambda>i j. \<Sum>k<16. data (matrix_of (rows H) 16
                      (\<lambda>i j. \<Sum>k<16. data H i k * data (P_cov ekf) k j)) i k
                      * data (matrix_of 16 (rows H) (\<lambda>j i. data H i j)) k j)) i j + data R i j)
      = matrix_of (rows H) (rows H)
          (\<lambda>i j. (\<Sum>l<16. (\<Sum>k<16. data H i k * data (P_cov ekf) k l) * data H j l) + data R i j)"
    by (intro Matrix_eqI) (simp_all add: matrix_of_def cong: sum.cong_simp)
  then show ?thesis
    using assms
    by (simp add: innovation_covariance_def binop_call_multiply binop_call_add
        unop_call_transpose Let_def)
qed


subsection \<open>The inverse on a matrix whose first column vanishes\<close>

lemma fold_invariant:
  "P s \<Longrightarrow> (\<And>x t. x \<in> set xs \<Longrightarrow> P t \<Longrightarrow> P (g x t)) \<Longrightarrow> P (fold g xs s)"
  by (induction xs arbitrary: s) simp_all

lemma copy_loop:
  assumes "n \<le> 16"
  shows "ofold (\<lambda>i aug. ofold (\<lambda>j aug. do { v \<leftarrow> rd m i j; wr aug i j v }) [0..<n] aug) [0..<n] a
     = Some (a\<lparr>data := (\<lambda>i j. if i < n \<and> j < n then data m i j else data a i j)\<rparr>)"
proof -
  have inner: "ofold (\<lambda>j aug. do { v \<leftarrow> rd m i j; wr aug i j v }) [0..<n] t
      = Some (fold (\<lambda>j aug. poke aug i j (data m i j)) [0..<n] t)" if "i < n" for i t
    by (rule ofold_pure) (use assms that in \<open>simp add: rd_def wr_def MATRIX_MAX_SIZE_def\<close>)
  have "ofold (\<lambda>i aug. ofold (\<lambda>j aug. do { v \<leftarrow> rd m i j; wr aug i j v }) [0..<n] aug) [0..<n] a
      = Some (fold (\<lambda>i aug. fold (\<lambda>j aug. poke aug i j (data m i j)) [0..<n] aug) [0..<n] a)"
    by (rule ofold_pure) (simp add: inner)
  then show ?thesis by (simp add: fold_fill_grid)
qed

lemma fold_fill_shifted_diagonal:
  "fold (\<lambda>i m. poke m i (i + k) v) [0..<n] m
     = m\<lparr>data := (\<lambda>i j. if i < n \<and> j = i + k then v else data m i j)\<rparr>"
proof (induction n)
  case 0
  show ?case by (intro Matrix_eqI) simp_all
next
  case (Suc n)
  show ?case
    by (simp add: Suc) (intro Matrix_eqI, auto simp: less_Suc_eq)
qed

lemma identity_loop:
  assumes "2 * n \<le> 16"
  shows "ofold (\<lambda>i aug. wr aug i (i + n) 1) [0..<n] a
     = Some (a\<lparr>data := (\<lambda>i j. if i < n \<and> j = i + n then 1 else data a i j)\<rparr>)"
proof -
  have "ofold (\<lambda>i aug. wr aug i (i + n) 1) [0..<n] a
      = Some (fold (\<lambda>i aug. poke aug i (i + n) 1) [0..<n] a)"
    by (rule ofold_pure) (use assms in \<open>simp add: wr_def MATRIX_MAX_SIZE_def\<close>)
  then show ?thesis by (simp add: fold_fill_shifted_diagonal)
qed

lemma find_pivot_small:
  assumes "n \<le> 16" "i < n" "\<And>j. j < n \<Longrightarrow> \<bar>data aug j i\<bar> < e"
  shows "\<exists>p v. find_pivot n i aug = Some (p, v) \<and> v < e"
proof -
  let ?g = "\<lambda>j (pivot, max_val).
      if \<bar>data aug j i\<bar> > max_val then (j, \<bar>data aug j i\<bar>) else (pivot, max_val)"
  have "ofold (\<lambda>j (pivot, max_val). do {
              v \<leftarrow> rd aug j i;
              Some (if \<bar>v\<bar> > max_val then (j, \<bar>v\<bar>) else (pivot, max_val))
            }) [i + 1..<n] (i, \<bar>data aug i i\<bar>)
      = Some (fold ?g [i + 1..<n] (i, \<bar>data aug i i\<bar>))"
    by (rule ofold_pure) (use assms in \<open>auto simp: rd_def MATRIX_MAX_SIZE_def\<close>)
  moreover have "snd (fold ?g [i + 1..<n] (i, \<bar>data aug i i\<bar>)) < e"
    by (rule fold_invariant [where P = "\<lambda>s. snd s < e"])
       (use assms in \<open>auto split: prod.splits\<close>)
  ultimately show ?thesis
    using assms
    by (cases "fold ?g [i + 1..<n] (i, \<bar>data aug i i\<bar>)")
       (simp add: find_pivot_def rd_def MATRIX_MAX_SIZE_def)
qed

lemma matrix_inverse_vanishing_column:
  assumes "rows m = cols m" "0 < rows m" "rows m \<le> 8"
    and "\<And>i. i < rows m \<Longrightarrow> \<bar>data m i 0\<bar> < 1 / 1000000"
  shows "matrix_inverse m = Some Returned_false"
proof -
  let ?n = "rows m"
  define a0 where "a0 = matrix_create ?n ((2 * ?n) mod 256)"
  define a1 where "a1 = a0\<lparr>data := (\<lambda>i j. if i < ?n \<and> j < ?n then data m i j else data a0 i j)\<rparr>"
  define a2 where "a2 = a1\<lparr>data := (\<lambda>i j. if i < ?n \<and> j = i + ?n then 1 else data a1 i j)\<rparr>"
  have c: "ofold (\<lambda>i aug. ofold (\<lambda>j aug. do { v \<leftarrow> rd m i j; wr aug i j v }) [0..<?n] aug)
             [0..<?n] a0 = Some a1"
    unfolding a1_def by (rule copy_loop) (use assms in simp)
  have i: "ofold (\<lambda>i aug. wr aug i (i + ?n) 1) [0..<?n] a1 = Some a2"
    unfolding a2_def by (rule identity_loop) (use assms in simp)
  have "\<exists>p v. find_pivot ?n 0 a2 = Some (p, v) \<and> v < 1 / 1000000"
    by (rule find_pivot_small) (use assms in \<open>auto simp: a2_def a1_def\<close>)
  then obtain p v where pv: "find_pivot ?n 0 a2 = Some (p, v)" "v < 1 / 1000000"
    by blast
  have l: "[0..<?n] = 0 # [1..<?n]"
    using assms by (simp add: upt_conv_Cons)
  have g: "gauss_jordan ?n [0..<?n] a2 = Some Returned_false"
    using pv by (subst l) simp
  have "matrix_inverse m = do {
        augmented \<leftarrow> ofold (\<lambda>i aug. ofold (\<lambda>j aug. do { v \<leftarrow> rd m i j; wr aug i j v })
                                          [0..<?n] aug) [0..<?n] a0;
        augmented \<leftarrow> ofold (\<lambda>i aug. wr aug i (i + ?n) 1) [0..<?n] augmented;
        r \<leftarrow> gauss_jordan ?n [0..<?n] augmented;
        (case r of
           Returned_false \<Rightarrow> Some Returned_false
         | Returned_true augmented \<Rightarrow> do {
             let result = matrix_create ?n ?n;
             result \<leftarrow> ofold (\<lambda>i res. ofold (\<lambda>j res. do { v \<leftarrow> rd augmented i (j + ?n); wr res i j v })
                                             [0..<?n] res) [0..<?n] result;
             Some (Returned_true result)
           })
      }"
    unfolding matrix_inverse_def a0_def Let_def using assms(1) by (simp only: if_False simp_thms)
  also have "\<dots> = Some Returned_false"
    by (simp only: c i g Option.bind.bind_lunit outcome.case)
  finally show ?thesis .
qed

section \<open>A measurement update whose inversion fails\<close>

lemma ekf_compute_gps_jacobian_cells [simp]:
  "rows (snd (ekf_compute_gps_jacobian ekf)) = 6"
  "cols (snd (ekf_compute_gps_jacobian ekf)) = 16"
  "i < 6 \<Longrightarrow> j < 16 \<Longrightarrow> data (snd (ekf_compute_gps_jacobian ekf)) i j = (if j = i then 1 else 0)"
  by (auto simp: ekf_compute_gps_jacobian_def Let_def)

lemma ekf_compute_baro_jacobian_cells [simp]:
  "rows (snd (ekf_compute_baro_jacobian ekf)) = 1"
  "cols (snd (ekf_compute_baro_jacobian ekf)) = 16"
  "j < 16 \<Longrightarrow> data (snd (ekf_compute_baro_jacobian ekf)) 0 j = (if j = 2 then 1 else 0)"
  by (auto simp: ekf_compute_baro_jacobian_def Let_def)

lemma ekf_compute_mag_jacobian_shape:
  assumes "ekf_compute_mag_jacobian ekf = Some (ok, H)"
  shows "rows H = 3 \<and> cols H = 16"
  using assms
  by (auto simp: ekf_compute_mag_jacobian_def Let_def bind_eq_Some_conv)

lemma ekf_compute_mag_jacobian_defined:
  assumes "well_shaped ekf"
  shows "\<exists>H. ekf_compute_mag_jacobian ekf = Some (True, H)"
  using assms
  by (simp add: ekf_compute_mag_jacobian_def Let_def well_shaped_def)

lemma measurement_residual_defined:
  "\<exists>y. written (binop_call matrix_subtract
          (snd (matrix_set z i 0 v)) (snd (matrix_set z' i' 0 v')) indeterminate) = Some y"
  if "rows z = rows z'" "cols z = cols z'" "rows z \<le> 16" "cols z \<le> 16"
  using that by (simp add: binop_call_subtract)

text \<open>
  Claim C1: for every initialised filter, if the inversion of the innovation covariance
  \<open>S\<close> inside a measurement update fails (\<^verbatim>\<open>matrix_inverse\<close> returns false), then
  \<^verbatim>\<open>ekf_update_gps\<close>, \<^verbatim>\<open>ekf_update_baro\<close> and \<^verbatim>\<open>ekf_update_mag\<close> return false and the filter,
  its state vector and covariance included, is exactly as before the call.
\<close>

theorem failed_inversion_leaves_filter:
  assumes "well_shaped ekf" and "initialized ekf"
  shows "(innovation_covariance ekf (snd (ekf_compute_gps_jacobian ekf)) (R_gps ekf) = Some (Ht1, S1) \<and>
          matrix_inverse S1 = Some Returned_false
          \<longrightarrow> ekf_update_gps (Ptr ekf) pos vel = Some (False, Ptr ekf)) \<and>
         (innovation_covariance ekf (snd (ekf_compute_baro_jacobian ekf)) (R_baro ekf) = Some (Ht2, S2) \<and>
          matrix_inverse S2 = Some Returned_false
          \<longrightarrow> ekf_update_baro (Ptr ekf) altitude = Some (False, Ptr ekf)) \<and>
         (ekf_compute_mag_jacobian ekf = Some (ok, H) \<and>
          innovation_covariance ekf H (R_mag ekf) = Some (Ht3, S3) \<and>
          matrix_inverse S3 = Some Returned_false
          \<longrightarrow> ekf_update_mag (Ptr ekf) mag = Some (False, Ptr ekf))"
proof (intro conjI impI; elim conjE)
  assume "innovation_covariance ekf (snd (ekf_compute_gps_jacobian ekf)) (R_gps ekf) = Some (Ht1, S1)"
    and "matrix_inverse S1 = Some Returned_false"
  then show "ekf_update_gps (Ptr ekf) pos vel = Some (False, Ptr ekf)"
    using assms
    by (simp add: ekf_update_gps_def ekf_get_position_def ekf_get_velocity_def well_shaped_def
        ekf_compute_kalman_gain_def binop_call_subtract Let_def)
next
  assume "innovation_covariance ekf (snd (ekf_compute_baro_jacobian ekf)) (R_baro ekf) = Some (Ht2, S2)"
    and "matrix_inverse S2 = Some Returned_false"
  then show "ekf_update_baro (Ptr ekf) altitude = Some (False, Ptr ekf)"
    using assms
    by (simp add: ekf_update_baro_def ekf_get_position_def well_shaped_def
        ekf_compute_kalman_gain_def binop_call_subtract Let_def)
next
  assume "ekf_compute_mag_jacobian ekf = Some (ok, H)"
    and "innovation_covariance ekf H (R_mag ekf) = Some (Ht3, S3)"
    and "matrix_inverse S3 = Some Returned_false"
  then show "ekf_update_mag (Ptr ekf) mag = Some (False, Ptr ekf)"
    using assms
    by (simp add: ekf_update_mag_def ekf_get_attitude_def well_shaped_def
        ekf_compute_kalman_gain_def binop_call_subtract Let_def)
qed


definition degenerate_filter :: EKF where
  \<comment> \<open>An initialised filter with no uncertainty and noiseless sensors: every innovation
     covariance is the zero matrix.\<close>
  "degenerate_filter =
     example_filter
       \<lparr>P_cov := \<lparr>data = (\<lambda>i j. 0), rows = 16, cols = 16\<rparr>,
        R_gps := \<lparr>data = (\<lambda>i j. 0), rows = 6, cols = 6\<rparr>,
        R_baro := \<lparr>data = (\<lambda>i j. 0), rows = 1, cols = 1\<rparr>,
        R_mag := \<lparr>data = (\<lambda>i j. 0), rows = 3, cols = 3\<rparr>,
        initialized := True\<rparr>"

lemma degenerate_filter_simps [simp]:
  "well_shaped degenerate_filter"
  "initialized degenerate_filter"
  "data (P_cov degenerate_filter) i j = 0"
  "data (R_gps degenerate_filter) i j = 0"
  "data (R_baro degenerate_filter) i j = 0"
  "data (R_mag degenerate_filter) i j = 0"
  by (simp_all add: degenerate_filter_def example_filter_def well_shaped_def)

lemma degenerate_filter_inversion_fails:
  assumes "cols H = 16" "0 < rows H" "rows H \<le> 8" "rows R = rows H" "cols R = rows H"
    and "\<And>i j. data R i j = 0"
  shows "\<exists>Ht S. innovation_covariance degenerate_filter H R = Some (Ht, S) \<and>
           matrix_inverse S = Some Returned_false"
proof -
  have ws: "well_shaped degenerate_filter" by simp
  show ?thesis
    using assms ws
    by (simp add: innovation_covariance_closed well_shaped_def)
       (rule matrix_inverse_vanishing_column, simp_all)
qed

theorem failed_inversion_leaves_filter_witness:
  "ekf_update_gps (Ptr degenerate_filter) \<lparr>v_x = 1, v_y = 2, v_z = 3\<rparr> vector3f_zero
     = Some (False, Ptr degenerate_filter) \<and>
   ekf_update_baro (Ptr degenerate_filter) 5 = Some (False, Ptr degenerate_filter) \<and>
   ekf_update_mag (Ptr degenerate_filter) \<lparr>v_x = 1, v_y = 0, v_z = 0\<rparr>
     = Some (False, Ptr degenerate_filter)"
proof -
  obtain Ht1 S1 where
    gps: "innovation_covariance degenerate_filter (snd (ekf_compute_gps_jacobian degenerate_filter))
            (R_gps degenerate_filter) = Some (Ht1, S1)" "matrix_inverse S1 = Some Returned_false"
    using degenerate_filter_inversion_fails
      [of "snd (ekf_compute_gps_jacobian degenerate_filter)" "R_gps degenerate_filter"]
    by (auto simp: degenerate_filter_def example_filter_def)
  obtain Ht2 S2 where
    baro: "innovation_covariance degenerate_filter (snd (ekf_compute_baro_jacobian degenerate_filter))
            (R_baro degenerate_filter) = Some (Ht2, S2)" "matrix_inverse S2 = Some Returned_false"
    using degenerate_filter_inversion_fails
      [of "snd (ekf_compute_baro_jacobian degenerate_filter)" "R_baro degenerate_filter"]
    by (auto simp: degenerate_filter_def example_filter_def)
  obtain H where H: "ekf_compute_mag_jacobian degenerate_filter = Some (True, H)"
    using ekf_compute_mag_jacobian_defined [of degenerate_filter] by auto
  obtain Ht3 S3 where
    mag: "innovation_covariance degenerate_filter H (R_mag degenerate_filter) = Some (Ht3, S3)"
      "matrix_inverse S3 = Some Returned_false"
    using degenerate_filter_inversion_fails [of H "R_mag degenerate_filter"]
      ekf_compute_mag_jacobian_shape [OF H]
    by (auto simp: degenerate_filter_def example_filter_def)
  show ?thesis
    using failed_inversion_leaves_filter [of degenerate_filter Ht1 S1
        "\<lparr>v_x = 1, v_y = 2, v_z = 3\<rparr>" vector3f_zero Ht2 S2 5 True H Ht3 S3
        "\<lparr>v_x = 1, v_y = 0, v_z = 0\<rparr>"]
      gps baro H mag
    by simp
qed

section \<open>The propagation Jacobian\<close>

definition unit_vector :: "nat \<Rightarrow> Vector3f" where
  "unit_vector c = \<lparr>v_x = (if c = 0 then 1 else 0), v_y = (if c = 1 then 1 else 0),
                    v_z = (if c = 2 then 1 else 0)\<rparr>"

definition component :: "Vector3f \<Rightarrow> nat \<Rightarrow> real" where
  "component v r = (if r = 0 then v_x v else if r = 1 then v_y v else v_z v)"

definition rotation_matrix :: "Quaternion \<Rightarrow> nat \<Rightarrow> nat \<Rightarrow> real" where
  \<comment> \<open>The body-to-NED rotation matrix \<open>R(q)\<close> of the spec: the matrix that
     \<^verbatim>\<open>quaternion_rotate_vector\<close> applies. Its column \<open>c\<close> is the image of the unit vector \<open>c\<close>.\<close>
  "rotation_matrix q r c = component (quaternion_rotate_vector q (unit_vector c)) r"

definition jacobian_spec :: "Quaternion \<Rightarrow> real \<Rightarrow> nat \<Rightarrow> nat \<Rightarrow> real" where
  \<comment> \<open>The matrix \<open>F\<close> in the words of the spec: the identity plus the block \<open>dt \<cdot> I\<^sub>3\<close> (position
     rows, velocity columns), the \<open>4 \<times> 3\<close> attitude/gyro-bias block given row by row, and the
     block \<open>- R(q) \<cdot> dt\<close> (velocity rows, accelerometer-bias columns).\<close>
  "jacobian_spec q dt i j =
     (if i < 3 \<and> j = i + 3 then dt
      else if 6 \<le> i \<and> i < 10 \<and> 10 \<le> j \<and> j < 13 then
        [[- (1 / 2) * q_x q * dt, - (1 / 2) * q_y q * dt, - (1 / 2) * q_z q * dt],
         [1 / 2 * q_w q * dt, - (1 / 2) * q_z q * dt, 1 / 2 * q_y q * dt],
         [1 / 2 * q_z q * dt, 1 / 2 * q_w q * dt, - (1 / 2) * q_x q * dt],
         [- (1 / 2) * q_y q * dt, 1 / 2 * q_x q * dt, 1 / 2 * q_w q * dt]] ! (i - 6) ! (j - 10)
      else if 3 \<le> i \<and> i < 6 \<and> 13 \<le> j \<and> j < 16 then - rotation_matrix q (i - 3) (j - 13) * dt
      else if i = j then 1 else 0)"

lemma inline_normalization:
  "(if sqrt (w * w + x * x + y * y + z * z) < 1 / 1000000 then (1, 0, 0, 0)
    else (w / sqrt (w * w + x * x + y * y + z * z), x / sqrt (w * w + x * x + y * y + z * z),
          y / sqrt (w * w + x * x + y * y + z * z), z / sqrt (w * w + x * x + y * y + z * z)))
   = (let n = quaternion_normalize \<lparr>q_w = w, q_x = x, q_y = y, q_z = z\<rparr>
      in (q_w n, q_x n, q_y n, q_z n))"
  by (simp add: quaternion_normalize_def quaternion_magnitude_def quaternion_identity_def Let_def)

lemma rotation_matrix_unit:
  assumes "q_w q * q_w q + q_x q * q_x q + q_y q * q_y q + q_z q * q_z q = 1"
  shows "rotation_matrix q 0 0 = 1 - 2 * (q_y q * q_y q + q_z q * q_z q)"
    and "rotation_matrix q 0 (Suc 0) = 2 * (q_x q * q_y q - q_w q * q_z q)"
    and "rotation_matrix q 0 2 = 2 * (q_x q * q_z q + q_w q * q_y q)"
    and "rotation_matrix q (Suc 0) 0 = 2 * (q_x q * q_y q + q_w q * q_z q)"
    and "rotation_matrix q (Suc 0) (Suc 0) = 1 - 2 * (q_x q * q_x q + q_z q * q_z q)"
    and "rotation_matrix q (Suc 0) 2 = 2 * (q_y q * q_z q - q_w q * q_x q)"
    and "rotation_matrix q 2 0 = 2 * (q_x q * q_z q - q_w q * q_y q)"
    and "rotation_matrix q 2 (Suc 0) = 2 * (q_y q * q_z q + q_w q * q_x q)"
    and "rotation_matrix q 2 2 = 1 - 2 * (q_x q * q_x q + q_y q * q_y q)"
  using assms
  by (simp_all add: rotation_matrix_def component_def unit_vector_def quaternion_rotate_vector_def
      Let_def algebra_simps)

lemma below_16_cases:
  "row < (16 :: nat) \<Longrightarrow>
   row = 0 \<or> row = 1 \<or> row = 2 \<or> row = 3 \<or> row = 4 \<or> row = 5 \<or> row = 6 \<or> row = 7 \<or>
   row = 8 \<or> row = 9 \<or> row = 10 \<or> row = 11 \<or> row = 12 \<or> row = 13 \<or> row = 14 \<or> row = 15"
  by arith


definition jacobian_entries :: "real \<Rightarrow> real \<Rightarrow> real \<Rightarrow> real \<Rightarrow> real \<Rightarrow> Matrix" where
  \<comment> \<open>The matrix that \<^verbatim>\<open>ekf_compute_jacobian\<close> builds from the normalised quaternion components
     (lines 23-28 and 67-106), named for the proofs below.\<close>
  "jacobian_entries qw qx qy qz dt =
    (let F = matrix_identity EKF_STATE_DIM;
     F = snd (matrix_set F EKF_STATE_POS_X EKF_STATE_VEL_X dt);
     F = snd (matrix_set F EKF_STATE_POS_Y EKF_STATE_VEL_Y dt);
     F = snd (matrix_set F EKF_STATE_POS_Z EKF_STATE_VEL_Z dt);
     F = snd (matrix_set F EKF_STATE_QUAT_W EKF_STATE_GYRO_BIAS_X (- (1 / 2) * qx * dt));
     F = snd (matrix_set F EKF_STATE_QUAT_W EKF_STATE_GYRO_BIAS_Y (- (1 / 2) * qy * dt));
     F = snd (matrix_set F EKF_STATE_QUAT_W EKF_STATE_GYRO_BIAS_Z (- (1 / 2) * qz * dt));
     F = snd (matrix_set F EKF_STATE_QUAT_X EKF_STATE_GYRO_BIAS_X (1 / 2 * qw * dt));
     F = snd (matrix_set F EKF_STATE_QUAT_X EKF_STATE_GYRO_BIAS_Y (- (1 / 2) * qz * dt));
     F = snd (matrix_set F EKF_STATE_QUAT_X EKF_STATE_GYRO_BIAS_Z (1 / 2 * qy * dt));
     F = snd (matrix_set F EKF_STATE_QUAT_Y EKF_STATE_GYRO_BIAS_X (1 / 2 * qz * dt));
     F = snd (matrix_set F EKF_STATE_QUAT_Y EKF_STATE_GYRO_BIAS_Y (1 / 2 * qw * dt));
     F = snd (matrix_set F EKF_STATE_QUAT_Y EKF_STATE_GYRO_BIAS_Z (- (1 / 2) * qx * dt));
     F = snd (matrix_set F EKF_STATE_QUAT_Z EKF_STATE_GYRO_BIAS_X (- (1 / 2) * qy * dt));
     F = snd (matrix_set F EKF_STATE_QUAT_Z EKF_STATE_GYRO_BIAS_Y (1 / 2 * qx * dt));
     F = snd (matrix_set F EKF_STATE_QUAT_Z EKF_STATE_GYRO_BIAS_Z (1 / 2 * qw * dt));
     R11 = 1 - 2 * (qy * qy + qz * qz);
     R12 = 2 * (qx * qy - qw * qz);
     R13 = 2 * (qx * qz + qw * qy);
     R21 = 2 * (qx * qy + qw * qz);
     R22 = 1 - 2 * (qx * qx + qz * qz);
     R23 = 2 * (qy * qz - qw * qx);
     R31 = 2 * (qx * qz - qw * qy);
     R32 = 2 * (qy * qz + qw * qx);
     R33 = 1 - 2 * (qx * qx + qy * qy);
     F = snd (matrix_set F EKF_STATE_VEL_X EKF_STATE_ACC_BIAS_X (- R11 * dt));
     F = snd (matrix_set F EKF_STATE_VEL_X EKF_STATE_ACC_BIAS_Y (- R12 * dt));
     F = snd (matrix_set F EKF_STATE_VEL_X EKF_STATE_ACC_BIAS_Z (- R13 * dt));
     F = snd (matrix_set F EKF_STATE_VEL_Y EKF_STATE_ACC_BIAS_X (- R21 * dt));
     F = snd (matrix_set F EKF_STATE_VEL_Y EKF_STATE_ACC_BIAS_Y (- R22 * dt));
     F = snd (matrix_set F EKF_STATE_VEL_Y EKF_STATE_ACC_BIAS_Z (- R23 * dt));
     F = snd (matrix_set F EKF_STATE_VEL_Z EKF_STATE_ACC_BIAS_X (- R31 * dt));
     F = snd (matrix_set F EKF_STATE_VEL_Z EKF_STATE_ACC_BIAS_Y (- R32 * dt));
     F = snd (matrix_set F EKF_STATE_VEL_Z EKF_STATE_ACC_BIAS_Z (- R33 * dt))
     in F)"

lemma ekf_compute_jacobian_entries:
  assumes "rows (x_vec ekf) = 16" "cols (x_vec ekf) = 1"
  shows "ekf_compute_jacobian ekf dt
     = Some (True,
         let n = quaternion_normalize (state_quaternion (x_vec ekf))
         in jacobian_entries (q_w n) (q_x n) (q_y n) (q_z n) dt)"
proof -
  let ?w = "data (x_vec ekf) 6 0" and ?x = "data (x_vec ekf) 7 0"
  let ?y = "data (x_vec ekf) 8 0" and ?z = "data (x_vec ekf) 9 0"
  have "ekf_compute_jacobian ekf dt
      = Some (True,
          let (qw, qx, qy, qz) =
            (if sqrt (?w * ?w + ?x * ?x + ?y * ?y + ?z * ?z) < 1 / 1000000 then (1, 0, 0, 0)
             else (?w / sqrt (?w * ?w + ?x * ?x + ?y * ?y + ?z * ?z),
                   ?x / sqrt (?w * ?w + ?x * ?x + ?y * ?y + ?z * ?z),
                   ?y / sqrt (?w * ?w + ?x * ?x + ?y * ?y + ?z * ?z),
                   ?z / sqrt (?w * ?w + ?x * ?x + ?y * ?y + ?z * ?z)))
          in jacobian_entries qw qx qy qz dt)"
    using assms by (simp add: ekf_compute_jacobian_def jacobian_entries_def Let_def)
  then show ?thesis
    by (simp only: inline_normalization state_quaternion_def Let_def prod.case)
qed

lemma jacobian_entries_shape [simp]:
  "rows (jacobian_entries qw qx qy qz dt) = 16"
  "cols (jacobian_entries qw qx qy qz dt) = 16"
  by (simp_all add: jacobian_entries_def Let_def)

lemma jacobian_entries_cells:
  assumes "i < 16" "j < 16"
    and unit: "q_w q * q_w q + q_x q * q_x q + q_y q * q_y q + q_z q * q_z q = 1"
  shows "data (jacobian_entries (q_w q) (q_x q) (q_y q) (q_z q) dt) i j = jacobian_spec q dt i j"
  using below_16_cases [OF assms(1)] assms(2)
  by (elim disjE; simp add: jacobian_entries_def jacobian_spec_def Let_def
      rotation_matrix_unit [OF unit]; auto)


text \<open>
  Claim C5: the Jacobian \<open>F\<close> that \<^verbatim>\<open>ekf_predict\<close> computes (by \<^verbatim>\<open>ekf_compute_jacobian\<close>) is
  the \<open>16 \<times> 16\<close> identity plus exactly three blocks: \<open>dt \<cdot> I\<^sub>3\<close> in rows 0-2 against columns
  3-5; the \<open>4 \<times> 3\<close> block with the rows \<open>(-\<onehalf>q\<^sub>x dt, -\<onehalf>q\<^sub>y dt, -\<onehalf>q\<^sub>z dt)\<close>,
  \<open>(\<onehalf>q\<^sub>w dt, -\<onehalf>q\<^sub>z dt, \<onehalf>q\<^sub>y dt)\<close>, \<open>(\<onehalf>q\<^sub>z dt, \<onehalf>q\<^sub>w dt, -\<onehalf>q\<^sub>x dt)\<close>,
  \<open>(-\<onehalf>q\<^sub>y dt, \<onehalf>q\<^sub>x dt, \<onehalf>q\<^sub>w dt)\<close> in rows 6-9 against columns 10-12, \<open>q\<close> being the
  normalised quaternion of the state; and \<open>- R(q) \<cdot> dt\<close> in rows 3-5 against columns 13-15;
  every other entry off the diagonal is zero.
\<close>

theorem jacobian_blocks:
  assumes "well_shaped ekf"
  shows "\<exists>F. ekf_compute_jacobian ekf dt = Some (True, F) \<and> rows F = 16 \<and> cols F = 16 \<and>
           (\<forall>i<16. \<forall>j<16.
              data F i j = jacobian_spec (quaternion_normalize (state_quaternion (x_vec ekf))) dt i j)"
  using assms
  by (simp add: well_shaped_def ekf_compute_jacobian_entries Let_def jacobian_entries_cells
      quaternion_normalize_unit)

theorem jacobian_blocks_witness:
  "\<exists>F. ekf_compute_jacobian example_filter (1 / 100) = Some (True, F) \<and>
         rows F = 16 \<and> cols F = 16 \<and>
         (\<forall>i<16. \<forall>j<16.
            data F i j
              = jacobian_spec (quaternion_normalize (state_quaternion (x_vec example_filter)))
                  (1 / 100) i j)"
  by (rule jacobian_blocks) simp

section \<open>The inertial step\<close>

definition state_position :: "Matrix \<Rightarrow> Vector3f" where
  "state_position x = \<lparr>v_x = data x EKF_STATE_POS_X 0, v_y = data x EKF_STATE_POS_Y 0,
                        v_z = data x EKF_STATE_POS_Z 0\<rparr>"

definition state_velocity :: "Matrix \<Rightarrow> Vector3f" where
  "state_velocity x = \<lparr>v_x = data x EKF_STATE_VEL_X 0, v_y = data x EKF_STATE_VEL_Y 0,
                        v_z = data x EKF_STATE_VEL_Z 0\<rparr>"

definition state_gyro_bias :: "Matrix \<Rightarrow> Vector3f" where
  "state_gyro_bias x = \<lparr>v_x = data x EKF_STATE_GYRO_BIAS_X 0, v_y = data x EKF_STATE_GYRO_BIAS_Y 0,
                         v_z = data x EKF_STATE_GYRO_BIAS_Z 0\<rparr>"

definition state_accel_bias :: "Matrix \<Rightarrow> Vector3f" where
  "state_accel_bias x = \<lparr>v_x = data x EKF_STATE_ACC_BIAS_X 0, v_y = data x EKF_STATE_ACC_BIAS_Y 0,
                          v_z = data x EKF_STATE_ACC_BIAS_Z 0\<rparr>"

definition integrated_quaternion :: "Quaternion \<Rightarrow> Vector3f \<Rightarrow> real \<Rightarrow> Quaternion" where
  \<comment> \<open>Step 2 of the spec's propagation: \<open>q + q\<^sub>d\<^sub>o\<^sub>t \<cdot> dt\<close>, renormalised.\<close>
  "integrated_quaternion q omega dt =
     (let q_dot = quaternion_derivative q omega
      in quaternion_normalize
           \<lparr>q_w = q_w q + q_w q_dot * dt, q_x = q_x q + q_x q_dot * dt,
            q_y = q_y q + q_y q_dot * dt, q_z = q_z q + q_z q_dot * dt\<rparr>)"

definition velocity_step :: "Quaternion \<Rightarrow> Vector3f \<Rightarrow> Vector3f \<Rightarrow> real \<Rightarrow> real \<Rightarrow> Vector3f" where
  \<comment> \<open>Steps 3 to 5 of the spec's propagation with the rotation taken from \<open>q\<close>:
     \<open>v + (R(q) \<cdot> a - (0, 0, g)) \<cdot> dt\<close>.\<close>
  "velocity_step q v a g dt =
     vector3f_add v
       (vector3f_scale (vector3f_subtract (quaternion_rotate_vector q a) (vector3f_create 0 0 g)) dt)"

lemma Quaternion_eta [simp]:
  "\<lparr>q_w = q_w q, q_x = q_x q, q_y = q_y q, q_z = q_z q\<rparr> = (q :: Quaternion)"
  by (cases q) simp

lemma Vector3f_eta [simp]:
  "\<lparr>v_x = v_x v, v_y = v_y v, v_z = v_z v\<rparr> = (v :: Vector3f)"
  by (cases v) simp

lemma ekf_predict_state_closed:
  assumes "rows (x_vec ekf) = 16" "cols (x_vec ekf) = 1"
  shows "\<exists>ekf1. ekf_predict_state ekf gyro accel dt = Some ekf1 \<and>
           ekf1 = ekf\<lparr>x_vec := x_vec ekf1\<rparr> \<and>
           rows (x_vec ekf1) = 16 \<and> cols (x_vec ekf1) = 1 \<and>
           state_quaternion (x_vec ekf1)
             = integrated_quaternion (quaternion_normalize (state_quaternion (x_vec ekf)))
                 (vector3f_subtract gyro (state_gyro_bias (x_vec ekf))) dt \<and>
           state_velocity (x_vec ekf1)
             = velocity_step (state_quaternion (x_vec ekf1)) (state_velocity (x_vec ekf))
                 (vector3f_subtract accel (state_accel_bias (x_vec ekf))) (gravity ekf) dt \<and>
           state_position (x_vec ekf1)
             = vector3f_add (state_position (x_vec ekf))
                 (vector3f_scale (state_velocity (x_vec ekf1)) dt) \<and>
           state_gyro_bias (x_vec ekf1) = state_gyro_bias (x_vec ekf) \<and>
           state_accel_bias (x_vec ekf1) = state_accel_bias (x_vec ekf)"
  using assms
  by (simp add: ekf_predict_state_def set_state_def Let_def state_quaternion_def
      state_velocity_def state_position_def state_gyro_bias_def state_accel_bias_def
      integrated_quaternion_def velocity_step_def quaternion_create_def vector3f_create_def
      vector3f_subtract_def vector3f_add_def vector3f_scale_def)


lemma triple_product_sum:
  "(\<Sum>l<n. (\<Sum>k<n. f k * p k l) * g l) = (\<Sum>k<n. \<Sum>l<n. f k * p k l * (g l :: real))"
proof -
  have "(\<Sum>l<n. (\<Sum>k<n. f k * p k l) * g l) = (\<Sum>l<n. \<Sum>k<n. f k * p k l * g l)"
    by (simp add: sum_distrib_right)
  also have "\<dots> = (\<Sum>k<n. \<Sum>l<n. f k * p k l * g l)"
    by (rule sum.swap)
  finally show ?thesis .
qed

lemma ekf_predict_covariance_closed:
  assumes "rows (P_cov ekf) = 16" "cols (P_cov ekf) = 16"
    and "rows (Q_cov ekf) = 16" "cols (Q_cov ekf) = 16"
    and F: "ekf_compute_jacobian ekf dt = Some (ok, F)" "rows F = 16" "cols F = 16"
  shows "\<exists>ekf'. ekf_predict_covariance ekf dt = Some ekf' \<and>
           ekf' = ekf\<lparr>P_cov := P_cov ekf'\<rparr> \<and>
           rows (P_cov ekf') = 16 \<and> cols (P_cov ekf') = 16 \<and>
           (\<forall>i<16. \<forall>j<16.
              data (P_cov ekf') i j
                = (\<Sum>k<16. \<Sum>l<16. data F i k * data (P_cov ekf) k l * data F j l)
                  + data (Q_cov ekf) i j * dt)"
  using assms
  by (simp add: ekf_predict_covariance_def binop_call_multiply binop_call_add
      unop_call_transpose unop_call_scale Let_def triple_product_sum [symmetric]
      cong: sum.cong_simp)

lemma ekf_predict_result:
  assumes "well_shaped ekf" and "initialized ekf" and "0 < dt"
  shows "\<exists>ekf1 F ekf'.
           ekf_predict_state ekf gyro accel dt = Some ekf1 \<and>
           ekf_compute_jacobian ekf1 dt = Some (True, F) \<and>
           ekf_predict (Ptr ekf) gyro accel dt = Some (True, Ptr ekf') \<and>
           x_vec ekf' = x_vec ekf1 \<and>
           ekf' = ekf\<lparr>x_vec := x_vec ekf', P_cov := P_cov ekf'\<rparr> \<and>
           rows (x_vec ekf') = 16 \<and> cols (x_vec ekf') = 1 \<and>
           state_quaternion (x_vec ekf')
             = integrated_quaternion (quaternion_normalize (state_quaternion (x_vec ekf)))
                 (vector3f_subtract gyro (state_gyro_bias (x_vec ekf))) dt \<and>
           state_velocity (x_vec ekf')
             = velocity_step (state_quaternion (x_vec ekf')) (state_velocity (x_vec ekf))
                 (vector3f_subtract accel (state_accel_bias (x_vec ekf))) (gravity ekf) dt \<and>
           state_position (x_vec ekf')
             = vector3f_add (state_position (x_vec ekf))
                 (vector3f_scale (state_velocity (x_vec ekf')) dt) \<and>
           state_gyro_bias (x_vec ekf') = state_gyro_bias (x_vec ekf) \<and>
           state_accel_bias (x_vec ekf') = state_accel_bias (x_vec ekf) \<and>
           rows (P_cov ekf') = 16 \<and> cols (P_cov ekf') = 16 \<and>
           (\<forall>i<16. \<forall>j<16.
              data (P_cov ekf') i j
                = (\<Sum>k<16. \<Sum>l<16. data F i k * data (P_cov ekf) k l * data F j l)
                  + data (Q_cov ekf) i j * dt)"
proof -
  from assms(1) have x: "rows (x_vec ekf) = 16" "cols (x_vec ekf) = 1"
    by (simp_all add: well_shaped_def)
  from ekf_predict_state_closed [OF x, of gyro accel dt] obtain ekf1 where
    s: "ekf_predict_state ekf gyro accel dt = Some ekf1" and
    e: "ekf1 = ekf\<lparr>x_vec := x_vec ekf1\<rparr>" and
    x1: "rows (x_vec ekf1) = 16" "cols (x_vec ekf1) = 1" and
    st: "state_quaternion (x_vec ekf1)
           = integrated_quaternion (quaternion_normalize (state_quaternion (x_vec ekf)))
               (vector3f_subtract gyro (state_gyro_bias (x_vec ekf))) dt"
      "state_velocity (x_vec ekf1)
           = velocity_step (state_quaternion (x_vec ekf1)) (state_velocity (x_vec ekf))
               (vector3f_subtract accel (state_accel_bias (x_vec ekf))) (gravity ekf) dt"
      "state_position (x_vec ekf1)
           = vector3f_add (state_position (x_vec ekf))
               (vector3f_scale (state_velocity (x_vec ekf1)) dt)"
      "state_gyro_bias (x_vec ekf1) = state_gyro_bias (x_vec ekf)"
      "state_accel_bias (x_vec ekf1) = state_accel_bias (x_vec ekf)"
    by blast
  have pq: "P_cov ekf1 = P_cov ekf" "Q_cov ekf1 = Q_cov ekf"
    by (subst e, simp)+
  from x1 have j: "ekf_compute_jacobian ekf1 dt
      = Some (True, let n = quaternion_normalize (state_quaternion (x_vec ekf1))
                    in jacobian_entries (q_w n) (q_x n) (q_y n) (q_z n) dt)"
    by (rule ekf_compute_jacobian_entries)
  define F where "F = (let n = quaternion_normalize (state_quaternion (x_vec ekf1))
                       in jacobian_entries (q_w n) (q_x n) (q_y n) (q_z n) dt)"
  have F: "ekf_compute_jacobian ekf1 dt = Some (True, F)" "rows F = 16" "cols F = 16"
    by (simp_all add: j F_def Let_def)
  from assms(1) have shapes: "rows (P_cov ekf1) = 16" "cols (P_cov ekf1) = 16"
    "rows (Q_cov ekf1) = 16" "cols (Q_cov ekf1) = 16"
    by (simp_all add: pq well_shaped_def)
  from ekf_predict_covariance_closed [OF shapes F] obtain ekf' where
    c: "ekf_predict_covariance ekf1 dt = Some ekf'" and
    e': "ekf' = ekf1\<lparr>P_cov := P_cov ekf'\<rparr>" and
    p: "rows (P_cov ekf') = 16" "cols (P_cov ekf') = 16"
      "\<forall>i<16. \<forall>j<16.
         data (P_cov ekf') i j
           = (\<Sum>k<16. \<Sum>l<16. data F i k * data (P_cov ekf1) k l * data F j l)
             + data (Q_cov ekf1) i j * dt"
    by blast
  have r: "ekf_predict (Ptr ekf) gyro accel dt = Some (True, Ptr ekf')"
    using assms(2,3) by (simp add: ekf_predict_def s c)
  have xe: "x_vec ekf' = x_vec ekf1"
    by (subst e', simp)
  have ee: "ekf' = ekf\<lparr>x_vec := x_vec ekf', P_cov := P_cov ekf'\<rparr>"
  proof -
    have "ekf' = (ekf\<lparr>x_vec := x_vec ekf1\<rparr>)\<lparr>P_cov := P_cov ekf'\<rparr>"
      using e e' by simp
    then show ?thesis using xe by simp
  qed
  show ?thesis
    apply (rule exI [of _ ekf1], rule exI [of _ F], rule exI [of _ ekf'])
    using s F(1) r ee x1 st p unfolding pq xe by (intro conjI) (assumption | rule refl)+
qed

text \<open>
  Claim C3: for every initialised filter and every \<open>dt > 0\<close>, \<^verbatim>\<open>ekf_predict\<close> succeeds and sets
  the covariance to exactly \<open>P' = F \<cdot> P \<cdot> F\<^sup>T + Q \<cdot> dt\<close>, where \<open>F\<close> is the Jacobian computed (from
  the propagated state), \<open>P\<close> the covariance before the call, and \<open>Q\<close> the stored process
  noise, scaled by \<open>dt\<close> and not by \<open>dt\<^sup>2\<close>.
\<close>

theorem covariance_propagation:
  assumes "well_shaped ekf" and "initialized ekf" and "0 < dt"
  shows "\<exists>ekf1 F ekf'.
           ekf_predict_state ekf gyro accel dt = Some ekf1 \<and>
           ekf_compute_jacobian ekf1 dt = Some (True, F) \<and>
           ekf_predict (Ptr ekf) gyro accel dt = Some (True, Ptr ekf') \<and>
           rows (P_cov ekf') = 16 \<and> cols (P_cov ekf') = 16 \<and>
           (\<forall>i<16. \<forall>j<16.
              data (P_cov ekf') i j
                = (\<Sum>k<16. \<Sum>l<16. data F i k * data (P_cov ekf) k l * data F j l)
                  + data (Q_cov ekf) i j * dt)"
  using ekf_predict_result [OF assms, of gyro accel] by blast

theorem covariance_propagation_witness:
  "\<exists>ekf1 F ekf'.
     ekf_predict_state (example_filter\<lparr>initialized := True\<rparr>) \<lparr>v_x = 0, v_y = 0, v_z = 3 / 2\<rparr>
       \<lparr>v_x = 1, v_y = 0, v_z = 0\<rparr> 1 = Some ekf1 \<and>
     ekf_compute_jacobian ekf1 1 = Some (True, F) \<and>
     ekf_predict (Ptr (example_filter\<lparr>initialized := True\<rparr>)) \<lparr>v_x = 0, v_y = 0, v_z = 3 / 2\<rparr>
       \<lparr>v_x = 1, v_y = 0, v_z = 0\<rparr> 1 = Some (True, Ptr ekf') \<and>
     rows (P_cov ekf') = 16 \<and> cols (P_cov ekf') = 16 \<and>
     (\<forall>i<16. \<forall>j<16.
        data (P_cov ekf') i j
          = (\<Sum>k<16. \<Sum>l<16. data F i k * data (P_cov (example_filter\<lparr>initialized := True\<rparr>)) k l
                * data F j l)
            + data (Q_cov (example_filter\<lparr>initialized := True\<rparr>)) i j * 1)"
  by (rule covariance_propagation) simp_all


section \<open>Which quaternion rotates the specific force\<close>

lemma sqrt_25_16: "sqrt (25 / 16) = 5 / 4"
  by (rule real_sqrt_unique) (simp_all add: power2_eq_square)

lemma example_filter_state [simp]:
  "state_quaternion (x_vec example_filter) = quaternion_identity"
  "state_velocity (x_vec example_filter) = vector3f_zero"
  "state_position (x_vec example_filter) = vector3f_zero"
  "state_gyro_bias (x_vec example_filter) = vector3f_zero"
  "state_accel_bias (x_vec example_filter) = vector3f_zero"
  "gravity example_filter = 980665 / 100000"
  by (simp_all add: example_filter_def state_quaternion_def state_velocity_def
      state_position_def state_gyro_bias_def state_accel_bias_def quaternion_identity_def
      vector3f_zero_def)

lemma quaternion_normalize_identity [simp]:
  "quaternion_normalize quaternion_identity = quaternion_identity"
  by (simp add: quaternion_normalize_def quaternion_magnitude_def quaternion_identity_def)

lemma integrated_quaternion_example:
  "integrated_quaternion quaternion_identity \<lparr>v_x = 0, v_y = 0, v_z = 3 / 2\<rparr> 1
     = \<lparr>q_w = 4 / 5, q_x = 0, q_y = 0, q_z = 3 / 5\<rparr>"
  by (simp add: integrated_quaternion_def quaternion_derivative_def quaternion_multiply_def
      quaternion_identity_def quaternion_normalize_def quaternion_magnitude_def Let_def
      sqrt_25_16)


definition started_filter :: EKF where
  \<comment> \<open>The example filter after initialisation: at rest at the origin, identity attitude.\<close>
  "started_filter = example_filter\<lparr>initialized := True\<rparr>"

lemma started_filter_simps [simp]:
  "well_shaped started_filter"
  "initialized started_filter"
  "x_vec started_filter = x_vec example_filter"
  "gravity started_filter = 980665 / 100000"
  by (simp_all add: started_filter_def)

text \<open>
  Claim C2, as stated: \<^verbatim>\<open>ekf_predict\<close> rotates the bias-corrected accelerometer vector by the
  quaternion as it was before the integration step (normalised). On the started example
  filter (identity attitude, at rest, no bias) with angular rate \<open>(0, 0, 3/2)\<close>, specific
  force \<open>(1, 0, 0)\<close> and \<open>dt = 1\<close>, that quaternion is the identity and would give the
  velocity \<open>(1, 0, -g)\<close>; the code stores \<open>(7/25, 24/25, -g)\<close>, the rotation by the
  integrated quaternion \<open>(4/5, 0, 0, 3/5)\<close>.
\<close>

theorem predict_rotation_not_pre_update:
  "\<exists>ekf'. ekf_predict (Ptr started_filter) \<lparr>v_x = 0, v_y = 0, v_z = 3 / 2\<rparr>
             \<lparr>v_x = 1, v_y = 0, v_z = 0\<rparr> 1 = Some (True, Ptr ekf') \<and>
         state_velocity (x_vec ekf') = \<lparr>v_x = 7 / 25, v_y = 24 / 25, v_z = - (980665 / 100000)\<rparr> \<and>
         velocity_step (quaternion_normalize (state_quaternion (x_vec started_filter)))
           (state_velocity (x_vec started_filter))
           (vector3f_subtract \<lparr>v_x = 1, v_y = 0, v_z = 0\<rparr> (state_accel_bias (x_vec started_filter)))
           (gravity started_filter) 1
           = \<lparr>v_x = 1, v_y = 0, v_z = - (980665 / 100000)\<rparr>"
proof -
  have pre: "velocity_step quaternion_identity vector3f_zero
        (vector3f_subtract \<lparr>v_x = 1, v_y = 0, v_z = 0\<rparr> vector3f_zero) (980665 / 100000) 1
      = \<lparr>v_x = 1, v_y = 0, v_z = - (980665 / 100000)\<rparr>"
    by (simp add: velocity_step_def quaternion_rotate_vector_def quaternion_identity_def
        vector3f_zero_def vector3f_subtract_def vector3f_add_def vector3f_scale_def
        vector3f_create_def Let_def)
  have post: "velocity_step \<lparr>q_w = 4 / 5, q_x = 0, q_y = 0, q_z = 3 / 5\<rparr> vector3f_zero
        (vector3f_subtract \<lparr>v_x = 1, v_y = 0, v_z = 0\<rparr> vector3f_zero) (980665 / 100000) 1
      = \<lparr>v_x = 7 / 25, v_y = 24 / 25, v_z = - (980665 / 100000)\<rparr>"
    by (simp add: velocity_step_def quaternion_rotate_vector_def
        vector3f_zero_def vector3f_subtract_def vector3f_add_def vector3f_scale_def
        vector3f_create_def Let_def)
  have omega: "vector3f_subtract \<lparr>v_x = 0, v_y = 0, v_z = 3 / 2\<rparr> vector3f_zero
      = \<lparr>v_x = 0, v_y = 0, v_z = 3 / 2\<rparr>"
    by (simp add: vector3f_subtract_def vector3f_zero_def)
  from ekf_predict_result [of started_filter 1 "\<lparr>v_x = 0, v_y = 0, v_z = 3 / 2\<rparr>"
      "\<lparr>v_x = 1, v_y = 0, v_z = 0\<rparr>"]
  obtain ekf' where
    "ekf_predict (Ptr started_filter) \<lparr>v_x = 0, v_y = 0, v_z = 3 / 2\<rparr>
       \<lparr>v_x = 1, v_y = 0, v_z = 0\<rparr> 1 = Some (True, Ptr ekf')"
    "state_quaternion (x_vec ekf') = \<lparr>q_w = 4 / 5, q_x = 0, q_y = 0, q_z = 3 / 5\<rparr>"
    "state_velocity (x_vec ekf')
       = velocity_step (state_quaternion (x_vec ekf')) vector3f_zero
           (vector3f_subtract \<lparr>v_x = 1, v_y = 0, v_z = 0\<rparr> vector3f_zero) (980665 / 100000) 1"
    by (auto simp: omega integrated_quaternion_example)
  then show ?thesis
    using pre post by simp
qed

text \<open>
  Claim C2, amended: \<^verbatim>\<open>ekf_predict\<close> rotates the bias-corrected accelerometer vector by the
  quaternion produced by the integration step (\<open>q + q\<^sub>d\<^sub>o\<^sub>t \<cdot> dt\<close>, renormalised, where \<open>q\<close> is
  the normalised quaternion of the state before the call): this is the quaternion it
  stores in the state, and the new velocity is \<open>v + (R(q\<^sub>n\<^sub>e\<^sub>w) \<cdot> (a - b\<^sub>a) - (0, 0, g)) \<cdot> dt\<close>.
\<close>

theorem predict_rotates_with_integrated_quaternion:
  assumes "well_shaped ekf" and "initialized ekf" and "0 < dt"
  shows "\<exists>ekf'. ekf_predict (Ptr ekf) gyro accel dt = Some (True, Ptr ekf') \<and>
           state_quaternion (x_vec ekf')
             = integrated_quaternion (quaternion_normalize (state_quaternion (x_vec ekf)))
                 (vector3f_subtract gyro (state_gyro_bias (x_vec ekf))) dt \<and>
           state_velocity (x_vec ekf')
             = velocity_step (state_quaternion (x_vec ekf')) (state_velocity (x_vec ekf))
                 (vector3f_subtract accel (state_accel_bias (x_vec ekf))) (gravity ekf) dt"
  using ekf_predict_result [OF assms, of gyro accel] by blast

theorem predict_rotates_with_integrated_quaternion_witness:
  "\<exists>ekf'. ekf_predict (Ptr started_filter) \<lparr>v_x = 0, v_y = 0, v_z = 3 / 2\<rparr>
             \<lparr>v_x = 1, v_y = 0, v_z = 0\<rparr> 1 = Some (True, Ptr ekf') \<and>
           state_quaternion (x_vec ekf')
             = integrated_quaternion (quaternion_normalize (state_quaternion (x_vec started_filter)))
                 (vector3f_subtract \<lparr>v_x = 0, v_y = 0, v_z = 3 / 2\<rparr>
                    (state_gyro_bias (x_vec started_filter))) 1 \<and>
           state_velocity (x_vec ekf')
             = velocity_step (state_quaternion (x_vec ekf')) (state_velocity (x_vec started_filter))
                 (vector3f_subtract \<lparr>v_x = 1, v_y = 0, v_z = 0\<rparr>
                    (state_accel_bias (x_vec started_filter))) (gravity started_filter) 1"
  by (rule predict_rotates_with_integrated_quaternion) simp_all

section \<open>The norm of the quaternion sub-state\<close>

datatype operation =
    Set_initial_state Vector3f Vector3f Quaternion
  | Reset
  | Predict Vector3f Vector3f real
  | Update_gps Vector3f Vector3f
  | Update_baro real
  | Update_mag Vector3f
  | Set_process_noise real real real real real
  | Set_gps_noise real real
  | Set_baro_noise real
  | Set_mag_noise real
  | Set_earth_magnetic_field Vector3f
  | Initialize_magnetic_field "Vector3f list ptr" "Vector3f list ptr" int
  | Initialize_default_magnetic_field

fun perform :: "operation \<Rightarrow> EKF ptr \<Rightarrow> (bool \<times> EKF ptr) option" where
  \<comment> \<open>A call of a public operation on a filter.\<close>
  "perform (Set_initial_state pos vel q) p = ekf_set_initial_state p pos vel q"
| "perform Reset p = ekf_reset p"
| "perform (Predict gyro accel dt) p = ekf_predict p gyro accel dt"
| "perform (Update_gps pos vel) p = ekf_update_gps p pos vel"
| "perform (Update_baro altitude) p = ekf_update_baro p altitude"
| "perform (Update_mag mag) p = ekf_update_mag p mag"
| "perform (Set_process_noise a b c d e) p = Some (ekf_set_process_noise p a b c d e)"
| "perform (Set_gps_noise a b) p = Some (ekf_set_gps_noise p a b)"
| "perform (Set_baro_noise a) p = Some (ekf_set_baro_noise p a)"
| "perform (Set_mag_noise a) p = Some (ekf_set_mag_noise p a)"
| "perform (Set_earth_magnetic_field m) p = Some (ekf_set_earth_magnetic_field p m)"
| "perform (Initialize_magnetic_field ms as n) p = ekf_initialize_magnetic_field p ms as n"
| "perform Initialize_default_magnetic_field p = Some (ekf_initialize_default_magnetic_field p)"

fun is_configuration :: "operation \<Rightarrow> bool" where
  "is_configuration (Set_process_noise a b c d e) = True"
| "is_configuration (Set_gps_noise a b) = True"
| "is_configuration (Set_baro_noise a) = True"
| "is_configuration (Set_mag_noise a) = True"
| "is_configuration (Set_earth_magnetic_field m) = True"
| "is_configuration (Initialize_magnetic_field ms as n) = True"
| "is_configuration Initialize_default_magnetic_field = True"
| "is_configuration _ = False"

lemma ekf_init_result:
  "\<exists>ekf0. ekf_init (Ptr ekf) = Some (True, Ptr ekf0) \<and> well_shaped ekf0 \<and> \<not> initialized ekf0 \<and>
          (\<forall>i<16. data (x_vec ekf0) i 0 = 0)"
  by (simp add: ekf_init_def Let_def matrix_diagonal_vector_Ptr well_shaped_def)

text \<open>
  Claim C4 fails on the code. \<^verbatim>\<open>ekf_init\<close> builds the state vector with
  \<^verbatim>\<open>matrix_create(EKF_STATE_DIM, 1)\<close>, all zeros, and never writes the quaternion, whereas
  its sibling \<^verbatim>\<open>ekf_reset\<close> zeroes the state and then sets index 6 to 1 (lemma
  \<open>reset_after_init_has_unit_quaternion\<close> below). The state that \<^verbatim>\<open>ekf_init\<close> builds is
  reachable; \<^verbatim>\<open>ekf_set_baro_noise\<close> succeeds on it and leaves a quaternion sub-state of
  norm 0, not 1.
\<close>

theorem setter_after_init_has_zero_quaternion:
  "\<exists>ekf0 ekf'. ekf_init (Ptr example_filter) = Some (True, Ptr ekf0) \<and>
     perform (Set_baro_noise 1) (Ptr ekf0) = Some (True, Ptr ekf') \<and>
     quaternion_magnitude (state_quaternion (x_vec ekf')) = 0"
proof -
  from ekf_init_result [of example_filter] obtain ekf0 where
    i: "ekf_init (Ptr example_filter) = Some (True, Ptr ekf0)" and
    z: "\<forall>i<16. data (x_vec ekf0) i 0 = 0"
    by blast
  have "quaternion_magnitude (state_quaternion (x_vec ekf0)) = 0"
    using z by (simp add: quaternion_magnitude_def state_quaternion_def)
  then show ?thesis
    using i by (simp add: ekf_set_baro_noise_def)
qed

lemma ekf_update_state_covariance_quaternion:
  assumes "rows (x_vec ekf) = 16" "cols (x_vec ekf) = 1"
    and "ekf_update_state_covariance ekf K y H = Some (ok, ekf')"
  shows "\<exists>q. state_quaternion (x_vec ekf') = quaternion_normalize q"
proof -
  let ?x1 = "snd (binop_call_aliased matrix_add (x_vec ekf) dx)"
  have shape: "rows (snd (binop_call_aliased matrix_add (x_vec ekf) dx)) = 16"
    "cols (snd (binop_call_aliased matrix_add (x_vec ekf) dx)) = 1" for dx
    using assms(1,2) by (simp_all add: binop_call_aliased_add_shape)
  show ?thesis
    using assms(3)
    by (auto simp: ekf_update_state_covariance_def Let_def bind_eq_Some_conv shape
        set_state_def state_quaternion_def quaternion_create_def matrix_get_def)
qed


lemma gain_cases:
  assumes "(case gain of
              Returned_false \<Rightarrow> Some (False, Ptr ekf)
            | Returned_true K \<Rightarrow> do {
                (ok, ekf2) \<leftarrow> ekf_update_state_covariance ekf K y H;
                Some (ok, Ptr ekf2)
              }) = Some (True, Ptr ekf')"
  shows "\<exists>K. gain = Returned_true K \<and> ekf_update_state_covariance ekf K y H = Some (True, ekf')"
  using assms by (cases gain) (auto simp: bind_eq_Some_conv)

lemma update_success_quaternion:
  assumes "rows (x_vec ekf) = 16" "cols (x_vec ekf) = 1"
  shows "ekf_update_gps (Ptr ekf) pos vel = Some (True, Ptr ekf')
           \<Longrightarrow> \<exists>q. state_quaternion (x_vec ekf') = quaternion_normalize q"
    and "ekf_update_baro (Ptr ekf) altitude = Some (True, Ptr ekf')
           \<Longrightarrow> \<exists>q. state_quaternion (x_vec ekf') = quaternion_normalize q"
    and "ekf_update_mag (Ptr ekf) mag = Some (True, Ptr ekf')
           \<Longrightarrow> \<exists>q. state_quaternion (x_vec ekf') = quaternion_normalize q"
proof -
  note q = ekf_update_state_covariance_quaternion [OF assms]
  show "ekf_update_gps (Ptr ekf) pos vel = Some (True, Ptr ekf')
           \<Longrightarrow> \<exists>q. state_quaternion (x_vec ekf') = quaternion_normalize q"
    by (auto simp: ekf_update_gps_def bind_eq_Some_conv Let_def
        split: if_splits dest!: gain_cases dest: q)
  show "ekf_update_baro (Ptr ekf) altitude = Some (True, Ptr ekf')
           \<Longrightarrow> \<exists>q. state_quaternion (x_vec ekf') = quaternion_normalize q"
    by (auto simp: ekf_update_baro_def bind_eq_Some_conv Let_def
        split: if_splits dest!: gain_cases dest: q)
  show "ekf_update_mag (Ptr ekf) mag = Some (True, Ptr ekf')
           \<Longrightarrow> \<exists>q. state_quaternion (x_vec ekf') = quaternion_normalize q"
    by (auto simp: ekf_update_mag_def bind_eq_Some_conv Let_def
        split: if_splits dest!: gain_cases dest: q)
qed

lemma ekf_set_initial_state_result:
  assumes "well_shaped ekf"
  shows "\<exists>ekf'. ekf_set_initial_state (Ptr ekf) pos vel q = Some (True, Ptr ekf') \<and>
           state_quaternion (x_vec ekf') = quaternion_normalize q \<and>
           initialized ekf' \<and> well_shaped ekf'"
  using assms
  by (simp add: ekf_set_initial_state_def Let_def well_shaped_def matrix_diagonal_vector_Ptr
      set_state_def state_quaternion_def)

lemma set_initial_state_quaternion:
  assumes "well_shaped ekf"
    and "ekf_set_initial_state (Ptr ekf) pos vel q = Some (ok, Ptr ekf')"
  shows "state_quaternion (x_vec ekf') = quaternion_normalize q"
proof -
  from ekf_set_initial_state_result [OF assms(1), of pos vel q] obtain e where
    "ekf_set_initial_state (Ptr ekf) pos vel q = Some (True, Ptr e)"
    "state_quaternion (x_vec e) = quaternion_normalize q"
    by blast
  with assms(2) show ?thesis by simp
qed

lemma ekf_reset_state:
  assumes "well_shaped ekf"
  shows "\<exists>ekf'. ekf_reset (Ptr ekf) = Some (True, Ptr ekf') \<and>
           state_quaternion (x_vec ekf') = quaternion_identity \<and> well_shaped ekf'"
  using assms
  by (simp add: ekf_reset_def Let_def well_shaped_def matrix_diagonal_vector_Ptr
      set_state_def state_quaternion_def quaternion_identity_def)

lemma reset_quaternion:
  assumes "well_shaped ekf" and "ekf_reset (Ptr ekf) = Some (ok, Ptr ekf')"
  shows "state_quaternion (x_vec ekf') = quaternion_identity"
proof -
  from ekf_reset_state [OF assms(1)] obtain e where
    "ekf_reset (Ptr ekf) = Some (True, Ptr e)" "state_quaternion (x_vec e) = quaternion_identity"
    by blast
  with assms(2) show ?thesis by simp
qed

text \<open>
  The sibling path: on the filter that \<^verbatim>\<open>ekf_init\<close> builds, \<^verbatim>\<open>ekf_reset\<close> leaves the identity
  quaternion, of norm 1.
\<close>

lemma reset_after_init_has_unit_quaternion:
  "\<exists>ekf0 ekf1. ekf_init (Ptr example_filter) = Some (True, Ptr ekf0) \<and>
     ekf_reset (Ptr ekf0) = Some (True, Ptr ekf1) \<and>
     state_quaternion (x_vec ekf1) = quaternion_identity \<and>
     quaternion_magnitude (state_quaternion (x_vec ekf1)) = 1"
proof -
  from ekf_init_result [of example_filter] obtain ekf0 where
    i: "ekf_init (Ptr example_filter) = Some (True, Ptr ekf0)" and w: "well_shaped ekf0"
    by blast
  from ekf_reset_state [OF w] obtain ekf1 where
    r: "ekf_reset (Ptr ekf0) = Some (True, Ptr ekf1)"
      "state_quaternion (x_vec ekf1) = quaternion_identity"
    by blast
  from r(2) have "quaternion_magnitude (state_quaternion (x_vec ekf1)) = 1"
    by (simp add: quaternion_magnitude_def quaternion_identity_def)
  with i r show ?thesis
    by blast
qed

lemma predict_success_quaternion:
  assumes "well_shaped ekf" and "ekf_predict (Ptr ekf) gyro accel dt = Some (True, Ptr ekf')"
  shows "\<exists>q. state_quaternion (x_vec ekf') = quaternion_normalize q"
proof -
  from assms(2) have ok: "initialized ekf" "0 < dt"
    by (auto simp: ekf_predict_def split: if_splits)
  from ekf_predict_result [OF assms(1) ok, of gyro accel] obtain e where
    "ekf_predict (Ptr ekf) gyro accel dt = Some (True, Ptr e)"
    "state_quaternion (x_vec e)
       = integrated_quaternion (quaternion_normalize (state_quaternion (x_vec ekf)))
           (vector3f_subtract gyro (state_gyro_bias (x_vec ekf))) dt"
    by blast
  with assms(2) have "state_quaternion (x_vec ekf')
       = integrated_quaternion (quaternion_normalize (state_quaternion (x_vec ekf)))
           (vector3f_subtract gyro (state_gyro_bias (x_vec ekf))) dt"
    by simp
  then show ?thesis
    unfolding integrated_quaternion_def Let_def by blast
qed

text \<open>
  The extent of the defect, in exact arithmetic: the operations that write the quaternion
  (\<^verbatim>\<open>ekf_set_initial_state\<close>, \<^verbatim>\<open>ekf_reset\<close>, \<^verbatim>\<open>ekf_predict\<close> and the three updates) leave it
  with norm 1 when they succeed, and every configuration setter leaves the state vector as
  it was. So the setters break the unit norm only by keeping the zero quaternion of
  \<^verbatim>\<open>ekf_init\<close>. This is a property of the real-valued model: it does not cover a
  \<^verbatim>\<open>float\<close> sum of squares that overflows, where \<^verbatim>\<open>quaternion_normalize\<close> returns
  \<open>(0, 0, 0, 0)\<close> and \<^verbatim>\<open>ekf_set_initial_state\<close> and \<^verbatim>\<open>ekf_predict\<close> still report success.
\<close>

lemma quaternion_norm_exact_arithmetic:
  assumes "well_shaped ekf" and "perform op (Ptr ekf) = Some (True, Ptr ekf')"
  shows "if is_configuration op then x_vec ekf' = x_vec ekf
         else quaternion_magnitude (state_quaternion (x_vec ekf')) = 1"
proof -
  from assms(1) have x: "rows (x_vec ekf) = 16" "cols (x_vec ekf) = 1"
    by (simp_all add: well_shaped_def)
  have unit: "quaternion_magnitude (state_quaternion (x_vec ekf')) = 1"
    if "\<exists>q. state_quaternion (x_vec ekf') = quaternion_normalize q"
    using that by (auto simp: quaternion_normalize_magnitude)
  show ?thesis
  proof (cases op)
    case (Set_initial_state pos vel q)
    with assms show ?thesis
      by (auto intro!: unit dest: set_initial_state_quaternion)
  next
    case Reset
    with assms have "state_quaternion (x_vec ekf') = quaternion_identity"
      by (auto dest: reset_quaternion)
    with Reset show ?thesis
      by (simp add: quaternion_magnitude_def quaternion_identity_def)
  next
    case (Predict gyro accel dt)
    with assms show ?thesis
      by (auto intro!: unit dest: predict_success_quaternion)
  next
    case (Update_gps pos vel)
    with assms(2) show ?thesis
      by (auto intro!: unit dest: update_success_quaternion(1) [OF x])
  next
    case (Update_baro altitude)
    with assms(2) show ?thesis
      by (auto intro!: unit dest: update_success_quaternion(2) [OF x])
  next
    case (Update_mag mag)
    with assms(2) show ?thesis
      by (auto intro!: unit dest: update_success_quaternion(3) [OF x])
  next
    case (Set_process_noise a b c d e)
    with assms(2) show ?thesis
      by (auto simp: ekf_set_process_noise_def Let_def set_Q_def)
  next
    case (Set_gps_noise a b)
    with assms(2) show ?thesis
      by (auto simp: ekf_set_gps_noise_def Let_def set_R_gps_def)
  next
    case (Set_baro_noise a)
    with assms(2) show ?thesis
      by (auto simp: ekf_set_baro_noise_def)
  next
    case (Set_mag_noise a)
    with assms(2) show ?thesis
      by (auto simp: ekf_set_mag_noise_def Let_def set_R_mag_def)
  next
    case (Set_earth_magnetic_field m)
    with assms(2) show ?thesis
      by (auto simp: ekf_set_earth_magnetic_field_def)
  next
    case (Initialize_magnetic_field ms as n)
    with assms(2) show ?thesis
      by (auto simp: ekf_initialize_magnetic_field_def ekf_initialize_default_magnetic_field_def
          bind_eq_Some_conv split: if_splits)
  next
    case Initialize_default_magnetic_field
    with assms(2) show ?thesis
      by (auto simp: ekf_initialize_default_magnetic_field_def)
  qed
qed

section \<open>A barometer update, end to end\<close>

lemma sum_below_one: "(\<Sum>k<Suc 0. f k) = f 0"
  by simp

lemma sum_pick_left:
  "a < (n :: nat) \<Longrightarrow> (\<Sum>k<n. (if k = a then 1 else 0) * g k) = (g a :: real)"
proof -
  assume "a < n"
  have "(\<Sum>k<n. (if k = a then 1 else 0) * g k) = (\<Sum>k<n. if k = a then g k else 0)"
    by (rule sum.cong) simp_all
  then show ?thesis using \<open>a < n\<close> by (simp add: sum.delta)
qed

lemma sum_pick_right:
  "a < (n :: nat) \<Longrightarrow> (\<Sum>k<n. g k * (if k = a then 1 else 0)) = (g a :: real)"
proof -
  assume "a < n"
  have "(\<Sum>k<n. g k * (if k = a then 1 else 0)) = (\<Sum>k<n. if k = a then g k else 0)"
    by (rule sum.cong) simp_all
  then show ?thesis using \<open>a < n\<close> by (simp add: sum.delta)
qed

lemma ekf_update_baro_result:
  assumes ws: "well_shaped ekf" and init: "initialized ekf"
    and pivot: "1 / 1000000 \<le> \<bar>data (P_cov ekf) 2 2 + data (R_baro ekf) 0 0\<bar>"
  shows "\<exists>ekf'. ekf_update_baro (Ptr ekf) altitude = Some (True, Ptr ekf') \<and>
           rows (x_vec ekf') = 16 \<and> cols (x_vec ekf') = 1 \<and>
           (\<forall>i<16. i \<notin> {6, 7, 8, 9} \<longrightarrow>
              data (x_vec ekf') i 0
                = data (P_cov ekf) i 2 * (1 / (data (P_cov ekf) 2 2 + data (R_baro ekf) 0 0))
                  * (altitude - data (x_vec ekf) 2 0))"
proof -
  let ?H = "snd (ekf_compute_baro_jacobian ekf)"
  let ?s = "data (P_cov ekf) 2 2 + data (R_baro ekf) 0 0"
  from ws have sh: "rows (x_vec ekf) = 16" "cols (x_vec ekf) = 1"
    "rows (P_cov ekf) = 16" "cols (P_cov ekf) = 16"
    "rows (R_baro ekf) = 1" "cols (R_baro ekf) = 1"
    by (simp_all add: well_shaped_def)
  define Ht where "Ht = matrix_of 16 (rows ?H) (\<lambda>j i. data ?H i j)"
  define S where "S = matrix_of (rows ?H) (rows ?H)
      (\<lambda>i j. (\<Sum>l<16. (\<Sum>k<16. data ?H i k * data (P_cov ekf) k l) * data ?H j l)
              + data (R_baro ekf) i j)"
  have ic: "innovation_covariance ekf ?H (R_baro ekf) = Some (Ht, S)"
    unfolding Ht_def S_def by (rule innovation_covariance_closed) (simp_all add: sh)
  have S: "rows S = 1" "cols S = 1" "data S 0 0 = ?s"
    by (simp_all add: S_def sum_pick_left sum_pick_right cong: sum.cong_simp)
  from matrix_inverse_1x1 [OF S(1,2)] pivot S(3) obtain r where
    r: "matrix_inverse S = Some (Returned_true r)" "rows r = 1" "cols r = 1"
      "data r 0 0 = 1 / ?s"
    by auto
  define temp3 where "temp3 = matrix_of 16 1 (\<lambda>i j. \<Sum>k<16. data (P_cov ekf) i k * data Ht k j)"
  define K where "K = matrix_of 16 1 (\<lambda>i j. \<Sum>k<1. data temp3 i k * data r k j)"
  have t3: "written (binop_call matrix_multiply (P_cov ekf) Ht indeterminate) = Some temp3"
    by (simp add: binop_call_multiply sh Ht_def temp3_def)
  have k: "written (binop_call matrix_multiply temp3 r indeterminate) = Some K"
    by (simp add: binop_call_multiply r temp3_def K_def)
  have gain: "ekf_compute_kalman_gain ekf ?H (R_baro ekf) = Some (Returned_true K)"
    by (simp add: ekf_compute_kalman_gain_def ic r t3 k)
  have Kcell: "data K i 0 = data (P_cov ekf) i 2 * (1 / ?s)" if "i < 16" for i
    using that
    by (simp add: K_def temp3_def Ht_def r sum_pick_left sum_pick_right cong: sum.cong_simp)
  define y where "y = matrix_of 1 1
      (\<lambda>i j. data (snd (matrix_set (matrix_create 1 1) 0 0 altitude)) i j
             - data (snd (matrix_set (matrix_create 1 1) 0 0 (data (x_vec ekf) 2 0))) i j)"
  have yv: "written (binop_call matrix_subtract (snd (matrix_set (matrix_create 1 1) 0 0 altitude))
        (snd (matrix_set (matrix_create 1 1) 0 0 (data (x_vec ekf) 2 0))) indeterminate) = Some y"
    by (simp add: binop_call_subtract y_def)
  have y: "rows y = 1" "cols y = 1" "data y 0 0 = altitude - data (x_vec ekf) 2 0"
    by (simp_all add: y_def)
  have Ksh: "rows K = 16" "cols K = 1"
    by (simp_all add: K_def)
  from ekf_update_state_covariance_state [OF ws, of K y ?H] obtain ekf' where
    u: "ekf_update_state_covariance ekf K y ?H = Some (True, ekf')"
      "rows (x_vec ekf') = 16" "cols (x_vec ekf') = 1"
      "\<forall>i<16. i \<notin> {6, 7, 8, 9} \<longrightarrow>
          data (x_vec ekf') i 0 = (\<Sum>k<cols K. data K i k * data y k 0)"
    by (auto simp: Ksh y)
  have "ekf_update_baro (Ptr ekf) altitude = Some (True, Ptr ekf')"
    using init yv gain u(1)
    by (simp add: ekf_update_baro_def ekf_get_position_def sh Let_def)
  moreover have "\<forall>i<16. i \<notin> {6, 7, 8, 9} \<longrightarrow>
      data (x_vec ekf') i 0 = data (P_cov ekf) i 2 * (1 / ?s) * (altitude - data (x_vec ekf) 2 0)"
    using u(4) by (simp add: Ksh y Kcell)
  ultimately show ?thesis
    using u(2,3) by blast
qed


text \<open>
  An instance: a reset of the example filter and a barometer update of the started filter
  both leave a quaternion of norm 1, and \<^verbatim>\<open>ekf_set_baro_noise\<close> leaves the state vector of
  the example filter as it was.
\<close>

lemma quaternion_norm_exact_arithmetic_example:
  "\<exists>ekf1 ekf2 ekf3.
     well_shaped example_filter \<and> well_shaped started_filter \<and>
     perform Reset (Ptr example_filter) = Some (True, Ptr ekf1) \<and>
     quaternion_magnitude (state_quaternion (x_vec ekf1)) = 1 \<and>
     perform (Update_baro 3) (Ptr started_filter) = Some (True, Ptr ekf2) \<and>
     quaternion_magnitude (state_quaternion (x_vec ekf2)) = 1 \<and>
     perform (Set_baro_noise 2) (Ptr example_filter) = Some (True, Ptr ekf3) \<and>
     x_vec ekf3 = x_vec example_filter"
proof -
  from ekf_reset_state [of example_filter] obtain ekf1 where
    r: "perform Reset (Ptr example_filter) = Some (True, Ptr ekf1)"
    by auto
  have "1 / 1000000 \<le> \<bar>data (P_cov started_filter) 2 2 + data (R_baro started_filter) 0 0\<bar>"
    by (simp add: started_filter_def example_filter_def)
  from ekf_update_baro_result [OF _ _ this, of 3] obtain ekf2 where
    b: "perform (Update_baro 3) (Ptr started_filter) = Some (True, Ptr ekf2)"
    by auto
  obtain ekf3 where
    s: "perform (Set_baro_noise 2) (Ptr example_filter) = Some (True, Ptr ekf3)"
    by (simp add: ekf_set_baro_noise_def)
  from quaternion_norm_exact_arithmetic [of example_filter Reset ekf1] r
  have 1: "quaternion_magnitude (state_quaternion (x_vec ekf1)) = 1"
    by simp
  from quaternion_norm_exact_arithmetic [of started_filter "Update_baro 3" ekf2] b
  have 2: "quaternion_magnitude (state_quaternion (x_vec ekf2)) = 1"
    by simp
  from quaternion_norm_exact_arithmetic [of example_filter "Set_baro_noise 2" ekf3] s
  have 3: "x_vec ekf3 = x_vec example_filter"
    by simp
  from r b s 1 2 3 show ?thesis
    by (intro exI [of _ ekf1] exI [of _ ekf2] exI [of _ ekf3]) simp
qed

definition displaced_filter :: EKF where
  \<comment> \<open>The started example filter 5 m north of the origin, moving north at 2 m/s, at
     altitude 0, with identity attitude.\<close>
  "displaced_filter =
     started_filter
       \<lparr>x_vec := \<lparr>data = (\<lambda>i j. if j = 0 then (if i = 0 then 5 else if i = 3 then 2
                                            else if i = 6 then 1 else 0) else 0),
                  rows = 16, cols = 1\<rparr>\<rparr>"

lemma displaced_filter_simps [simp]:
  "well_shaped displaced_filter"
  "initialized displaced_filter"
  "data (P_cov displaced_filter) i j = (if i = j then 1 else 0)"
  "data (R_baro displaced_filter) i j = 1"
  "data (x_vec displaced_filter) i 0
     = (if i = 0 then 5 else if i = 3 then 2 else if i = 6 then 1 else 0)"
  by (simp_all add: displaced_filter_def started_filter_def example_filter_def well_shaped_def)

text \<open>
  Claim C6 fails on the code. The displaced filter is initialised and its quaternion has
  norm 1. The barometer reports the altitude 0 that the filter predicts, so the innovation
  is \<open>y = 0\<close>. The update succeeds, and the north position goes from 5 to 0 and the north
  velocity from 2 to 0: \<^verbatim>\<open>matrix_add(&ekf->x, &dx, &ekf->x)\<close> overwrites the state with
  \<open>K \<cdot> y\<close> instead of adding \<open>K \<cdot> y\<close> to it.
\<close>

theorem zero_innovation_update_erases_state:
  "\<exists>ekf'. ekf_update_baro (Ptr displaced_filter) 0 = Some (True, Ptr ekf') \<and>
     quaternion_magnitude (state_quaternion (x_vec displaced_filter)) = 1 \<and>
     data (x_vec displaced_filter) 2 0 = 0 \<and>
     data (x_vec displaced_filter) 0 0 = 5 \<and> data (x_vec ekf') 0 0 = 0 \<and>
     data (x_vec displaced_filter) 3 0 = 2 \<and> data (x_vec ekf') 3 0 = 0"
proof -
  from ekf_update_baro_result [of displaced_filter 0] obtain ekf' where
    u: "ekf_update_baro (Ptr displaced_filter) 0 = Some (True, Ptr ekf')"
      "\<forall>i<16. i \<notin> {6, 7, 8, 9} \<longrightarrow>
         data (x_vec ekf') i 0
           = data (P_cov displaced_filter) i 2
             * (1 / (data (P_cov displaced_filter) 2 2 + data (R_baro displaced_filter) 0 0))
             * (0 - data (x_vec displaced_filter) 2 0)"
    by auto
  from u(2) have "data (x_vec ekf') 0 0 = 0" "data (x_vec ekf') 3 0 = 0"
    by simp_all
  moreover have "quaternion_magnitude (state_quaternion (x_vec displaced_filter)) = 1"
    by (simp add: quaternion_magnitude_def state_quaternion_def)
  ultimately show ?thesis
    using u(1) by simp
qed

text \<open>
  The same defect at the level of the correction step, for every filter, gain and
  innovation of fitting dimensions: when the innovation is zero, every component of the
  state outside the quaternion becomes 0 and the quaternion becomes the identity, whatever
  the state was.
\<close>

lemma zero_innovation_correction:
  assumes "well_shaped ekf"
    and "rows K = 16" "cols K = rows y" "cols y = 1" "rows H = cols K" "cols H = 16"
    and "cols K \<le> 16"
    and zero: "\<And>k. k < rows y \<Longrightarrow> data y k 0 = 0"
  shows "\<exists>ekf'. ekf_update_state_covariance ekf K y H = Some (True, ekf') \<and>
           (\<forall>i<16. i \<notin> {6, 7, 8, 9} \<longrightarrow> data (x_vec ekf') i 0 = 0) \<and>
           state_quaternion (x_vec ekf') = quaternion_identity"
proof -
  have s: "(\<Sum>k<cols K. data K i k * data y k 0) = 0" for i
    by (rule sum.neutral) (simp add: zero assms(3))
  have n: "quaternion_normalize \<lparr>q_w = 0, q_x = 0, q_y = 0, q_z = 0\<rparr> = quaternion_identity"
    by (simp add: quaternion_normalize_def quaternion_magnitude_def)
  from ekf_update_state_covariance_state [OF assms(1-7)] have
    "\<exists>ekf'. ekf_update_state_covariance ekf K y H = Some (True, ekf') \<and>
       rows (x_vec ekf') = 16 \<and> cols (x_vec ekf') = Suc 0 \<and>
       (\<forall>i<16. i \<notin> {6, 7, 8, 9} \<longrightarrow> data (x_vec ekf') i 0 = 0) \<and>
       state_quaternion (x_vec ekf') = quaternion_identity"
    by (simp add: s n)
  then show ?thesis
    by blast
qed

section \<open>The inverse of a matrix of more than eight rows\<close>

text \<open>
  Claim C10 fails on the code. For the \<open>16 \<times> 16\<close> identity matrix (the size of the
  covariance), \<^verbatim>\<open>matrix_inverse\<close> leaves the storage: \<^verbatim>\<open>augmented.data[i][i + n] = 1.0f\<close>
  writes column \<open>i + 16\<close> of a row that has 16 columns. In general this happens
  for every square matrix of more than 8 rows (lemma \<open>matrix_inverse_leaves_storage\<close>).
\<close>

theorem matrix_inverse_identity_16_leaves_storage:
  "matrix_inverse (matrix_identity 16) = None"
  by (rule matrix_inverse_leaves_storage) simp_all

end
